(* ===== verification/Prelude.thy ===== *)
theory Prelude
  imports Complex_Main
begin

text \<open>
  Shared vocabulary of the development: the named collections the component theories
  fill, and generic facts on lists and options that the component proofs use through
  \<open>simp add:\<close> and \<open>auto simp:\<close>.
\<close>

named_theorems handler_defs
  \<open>unfolding equations of the event handlers of the control-tower page\<close>

named_theorems graph_defs
  \<open>unfolding equations of the graph loading, filtering and rendering code\<close>

subsection \<open>Lists\<close>

text \<open>Filtering a list twice with the same predicate is filtering it once.\<close>

lemma filter_idem [simp]: "filter P (filter P xs) = filter P xs"
  by (induction xs) auto

lemma filter_cong_set:
  "(\<And>x. x \<in> set xs \<Longrightarrow> P x = Q x) \<Longrightarrow> filter P xs = filter Q xs"
  by (rule filter_cong) auto

text \<open>The last element of a snoc; used for logs that are only ever appended to.\<close>

lemma in_set_snoc [simp]: "x \<in> set (xs @ [y]) \<longleftrightarrow> x \<in> set xs \<or> x = y"
  by auto

lemma list_update_snoc_last [simp]:
  "(xs @ [x])[length xs := y] = xs @ [y]"
  by (simp add: list_update_append)

lemma nth_update_other:
  "i \<noteq> j \<Longrightarrow> xs[j := v] ! i = xs ! i"
  by simp

subsection \<open>Maps and filters that may throw\<close>

text \<open>
  \<open>xs.map(f)\<close> and \<open>xs.filter(p)\<close> where \<open>f\<close> or \<open>p\<close> may throw:
  \<open>None\<close> as soon as one call throws, as the exception leaves the loop.
\<close>

fun map_all :: "('a \<Rightarrow> 'b option) \<Rightarrow> 'a list \<Rightarrow> 'b list option" where
  "map_all f [] = Some []"
| "map_all f (x # xs) =
     (case f x of None \<Rightarrow> None | Some y \<Rightarrow> map_option (Cons y) (map_all f xs))"

fun filter_opt :: "('a \<Rightarrow> bool option) \<Rightarrow> 'a list \<Rightarrow> 'a list option" where
  "filter_opt p [] = Some []"
| "filter_opt p (x # xs) =
     (case p x of
        None \<Rightarrow> None
      | Some b \<Rightarrow> map_option (\<lambda>ys. if b then x # ys else ys) (filter_opt p xs))"

lemma map_all_Some:
  "map_all f xs = Some ys \<Longrightarrow> length ys = length xs \<and> (\<forall>i < length xs. f (xs ! i) = Some (ys ! i))"
proof (induction xs arbitrary: ys)
  case Nil
  then show ?case by simp
next
  case (Cons x xs)
  then show ?case by (auto simp: nth_Cons split: option.splits nat.splits)
qed

lemma map_all_total: "(\<And>x. x \<in> set xs \<Longrightarrow> f x = Some (g x)) \<Longrightarrow> map_all f xs = Some (map g xs)"
  by (induction xs) auto

lemma filter_opt_Some_filter:
  "filter_opt p xs = Some ys \<Longrightarrow> ys = filter (\<lambda>x. p x = Some True) xs"
  by (induction xs arbitrary: ys) (auto split: option.splits)

lemma filter_opt_total:
  "(\<And>x. x \<in> set xs \<Longrightarrow> p x = Some (q x)) \<Longrightarrow> filter_opt p xs = Some (filter q xs)"
  by (induction xs) auto

lemma filter_opt_None_iff: "filter_opt p xs = None \<longleftrightarrow> (\<exists>x\<in>set xs. p x = None)"
  by (induction xs) (auto split: option.splits)

lemma filter_opt_Some_defined:
  "filter_opt p xs = Some ys \<Longrightarrow> x \<in> set xs \<Longrightarrow> p x \<noteq> None"
  using filter_opt_None_iff [of p xs] by auto

subsection \<open>Options\<close>

lemma option_case_const [simp]: "(case x of None \<Rightarrow> a | Some _ \<Rightarrow> a) = a"
  by (cases x) auto

end
