(* ===== verification/JsValue.thy ===== *)
theory JsValue
  imports Prelude
begin

text \<open>
  The JavaScript values the front-end code manipulates, and the parts of the language
  runtime its handlers rely on: truthiness (the operand of \<open>!\<close>, \<open>&&\<close> and of
  \<open>if\<close>), the nullish test of \<open>??\<close> and \<open>?.\<close>, property reads (which throw a
  TypeError on \<open>null\<close> and \<open>undefined\<close>), \<open>typeof x === "object"\<close>,
  \<open>Number(x)\<close>, \<open>String(x)\<close> and template-literal interpolation, and the string
  methods \<open>trim\<close>, \<open>startsWith\<close> and \<open>includes\<close>.
  A JavaScript number is \<open>real option\<close>: \<open>None\<close> is NaN; the infinities and the
  rounding of IEEE doubles are not modelled (the code never produces or compares them).
  Strings are byte strings; \<open>trim\<close> removes the ASCII white space only.
\<close>

type_synonym jsnum = "real option"

datatype jsval =
    JUndef
  | JNull
  | JBool bool
  | JNum jsnum
  | JStr string
  | JArr "jsval list"
  | JObj "(string \<times> jsval) list"

subsection \<open>Truthiness and nullish values\<close>

fun js_truthy :: "jsval \<Rightarrow> bool" where
  "js_truthy JUndef = False"
| "js_truthy JNull = False"
| "js_truthy (JBool b) = b"
| "js_truthy (JNum None) = False"
| "js_truthy (JNum (Some x)) = (x \<noteq> 0)"
| "js_truthy (JStr s) = (s \<noteq> [])"
| "js_truthy (JArr _) = True"
| "js_truthy (JObj _) = True"

definition js_nullish :: "jsval \<Rightarrow> bool" where
  "js_nullish v \<longleftrightarrow> v = JUndef \<or> v = JNull"

text \<open>\<open>a ?? b\<close>\<close>

definition js_coalesce :: "jsval \<Rightarrow> jsval \<Rightarrow> jsval" where
  "js_coalesce a b = (if js_nullish a then b else a)"

subsection \<open>Property reads\<close>

text \<open>
  \<open>v.k\<close>: \<open>None\<close> is the TypeError thrown on \<open>null\<close> and \<open>undefined\<close>; a missing
  property reads as \<open>undefined\<close>. Objects are the values \<open>JSON.parse\<close> builds, so
  their property list has one entry per key.
\<close>

fun js_get :: "jsval \<Rightarrow> string \<Rightarrow> jsval option" where
  "js_get JUndef k = None"
| "js_get JNull k = None"
| "js_get (JObj kvs) k = Some (case map_of kvs k of None \<Rightarrow> JUndef | Some v \<Rightarrow> v)"
| "js_get (JArr xs) k =
     Some (if k = ''length'' then JNum (Some (real (length xs))) else JUndef)"
| "js_get (JStr s) k =
     Some (if k = ''length'' then JNum (Some (real (length s))) else JUndef)"
| "js_get (JBool b) k = Some JUndef"
| "js_get (JNum n) k = Some JUndef"

text \<open>\<open>v?.k\<close>: \<open>undefined\<close> on a nullish \<open>v\<close>, the property read otherwise.\<close>

definition js_opt_get :: "jsval \<Rightarrow> string \<Rightarrow> jsval" where
  "js_opt_get v k = (case js_get v k of None \<Rightarrow> JUndef | Some r \<Rightarrow> r)"

text \<open>\<open>typeof v === "object"\<close> (true of \<open>null\<close> as well).\<close>

fun js_is_object :: "jsval \<Rightarrow> bool" where
  "js_is_object JNull = True"
| "js_is_object (JArr _) = True"
| "js_is_object (JObj _) = True"
| "js_is_object _ = False"

subsection \<open>Strings\<close>

definition js_is_space :: "char \<Rightarrow> bool" where
  "js_is_space c \<longleftrightarrow> c \<in> {CHR '' '', CHR 0x09, CHR 0x0A, CHR 0x0B, CHR 0x0C, CHR 0x0D}"

definition js_trim :: "string \<Rightarrow> string" where
  "js_trim s = rev (dropWhile js_is_space (rev (dropWhile js_is_space s)))"

definition js_starts_with :: "string \<Rightarrow> string \<Rightarrow> bool" where
  "js_starts_with s p \<longleftrightarrow> take (length p) s = p"

fun js_includes :: "string \<Rightarrow> string \<Rightarrow> bool" where
  "js_includes [] p \<longleftrightarrow> p = []"
| "js_includes (c # cs) p \<longleftrightarrow> js_starts_with (c # cs) p \<or> js_includes cs p"

text \<open>\<open>Array.prototype.join(sep)\<close> on the elements' strings.\<close>

fun js_join :: "string \<Rightarrow> string list \<Rightarrow> string" where
  "js_join sep [] = []"
| "js_join sep [x] = x"
| "js_join sep (x # xs) = x @ sep @ js_join sep xs"

subsection \<open>Decimal digits\<close>

text \<open>The character of a decimal digit \<open>d < 10\<close>.\<close>

definition digit_char :: "nat \<Rightarrow> char" where
  "digit_char d = ''0123456789'' ! d"

definition is_digit :: "char \<Rightarrow> bool" where
  "is_digit c \<longleftrightarrow> (48::nat) \<le> of_char c \<and> of_char c \<le> (57::nat)"

definition digit_val :: "char \<Rightarrow> nat" where
  "digit_val c = of_char c - 48"

fun nat_to_dec :: "nat \<Rightarrow> string" where
  "nat_to_dec n =
     (if n < 10 then [digit_char n] else nat_to_dec (n div 10) @ [digit_char (n mod 10)])"

declare nat_to_dec.simps [simp del]

definition int_to_dec :: "int \<Rightarrow> string" where
  "int_to_dec i = (if i < 0 then CHR ''-'' # nat_to_dec (nat (- i)) else nat_to_dec (nat i))"

text \<open>Value of a digit string, most significant digit first.\<close>

definition digits_val :: "string \<Rightarrow> nat" where
  "digits_val ds = foldl (\<lambda>acc c. 10 * acc + digit_val c) 0 ds"

subsection \<open>\<open>Number(s)\<close> on strings\<close>

text \<open>
  The StringNumericLiteral grammar: surrounding white space is ignored, the empty
  string is 0, a decimal literal has an optional sign, digits with an optional
  fraction (at least one digit in all) and an optional exponent; \<open>0x\<close>, \<open>0o\<close> and
  \<open>0b\<close> prefix unsigned hexadecimal, octal and binary integers. Anything else is NaN.
  \<open>Infinity\<close> is not modelled (it reads as NaN here).
\<close>

definition radix_digit :: "nat \<Rightarrow> char \<Rightarrow> nat option" where
  "radix_digit b c =
     (let n = of_char c :: nat;
          d = (if 48 \<le> n \<and> n \<le> 57 then Some (n - 48)
               else if 97 \<le> n \<and> n \<le> 102 then Some (n - 87)
               else if 65 \<le> n \<and> n \<le> 70 then Some (n - 55) else None)
      in case d of Some v \<Rightarrow> if v < b then Some v else None | None \<Rightarrow> None)"

fun radix_val :: "nat \<Rightarrow> nat \<Rightarrow> string \<Rightarrow> nat option" where
  "radix_val b acc [] = Some acc"
| "radix_val b acc (c # cs) =
     (case radix_digit b c of None \<Rightarrow> None | Some d \<Rightarrow> radix_val b (b * acc + d) cs)"

definition parse_exponent :: "string \<Rightarrow> int option" where
  "parse_exponent r =
     (case r of
        [] \<Rightarrow> Some 0
      | e # r' \<Rightarrow>
          if e \<noteq> CHR ''e'' \<and> e \<noteq> CHR ''E'' then None
          else
            let (sg, ds) = (case r' of
                              c # cs \<Rightarrow> if c = CHR ''+'' then (1, cs)
                                        else if c = CHR ''-'' then (-1, cs) else (1, r')
                            | [] \<Rightarrow> (1, []))
            in if ds \<noteq> [] \<and> list_all is_digit ds then Some (sg * int (digits_val ds)) else None)"

definition scale10 :: "real \<Rightarrow> int \<Rightarrow> real" where
  "scale10 x e = (if 0 \<le> e then x * 10 ^ nat e else x / 10 ^ nat (- e))"

definition parse_unsigned_decimal :: "string \<Rightarrow> real option" where
  "parse_unsigned_decimal t =
     (let d1 = takeWhile is_digit t; r1 = dropWhile is_digit t;
          (d2, r2) = (case r1 of
                        c # r \<Rightarrow> if c = CHR ''.'' then (takeWhile is_digit r, dropWhile is_digit r)
                                 else ([], r1)
                      | [] \<Rightarrow> ([], []))
      in if d1 = [] \<and> d2 = [] then None
         else case parse_exponent r2 of
                None \<Rightarrow> None
              | Some e \<Rightarrow>
                  Some (scale10 (real (digits_val d1) + real (digits_val d2) / 10 ^ length d2) e))"

definition parse_numeric_literal :: "string \<Rightarrow> jsnum" where
  "parse_numeric_literal t =
     (case t of
        c0 # c1 # ds \<Rightarrow>
          if c0 = CHR ''0'' \<and> c1 \<in> {CHR ''x'', CHR ''X'', CHR ''o'', CHR ''O'', CHR ''b'', CHR ''B''}
          then (let b = (if c1 \<in> {CHR ''x'', CHR ''X''} then 16
                         else if c1 \<in> {CHR ''o'', CHR ''O''} then 8 else 2)
                in if ds = [] then None else map_option real (radix_val b 0 ds))
          else if c0 = CHR ''-'' then map_option uminus (parse_unsigned_decimal (c1 # ds))
          else if c0 = CHR ''+'' then parse_unsigned_decimal (c1 # ds)
          else parse_unsigned_decimal t
      | [c0] \<Rightarrow> parse_unsigned_decimal [c0]
      | [] \<Rightarrow> None)"

text \<open>
  \<open>parse_numeric_literal\<close> is the mathematical value (MV) of the literal, an exact
  rational; \<open>Number()\<close> then rounds it to the nearest double (RoundMVResult): the
  significand keeps 53 bits, ties go to the even significand, and below \<open>2 ^ -1022\<close>
  the spacing stays that of the subnormals. Values that round beyond the largest double
  (\<open>Infinity\<close> in JavaScript) are not modelled: they stay finite here.
\<close>

definition round_half_even :: "real \<Rightarrow> int" where
  "round_half_even r =
     (let f = \<lfloor>r\<rfloor>; d = r - of_int f
      in if d < 1 / 2 then f else if 1 / 2 < d then f + 1 else if even f then f else f + 1)"

definition double_exponent :: "real \<Rightarrow> int" where
  "double_exponent a = max (- 1022) \<lfloor>log 2 a\<rfloor>"

definition round_double :: "real \<Rightarrow> real" where
  "round_double x =
     (if x = 0 then 0
      else let a = \<bar>x\<bar>; q = 2 powr real_of_int (double_exponent a - 52)
           in sgn x * (of_int (round_half_even (a / q)) * q))"

definition js_string_to_number :: "string \<Rightarrow> jsnum" where
  "js_string_to_number s =
     (let t = js_trim s in if t = [] then Some 0 else map_option round_double (parse_numeric_literal t))"

subsection \<open>\<open>String(v)\<close> and template interpolation\<close>

text \<open>
  Integers print in decimal; other numbers print their decimal expansion, cut after
  twenty fractional digits. The exponent notation JavaScript uses from \<open>1e21\<close> up and
  below \<open>1e-6\<close> is not modelled.
\<close>

fun frac_digits :: "nat \<Rightarrow> real \<Rightarrow> string" where
  "frac_digits 0 r = []"
| "frac_digits (Suc n) r =
     (if r = 0 then []
      else digit_char (nat \<lfloor>r * 10\<rfloor>) # frac_digits n (r * 10 - of_int \<lfloor>r * 10\<rfloor>))"

definition js_number_to_string :: "jsnum \<Rightarrow> string" where
  "js_number_to_string n =
     (case n of
        None \<Rightarrow> ''NaN''
      | Some x \<Rightarrow>
          if x = of_int \<lfloor>x\<rfloor> then int_to_dec \<lfloor>x\<rfloor>
          else (if x < 0 then ''-'' else []) @ nat_to_dec (nat \<lfloor>\<bar>x\<bar>\<rfloor>) @ ''.''
               @ frac_digits 20 (\<bar>x\<bar> - of_int \<lfloor>\<bar>x\<bar>\<rfloor>))"

fun js_to_string :: "jsval \<Rightarrow> string" where
  "js_to_string JUndef = ''undefined''"
| "js_to_string JNull = ''null''"
| "js_to_string (JBool b) = (if b then ''true'' else ''false'')"
| "js_to_string (JNum n) = js_number_to_string n"
| "js_to_string (JStr s) = s"
| "js_to_string (JArr xs) =
     js_join '','' (map (\<lambda>v. if v = JUndef \<or> v = JNull then [] else js_to_string v) xs)"
| "js_to_string (JObj _) = ''[object Object]''"

subsection \<open>\<open>Number(v)\<close>\<close>

fun js_to_number :: "jsval \<Rightarrow> jsnum" where
  "js_to_number JUndef = None"
| "js_to_number JNull = Some 0"
| "js_to_number (JBool b) = Some (if b then 1 else 0)"
| "js_to_number (JNum n) = n"
| "js_to_number (JStr s) = js_string_to_number s"
| "js_to_number (JArr xs) = js_string_to_number (js_to_string (JArr xs))"
| "js_to_number (JObj _) = None"

subsection \<open>Arithmetic on numbers that may be NaN or undefined\<close>

text \<open>\<open>x * c\<close> and \<open>x + c\<close> where \<open>x\<close> may be NaN (also \<open>undefined * c\<close>).\<close>

definition js_mul :: "jsnum \<Rightarrow> real \<Rightarrow> jsnum" where
  "js_mul x c = map_option (\<lambda>v. v * c) x"

definition js_add :: "jsnum \<Rightarrow> real \<Rightarrow> jsnum" where
  "js_add x c = map_option (\<lambda>v. v + c) x"

end
