(* ===== verification/StreamAggregator.thy ===== *)
theory StreamAggregator
  imports JsValue
begin

text \<open>
  The investigation page of the control tower (\<open>src/control-tower/app/transaction/page.tsx\<close>):
  its React state, the form handler, \<open>sendTransaction\<close> (validation, the POST to the
  transaction service, the job identifier with its local fallback, the opening of the
  visual-analytics event stream) and the handlers registered on each \<open>EventSource\<close>.
  \<open>sendTransaction\<close> suspends at its \<open>await\<close>s; it is split into the synchronous
  part up to the request (\<open>send_transaction\<close>) and the continuation that runs when the
  response arrives (\<open>receive_response\<close>). Every \<open>EventSource\<close> the page ever opened is
  kept in \<open>streams\<close> (its index is its identity), with the flag that \<open>es.close()\<close>
  clears: the handlers of all of them write the same page state. The page's steps,
  including events of any open stream, interleave freely in \<open>page_step\<close>.
\<close>

datatype va_status = Idle | Running | Done | Failed

datatype active_tab = Unsupervised | Ja3 | Supervised

record tx_form =
  form_source :: string
  form_target :: string
  form_amount :: string

datatype form_field = Field_Source | Field_Target | Field_Amount

text \<open>The JSON body posted to \<open>/api/transactions\<close> (NaN is serialised as \<open>null\<close>).\<close>

record tx_request =
  sourceAccount :: string
  targetAccount :: string
  req_amount :: jsnum

record va_event =
  stage :: string
  data :: jsval

record tx_result =
  risk_score :: jsval
  reasons :: "jsval list"

record event_source =
  es_transaction :: string
  es_node :: string
  es_open :: bool

record page_state =
  loading :: bool
  result :: "tx_result option"
  va_events :: "va_event list"
  va_status :: va_status
  active_tab :: active_tab
  form :: tx_form
  streams :: "event_source list"
  pending :: "tx_form option"
  requests :: "tx_request list"
  alerts :: "string list"

definition init_page :: page_state where
  "init_page =
     \<lparr>loading = False, result = None, va_events = [], va_status = Idle,
      active_tab = Unsupervised,
      form = \<lparr>form_source = [], form_target = [], form_amount = []\<rparr>,
      streams = [], pending = None, requests = [], alerts = []\<rparr>"

subsection \<open>Form and tabs\<close>

definition handle_change :: "page_state \<Rightarrow> form_field \<Rightarrow> string \<Rightarrow> page_state" where
  "handle_change s f v =
     s\<lparr>form := (case f of
                  Field_Source \<Rightarrow> (form s)\<lparr>form_source := v\<rparr>
                | Field_Target \<Rightarrow> (form s)\<lparr>form_target := v\<rparr>
                | Field_Amount \<Rightarrow> (form s)\<lparr>form_amount := v\<rparr>)\<rparr>"

definition set_tab :: "page_state \<Rightarrow> active_tab \<Rightarrow> page_state" where
  "set_tab s t = s\<lparr>active_tab := t\<rparr>"

subsection \<open>Submitting a transaction\<close>

definition required_missing :: "tx_form \<Rightarrow> bool" where
  "required_missing f \<longleftrightarrow>
     \<not> js_truthy (JStr (form_source f)) \<or> \<not> js_truthy (JStr (form_target f))
     \<or> \<not> js_truthy (JStr (form_amount f))"

definition transaction_data :: "tx_form \<Rightarrow> tx_request" where
  "transaction_data f =
     \<lparr>sourceAccount = form_source f, targetAccount = form_target f,
      req_amount = js_string_to_number (form_amount f)\<rparr>"

definition validation_alert :: string where
  "validation_alert = ''Source, Target and Amount are required''"

definition failure_alert :: string where
  "failure_alert = ''Transaction failed. Check backend logs.''"

text \<open>The synchronous part of \<open>sendTransaction\<close>: up to the \<open>fetch\<close> call.\<close>

definition send_transaction :: "page_state \<Rightarrow> page_state" where
  "send_transaction s =
     (if required_missing (form s)
      then s\<lparr>alerts := alerts s @ [validation_alert]\<rparr>
      else s\<lparr>loading := True, result := None, va_events := [], va_status := Idle,
              requests := requests s @ [transaction_data (form s)],
              pending := Some (form s)\<rparr>)"

text \<open>What the transaction service answers: a rejected \<open>fetch\<close>, or a response with its
  \<open>ok\<close> flag, its \<open>content-type\<close> header and the result of \<open>res.json()\<close>
  (\<open>None\<close> when the body does not parse).\<close>

datatype tx_response =
    Fetch_Rejected
  | Http_Response bool "string option" "jsval option"

text \<open>\<open>txData?.id ?? `local-${Date.now()}`\<close>, as interpolated into the stream URL.\<close>

definition transaction_id :: "jsval \<Rightarrow> nat \<Rightarrow> string" where
  "transaction_id txData now =
     js_to_string (js_coalesce (js_opt_get txData ''id'') (JStr (''local-'' @ nat_to_dec now)))"

definition stream_url :: "string \<Rightarrow> string \<Rightarrow> string" where
  "stream_url tid node =
     ''http://127.0.0.1:8000/visual-analytics/api/visual/stream/unsupervised?transactionId=''
     @ tid @ ''&nodeId='' @ node"

text \<open>The \<open>catch\<close> and \<open>finally\<close> blocks.\<close>

definition tx_fail :: "page_state \<Rightarrow> page_state" where
  "tx_fail s =
     s\<lparr>alerts := alerts s @ [failure_alert], va_status := Failed, loading := False,
       pending := None\<rparr>"

text \<open>The rest of the \<open>try\<close> block once \<open>txData\<close> is known, with \<open>finally\<close>.\<close>

definition tx_succeed :: "page_state \<Rightarrow> tx_form \<Rightarrow> jsval \<Rightarrow> nat \<Rightarrow> page_state" where
  "tx_succeed s f txData now =
     s\<lparr>result := Some \<lparr>risk_score = js_coalesce (js_opt_get txData ''riskScore'') JNull,
                       reasons = [js_coalesce (js_opt_get txData ''verdict'')
                                    (JStr ''Transaction stored'')]\<rparr>,
       va_status := Running, active_tab := Unsupervised,
       streams := streams s @ [\<lparr>es_transaction = transaction_id txData now,
                                es_node = form_source f, es_open = True\<rparr>],
       loading := False, pending := None\<rparr>"

definition json_content :: "string option \<Rightarrow> bool" where
  "json_content ct \<longleftrightarrow> (case ct of None \<Rightarrow> False | Some c \<Rightarrow> js_includes c ''application/json'')"

text \<open>The continuation of \<open>sendTransaction\<close> after \<open>await fetch(...)\<close>; \<open>now\<close> is
  \<open>Date.now()\<close>. It runs only while a request is pending.\<close>

definition receive_response :: "page_state \<Rightarrow> tx_response \<Rightarrow> nat \<Rightarrow> page_state" where
  "receive_response s r now =
     (case pending s of
        None \<Rightarrow> s
      | Some f \<Rightarrow>
          (case r of
             Fetch_Rejected \<Rightarrow> tx_fail s
           | Http_Response ok ct body \<Rightarrow>
               if \<not> ok then tx_fail s
               else if json_content ct
               then (case body of None \<Rightarrow> tx_fail s | Some d \<Rightarrow> tx_succeed s f d now)
               else tx_succeed s f JNull now))"

subsection \<open>The event-stream handlers\<close>

datatype sse_event = Sse_Message string "jsval option" | Sse_Error

definition pipeline_stages :: "string list" where
  "pipeline_stages =
     [''population_loaded'', ''scoring_started'', ''eif_result'', ''shap_started'',
      ''shap_completed'', ''shap_skipped'']"

definition completed_stage :: string where
  "completed_stage = ''unsupervised_completed''"

definition close_stream :: "nat \<Rightarrow> page_state \<Rightarrow> page_state" where
  "close_stream i s = s\<lparr>streams := (streams s)[i := (streams s ! i)\<lparr>es_open := False\<rparr>]\<rparr>"

text \<open>\<open>handleEvent\<close>, once \<open>JSON.parse(event.data)\<close> has returned \<open>d\<close>.\<close>

definition handle_event :: "page_state \<Rightarrow> string \<Rightarrow> jsval \<Rightarrow> page_state" where
  "handle_event s st d = s\<lparr>va_events := va_events s @ [\<lparr>stage = st, data = d\<rparr>]\<rparr>"

definition handle_completed :: "page_state \<Rightarrow> nat \<Rightarrow> jsval \<Rightarrow> page_state" where
  "handle_completed s i d =
     close_stream i (s\<lparr>va_events := va_events s @ [\<lparr>stage = completed_stage, data = d\<rparr>],
                       va_status := Done\<rparr>)"

text \<open>The two \<open>es.onerror\<close> assignments, in source order; an assignment replaces the
  handler held by the property.\<close>

definition onerror_guarded :: "va_status \<Rightarrow> va_status" where
  "onerror_guarded prev = (if prev = Done then Done else Failed)"

definition onerror_unconditional :: "va_status \<Rightarrow> va_status" where
  "onerror_unconditional prev = Failed"

definition assign_onerror ::
  "(va_status \<Rightarrow> va_status) option \<Rightarrow> (va_status \<Rightarrow> va_status) \<Rightarrow> (va_status \<Rightarrow> va_status) option"
where
  "assign_onerror old h = Some h"

definition es_onerror :: "(va_status \<Rightarrow> va_status) option" where
  "es_onerror = assign_onerror (assign_onerror None onerror_guarded) onerror_unconditional"

definition handle_error :: "page_state \<Rightarrow> nat \<Rightarrow> page_state" where
  "handle_error s i =
     (case es_onerror of
        None \<Rightarrow> s
      | Some h \<Rightarrow> close_stream i (s\<lparr>va_status := h (va_status s)\<rparr>))"

text \<open>Delivery of one event to stream \<open>i\<close>: nothing is delivered to a closed stream; a
  stage with no listener is ignored; a payload that \<open>JSON.parse\<close> rejects makes the
  listener throw before it touches the state.\<close>

definition stream_open :: "page_state \<Rightarrow> nat \<Rightarrow> bool" where
  "stream_open s i \<longleftrightarrow> i < length (streams s) \<and> es_open (streams s ! i)"

definition stream_event :: "page_state \<Rightarrow> nat \<Rightarrow> sse_event \<Rightarrow> page_state" where
  "stream_event s i ev =
     (if \<not> stream_open s i then s
      else case ev of
             Sse_Message st d \<Rightarrow>
               if st \<in> set pipeline_stages
               then (case d of None \<Rightarrow> s | Some v \<Rightarrow> handle_event s st v)
               else if st = completed_stage
               then (case d of None \<Rightarrow> s | Some v \<Rightarrow> handle_completed s i v)
               else s
           | Sse_Error \<Rightarrow> handle_error s i)"

text \<open>A run of events on one stream, in arrival order.\<close>

fun deliver :: "page_state \<Rightarrow> nat \<Rightarrow> sse_event list \<Rightarrow> page_state" where
  "deliver s i [] = s"
| "deliver s i (ev # evs) = deliver (stream_event s i ev) i evs"

subsection \<open>The page as a state machine\<close>

text \<open>One rule per kind of event the page reacts to. The send button is disabled while
  \<open>loading\<close>; a response arrives only for a pending request.\<close>

inductive page_step :: "page_state \<Rightarrow> page_state \<Rightarrow> bool" where
  change: "page_step s (handle_change s f v)"
| submit: "\<not> loading s \<Longrightarrow> page_step s (send_transaction s)"
| respond: "pending s \<noteq> None \<Longrightarrow> page_step s (receive_response s r now)"
| sse: "page_step s (stream_event s i ev)"
| tab: "page_step s (set_tab s t)"

inductive page_reachable :: "page_state \<Rightarrow> bool" where
  init: "page_reachable init_page"
| step: "page_reachable s \<Longrightarrow> page_step s t \<Longrightarrow> page_reachable t"

subsection \<open>The page invariant and the states the examples use\<close>

definition page_inv :: "page_state \<Rightarrow> bool" where
  "page_inv s \<longleftrightarrow> (loading s \<longleftrightarrow> pending s \<noteq> None)
     \<and> (va_status s = Idle \<longrightarrow> result s = None)
     \<and> (va_status s = Running \<longrightarrow> result s \<noteq> None \<and> \<not> loading s)
     \<and> (va_status s = Done \<longrightarrow> (\<exists>e\<in>set (va_events s). stage e = completed_stage))
     \<and> (\<forall>e\<in>set (va_events s). stage e \<in> set pipeline_stages \<or> stage e = completed_stage)"

text \<open>Well-formed messages of listened stages, and the log entries they produce.\<close>

definition stage_messages :: "(string \<times> jsval) list \<Rightarrow> sse_event list" where
  "stage_messages msgs = map (\<lambda>(st, d). Sse_Message st (Some d)) msgs"

definition stage_entries :: "(string \<times> jsval) list \<Rightarrow> va_event list" where
  "stage_entries msgs = map (\<lambda>(st, d). \<lparr>stage = st, data = d\<rparr>) msgs"

definition demo_form :: tx_form where
  "demo_form = \<lparr>form_source = ''A1'', form_target = ''B2'', form_amount = ''100''\<rparr>"

definition one_stream_state :: page_state where
  "one_stream_state =
     init_page\<lparr>form := demo_form, result := Some \<lparr>risk_score = JNull, reasons = []\<rparr>,
               va_status := Running,
               streams := [\<lparr>es_transaction = ''t1'', es_node = ''A1'', es_open = True\<rparr>]\<rparr>"

definition filled_page :: page_state where
  "filled_page = handle_change (handle_change (handle_change init_page Field_Source ''A1'')
                   Field_Target ''B2'') Field_Amount ''100''"

text \<open>A submission answered by a 200 response without a JSON body.\<close>

definition submitted :: "page_state \<Rightarrow> nat \<Rightarrow> page_state" where
  "submitted s now = receive_response (send_transaction s) (Http_Response True None None) now"

definition two_jobs :: page_state where
  "two_jobs = submitted (submitted filled_page 5) 6"

declare handle_change_def [handler_defs] set_tab_def [handler_defs]
  send_transaction_def [handler_defs] tx_fail_def [handler_defs] tx_succeed_def [handler_defs]
  receive_response_def [handler_defs] handle_event_def [handler_defs]
  handle_completed_def [handler_defs] close_stream_def [handler_defs]
  handle_error_def [handler_defs] stream_event_def [handler_defs]

subsection \<open>Lemmas on the handlers\<close>

lemma es_onerror_eq: "es_onerror = Some onerror_unconditional"
  by (simp add: es_onerror_def assign_onerror_def)

lemma handle_error_eq: "handle_error s i = close_stream i (s\<lparr>va_status := Failed\<rparr>)"
  by (simp add: handle_error_def es_onerror_eq onerror_unconditional_def)

lemma close_stream_fields [simp]:
  "loading (close_stream i s) = loading s" "pending (close_stream i s) = pending s"
  "result (close_stream i s) = result s" "va_status (close_stream i s) = va_status s"
  "va_events (close_stream i s) = va_events s" "requests (close_stream i s) = requests s"
  "alerts (close_stream i s) = alerts s" "form (close_stream i s) = form s"
  "active_tab (close_stream i s) = active_tab s"
  "length (streams (close_stream i s)) = length (streams s)"
  by (simp_all add: close_stream_def)

lemma close_stream_closes: "\<not> stream_open (close_stream i s) i"
  by (simp add: stream_open_def close_stream_def)

lemma stream_open_close_other:
  "j \<noteq> i \<Longrightarrow> stream_open (close_stream i s) j = stream_open s j"
  by (simp add: stream_open_def close_stream_def)

lemma stream_event_closed: "\<not> stream_open s i \<Longrightarrow> stream_event s i ev = s"
  by (simp add: stream_event_def)

lemma stream_event_frame:
  "loading (stream_event s i ev) = loading s \<and> pending (stream_event s i ev) = pending s
   \<and> result (stream_event s i ev) = result s \<and> requests (stream_event s i ev) = requests s"
  by (auto simp: stream_event_def handle_event_def handle_completed_def handle_error_eq
           split: sse_event.splits option.splits)

lemma page_inv_init: "page_inv init_page"
  by (simp add: page_inv_def init_page_def)

lemma page_inv_stream_event: "page_inv s \<Longrightarrow> page_inv (stream_event s i ev)"
  by (auto simp: page_inv_def stream_event_def handle_event_def handle_completed_def handle_error_eq
           split: sse_event.splits option.splits if_splits)

lemma page_inv_receive: "page_inv s \<Longrightarrow> page_inv (receive_response s r now)"
  by (auto simp: page_inv_def receive_response_def tx_fail_def tx_succeed_def
           split: option.splits tx_response.splits if_splits)

lemma page_inv_send: "page_inv s \<Longrightarrow> page_inv (send_transaction s)"
  by (auto simp: page_inv_def send_transaction_def)

lemma page_inv_step: "page_step s t \<Longrightarrow> page_inv s \<Longrightarrow> page_inv t"
proof (induction rule: page_step.induct)
  case (change s f v)
  then show ?case by (auto simp: page_inv_def handle_change_def)
next
  case (submit s)
  then show ?case by (simp add: page_inv_send)
next
  case (respond s r now)
  then show ?case by (simp add: page_inv_receive)
next
  case (sse s i ev)
  then show ?case by (simp add: page_inv_stream_event)
next
  case (tab s t)
  then show ?case by (auto simp: page_inv_def set_tab_def)
qed

lemma deliver_append: "deliver s i (xs @ ys) = deliver (deliver s i xs) i ys"
  by (induction xs arbitrary: s) auto

lemma deliver_closed: "\<not> stream_open s i \<Longrightarrow> deliver s i evs = s"
  by (induction evs) (auto simp: stream_event_closed)

lemma stream_open_events_update [simp]:
  "stream_open (s\<lparr>va_events := evs\<rparr>) i = stream_open s i"
  by (simp add: stream_open_def)

lemma deliver_stages:
  "stream_open s i \<Longrightarrow> \<forall>(st, d) \<in> set msgs. st \<in> set pipeline_stages \<Longrightarrow>
   deliver s i (stage_messages msgs) = s\<lparr>va_events := va_events s @ stage_entries msgs\<rparr>"
proof (induction msgs arbitrary: s)
  case Nil
  then show ?case by (simp add: stage_messages_def stage_entries_def)
next
  case (Cons m msgs)
  obtain st d where m: "m = (st, d)" by fastforce
  with Cons.prems have st: "st \<in> set pipeline_stages" by simp
  let ?s' = "s\<lparr>va_events := va_events s @ [\<lparr>stage = st, data = d\<rparr>]\<rparr>"
  have "stream_event s i (Sse_Message st (Some d)) = ?s'"
    using Cons.prems(1) st by (simp add: stream_event_def handle_event_def)
  moreover have "deliver ?s' i (stage_messages msgs) = ?s'\<lparr>va_events := va_events ?s' @ stage_entries msgs\<rparr>"
    using Cons.prems by (intro Cons.IH) auto
  ultimately show ?case using m by (simp add: stage_messages_def stage_entries_def)
qed

lemma completed_not_pipeline: "completed_stage \<notin> set pipeline_stages"
  by (simp add: completed_stage_def pipeline_stages_def)

lemma stream_event_completed:
  "stream_open s i \<Longrightarrow> stream_event s i (Sse_Message completed_stage (Some d)) = handle_completed s i d"
  by (simp add: stream_event_def completed_not_pipeline)

lemma handle_completed_closed: "\<not> stream_open (handle_completed s i d) i"
  by (simp add: handle_completed_def close_stream_closes)

text \<open>C1: A run of well-formed events of the listened pipeline stages followed by the
  completion event, on an open stream, appends exactly those entries to the log in arrival
  order, sets the status to \<open>done\<close> and closes the stream, whatever arrives afterwards
  on that stream (a late transport error included).\<close>

theorem pipeline_run_done:
  assumes "stream_open s i" and "\<forall>(st, d) \<in> set msgs. st \<in> set pipeline_stages"
  shows "deliver s i (stage_messages msgs @ Sse_Message completed_stage (Some dc) # rest) =
         close_stream i (s\<lparr>va_events := va_events s @ stage_entries msgs @ [\<lparr>stage = completed_stage, data = dc\<rparr>],
                          va_status := Done\<rparr>)"
proof -
  let ?s1 = "s\<lparr>va_events := va_events s @ stage_entries msgs\<rparr>"
  have 1: "deliver s i (stage_messages msgs) = ?s1" using assms by (rule deliver_stages)
  have 2: "stream_open ?s1 i" using assms(1) by simp
  have 3: "deliver (handle_completed ?s1 i dc) i rest = handle_completed ?s1 i dc"
    by (rule deliver_closed [OF handle_completed_closed])
  show ?thesis
    using 1 2 3 by (simp add: deliver_append stream_event_completed handle_completed_def)
qed

theorem pipeline_run_done_witness:
  "va_status (deliver one_stream_state 0
     (stage_messages [(''population_loaded'', JNull), (''scoring_started'', JNull), (''eif_result'', JNull)]
      @ Sse_Message completed_stage (Some JNull) # [Sse_Error])) = Done
   \<and> map stage (va_events (deliver one_stream_state 0
     (stage_messages [(''population_loaded'', JNull), (''scoring_started'', JNull), (''eif_result'', JNull)]
      @ Sse_Message completed_stage (Some JNull) # [Sse_Error])))
     = [''population_loaded'', ''scoring_started'', ''eif_result'', ''unsupervised_completed'']"
proof -
  have o: "stream_open one_stream_state 0"
    by (simp add: stream_open_def one_stream_state_def)
  have m: "\<forall>(st, d) \<in> set [(''population_loaded'', JNull), (''scoring_started'', JNull), (''eif_result'', JNull)].
             st \<in> set pipeline_stages"
    by (simp add: pipeline_stages_def)
  show ?thesis
    using pipeline_run_done [OF o m, of JNull "[Sse_Error]"]
    by (simp add: one_stream_state_def init_page_def stage_entries_def completed_stage_def)
qed

lemma page_reachable_change: "page_reachable s \<Longrightarrow> page_reachable (handle_change s f v)"
  by (rule page_reachable.step) (auto intro: page_step.change)

lemma page_reachable_submitted:
  assumes "page_reachable s" "\<not> loading s" "\<not> required_missing (form s)"
  shows "page_reachable (submitted s now)"
proof -
  have r: "page_reachable (send_transaction s)"
    using assms(1,2) by (rule page_reachable.step [OF _ page_step.submit])
  have "pending (send_transaction s) \<noteq> None"
    using assms(3) by (simp add: send_transaction_def)
  then have "page_step (send_transaction s) (submitted s now)"
    unfolding submitted_def by (rule page_step.respond)
  with r show ?thesis by (rule page_reachable.step)
qed

lemma filled_page_reachable: "page_reachable filled_page"
  unfolding filled_page_def
  by (intro page_reachable_change page_reachable.init)

lemma filled_page_form: "form filled_page = demo_form"
  by (simp add: filled_page_def handle_change_def init_page_def demo_form_def)

lemma submitted_fields:
  "\<not> required_missing (form s) \<Longrightarrow>
   loading (submitted s now) = False \<and> form (submitted s now) = form s
   \<and> va_status (submitted s now) = Running
   \<and> streams (submitted s now) = streams s @ [\<lparr>es_transaction = ''local-'' @ nat_to_dec now,
        es_node = form_source (form s), es_open = True\<rparr>]"
  by (simp add: submitted_def send_transaction_def receive_response_def json_content_def
                tx_succeed_def transaction_id_def js_opt_get_def js_coalesce_def js_nullish_def)

lemma demo_form_ok: "\<not> required_missing demo_form"
  by (simp add: required_missing_def demo_form_def)

lemma two_jobs_reachable: "page_reachable two_jobs"
proof -
  have a: "page_reachable (submitted filled_page 5)"
    by (rule page_reachable_submitted [OF filled_page_reachable])
       (simp_all add: filled_page_def init_page_def handle_change_def demo_form_ok [unfolded demo_form_def])
  show ?thesis unfolding two_jobs_def
    by (rule page_reachable_submitted [OF a])
       (simp_all add: submitted_fields filled_page_form demo_form_ok)
qed

lemma filled_page_streams: "streams filled_page = []"
  by (simp add: filled_page_def handle_change_def init_page_def)

lemma stream_open_status_update [simp]:
  "stream_open (s\<lparr>va_status := x\<rparr>) i = stream_open s i"
  by (simp add: stream_open_def)

lemma two_jobs_streams:
  "streams two_jobs = [\<lparr>es_transaction = ''local-5'', es_node = ''A1'', es_open = True\<rparr>,
                       \<lparr>es_transaction = ''local-6'', es_node = ''A1'', es_open = True\<rparr>]"
proof -
  have ok1: "\<not> required_missing (form filled_page)"
    by (simp add: filled_page_form demo_form_ok)
  have f1: "form (submitted filled_page 5) = demo_form"
    using submitted_fields [OF ok1, of 5] by (simp add: filled_page_form)
  have ok2: "\<not> required_missing (form (submitted filled_page 5))"
    unfolding f1 by (rule demo_form_ok)
  have s1: "streams (submitted filled_page 5) = [\<lparr>es_transaction = ''local-5'', es_node = ''A1'', es_open = True\<rparr>]"
    using submitted_fields [OF ok1, of 5]
    by (simp add: filled_page_form filled_page_streams nat_to_dec.simps digit_char_def demo_form_def)
  show ?thesis unfolding two_jobs_def
    using submitted_fields [OF ok2, of 6] s1
    by (simp add: f1 nat_to_dec.simps digit_char_def demo_form_def)
qed

text \<open>C2: A completed pipeline can be marked failed afterwards: in a reachable
  state with status \<open>done\<close>, a transport error of the stream of an earlier job (never
  closed by the new submission) sets the status to \<open>failed\<close>, because the effective
  \<open>onerror\<close> handler is the unconditional one.\<close>

theorem done_downgraded_by_stale_stream:
  "\<exists>s. page_reachable s \<and> va_status s = Done \<and> va_status (stream_event s 0 Sse_Error) = Failed"
proof -
  let ?s = "stream_event two_jobs 1 (Sse_Message completed_stage (Some JNull))"
  have r: "page_reachable ?s"
    by (rule page_reachable.step [OF two_jobs_reachable page_step.sse])
  have o1: "stream_open two_jobs 1" and o0: "stream_open two_jobs 0"
    by (simp_all add: stream_open_def two_jobs_streams)
  have d: "va_status ?s = Done"
    using o1 by (simp add: stream_event_completed handle_completed_def)
  have o0': "stream_open ?s 0"
    using o1 o0 by (simp add: stream_event_completed handle_completed_def stream_open_close_other)
  have "va_status (stream_event ?s 0 Sse_Error) = Failed"
    using o0' by (simp add: stream_event_def handle_error_eq)
  with r d show ?thesis by blast
qed

lemma two_jobs_open: "stream_open two_jobs 0" "stream_open two_jobs 1"
  by (simp_all add: stream_open_def two_jobs_streams)

lemma done_state_facts:
  "page_reachable (stream_event two_jobs 1 (Sse_Message completed_stage (Some JNull)))
   \<and> va_status (stream_event two_jobs 1 (Sse_Message completed_stage (Some JNull))) = Done"
proof
  show "page_reachable (stream_event two_jobs 1 (Sse_Message completed_stage (Some JNull)))"
    by (rule page_reachable.step [OF two_jobs_reachable page_step.sse])
  show "va_status (stream_event two_jobs 1 (Sse_Message completed_stage (Some JNull))) = Done"
    using two_jobs_open(2) by (simp add: stream_event_completed handle_completed_def)
qed

lemma page_inv_reachable: "page_reachable s \<Longrightarrow> page_inv s"
  by (induction rule: page_reachable.induct) (auto intro: page_inv_init page_inv_step)

lemma filled_page_loading: "\<not> loading filled_page"
  by (simp add: filled_page_def handle_change_def init_page_def)

text \<open>C3: In every reachable state, status \<open>done\<close> implies that the log holds a
  completion entry.\<close>

theorem done_has_completion:
  "page_reachable s \<Longrightarrow> va_status s = Done \<Longrightarrow> \<exists>e\<in>set (va_events s). stage e = completed_stage"
  using page_inv_reachable by (auto simp: page_inv_def)

theorem done_has_completion_witness:
  "\<exists>e\<in>set (va_events (stream_event two_jobs 1 (Sse_Message completed_stage (Some JNull)))).
     stage e = completed_stage"
  using done_has_completion done_state_facts by blast

text \<open>C4: In every reachable state the loading flag is set exactly while a request
  is pending, and status \<open>running\<close> is never shown while loading and always comes with
  a result.\<close>

theorem no_half_running:
  "page_reachable s \<Longrightarrow> (loading s \<longleftrightarrow> pending s \<noteq> None)
     \<and> (va_status s = Running \<longrightarrow> \<not> loading s \<and> result s \<noteq> None)"
proof -
  assume "page_reachable s"
  then have "page_inv s" by (rule page_inv_reachable)
  then show ?thesis by (cases "pending s") (auto simp: page_inv_def)
qed

theorem no_half_running_witness:
  "(loading two_jobs \<longleftrightarrow> pending two_jobs \<noteq> None) \<and> va_status two_jobs = Running
   \<and> \<not> loading two_jobs \<and> result two_jobs \<noteq> None"
proof -
  have ok1: "\<not> required_missing (form filled_page)"
    by (simp add: filled_page_form demo_form_ok)
  have f1: "form (submitted filled_page 5) = demo_form"
    using submitted_fields [OF ok1, of 5] by (simp add: filled_page_form)
  have ok2: "\<not> required_missing (form (submitted filled_page 5))"
    unfolding f1 by (rule demo_form_ok)
  have "va_status two_jobs = Running"
    unfolding two_jobs_def using submitted_fields [OF ok2, of 6] by simp
  then show ?thesis using no_half_running [OF two_jobs_reachable] by auto
qed

text \<open>C12: Every entry of the log in a reachable state carries one of the seven
  stage names the page listens to.\<close>

theorem log_stages_listened:
  "page_reachable s \<Longrightarrow> e \<in> set (va_events s) \<Longrightarrow>
   stage e \<in> set pipeline_stages \<or> stage e = completed_stage"
  using page_inv_reachable by (auto simp: page_inv_def)

theorem log_stages_listened_witness:
  "list_all (\<lambda>e. stage e \<in> set pipeline_stages \<or> stage e = completed_stage)
     (va_events (stream_event (stream_event two_jobs 1 (Sse_Message ''model_trained'' (Some JNull)))
                  1 (Sse_Message completed_stage (Some JNull))))"
proof -
  let ?s1 = "stream_event two_jobs 1 (Sse_Message ''model_trained'' (Some JNull))"
  have r1: "page_reachable ?s1" by (rule page_reachable.step [OF two_jobs_reachable page_step.sse])
  have r2: "page_reachable (stream_event ?s1 1 (Sse_Message completed_stage (Some JNull)))"
    by (rule page_reachable.step [OF r1 page_step.sse])
  show ?thesis unfolding list_all_iff using log_stages_listened [OF r2] by blast
qed

text \<open>C7: A successful response without an identifier (no JSON body, or a JSON
  body whose \<open>id\<close> is null or absent) still opens a stream, for the job identifier
  \<open>local-<now>\<close> and the captured source account, with status \<open>running\<close>.\<close>

theorem degraded_mode_local_id:
  assumes "pending s = Some f"
    and "json_content ct \<Longrightarrow> body = Some d \<and> js_nullish (js_opt_get d ''id'')"
  shows "va_status (receive_response s (Http_Response True ct body) now) = Running
       \<and> \<not> loading (receive_response s (Http_Response True ct body) now)
       \<and> streams (receive_response s (Http_Response True ct body) now) =
           streams s @ [\<lparr>es_transaction = ''local-'' @ nat_to_dec now, es_node = form_source f,
                         es_open = True\<rparr>]"
proof (cases "json_content ct")
  case True
  with assms show ?thesis
    by (simp add: receive_response_def tx_succeed_def transaction_id_def js_coalesce_def)
next
  case False
  with assms show ?thesis
    by (simp add: receive_response_def tx_succeed_def transaction_id_def js_coalesce_def
                  js_opt_get_def js_nullish_def)
qed

theorem degraded_mode_local_id_witness:
  "va_status (receive_response (send_transaction filled_page) (Http_Response True None None) 5) = Running
   \<and> streams (receive_response (send_transaction filled_page) (Http_Response True None None) 5) =
       [\<lparr>es_transaction = ''local-5'', es_node = ''A1'', es_open = True\<rparr>]"
proof -
  have p: "pending (send_transaction filled_page) = Some demo_form"
    by (simp add: send_transaction_def filled_page_form demo_form_ok)
  have j: "json_content None \<Longrightarrow> (None::jsval option) = Some JNull \<and> js_nullish (js_opt_get JNull ''id'')"
    by (simp add: json_content_def)
  show ?thesis
    using degraded_mode_local_id [OF p j, where now = 5]
    by (simp add: send_transaction_def filled_page_form demo_form_ok filled_page_streams
                  nat_to_dec.simps digit_char_def demo_form_def)
qed

text \<open>C8: A rejected fetch, a non-success status or a JSON body that does not
  parse leaves the page failed, not loading, with no request pending and an alert shown;
  no stream is opened and the log is untouched.\<close>

theorem submission_failure:
  assumes "pending s = Some f"
    and "r = Fetch_Rejected \<or> (\<exists>ct b. r = Http_Response False ct b)
         \<or> (\<exists>ct. json_content ct \<and> r = Http_Response True ct None)"
  shows "receive_response s r now =
         s\<lparr>alerts := alerts s @ [failure_alert], va_status := Failed, loading := False,
           pending := None\<rparr>"
  using assms by (auto simp: receive_response_def tx_fail_def)

theorem submission_failure_witness:
  "va_status (receive_response (send_transaction filled_page) Fetch_Rejected 5) = Failed
   \<and> \<not> loading (receive_response (send_transaction filled_page) Fetch_Rejected 5)
   \<and> streams (receive_response (send_transaction filled_page) Fetch_Rejected 5) = []"
proof -
  have p: "pending (send_transaction filled_page) = Some demo_form"
    by (simp add: send_transaction_def filled_page_form demo_form_ok)
  show ?thesis
    using submission_failure [OF p, where r = Fetch_Rejected and now = 5]
    by (simp add: send_transaction_def filled_page_form demo_form_ok filled_page_streams)
qed

text \<open>C9: Submitting posts a request exactly when the three fields are non-empty;
  otherwise the only effect is the validation alert.\<close>

theorem submit_validation:
  "requests (send_transaction s) =
     (if form_source (form s) = [] \<or> form_target (form s) = [] \<or> form_amount (form s) = []
      then requests s else requests s @ [transaction_data (form s)])
   \<and> alerts (send_transaction s) =
     (if form_source (form s) = [] \<or> form_target (form s) = [] \<or> form_amount (form s) = []
      then alerts s @ [validation_alert] else alerts s)"
  by (simp add: send_transaction_def required_missing_def)

text \<open>An amount that is not a number passes validation and is posted as
  NaN (serialised as \<open>null\<close>).\<close>

theorem non_numeric_amount_sent:
  "requests (send_transaction (handle_change filled_page Field_Amount ''abc'')) =
     [\<lparr>sourceAccount = ''A1'', targetAccount = ''B2'', req_amount = None\<rparr>]"
  by (simp add: send_transaction_def required_missing_def filled_page_def handle_change_def
                init_page_def transaction_data_def js_string_to_number_def js_trim_def
                js_is_space_def parse_numeric_literal_def parse_unsigned_decimal_def is_digit_def)

text \<open>C6: An event whose payload does not parse leaves the page state unchanged,
  for every stage, the completion stage included.\<close>

theorem malformed_payload_dropped:
  "stream_event s i (Sse_Message st None) = s"
  by (simp add: stream_event_def)

text \<open>C5: A transport error on an open stream sets the status to \<open>failed\<close>
  whatever it was before, and closes that stream.\<close>

theorem transport_error_fails:
  "stream_open s i \<Longrightarrow>
   va_status (stream_event s i Sse_Error) = Failed \<and> \<not> stream_open (stream_event s i Sse_Error) i"
  by (simp add: stream_event_def handle_error_eq close_stream_closes)

theorem transport_error_fails_witness:
  "va_status (stream_event (handle_completed one_stream_state 0 JNull\<lparr>streams := streams one_stream_state\<rparr>) 0 Sse_Error) = Failed"
proof -
  have o: "stream_open (handle_completed one_stream_state 0 JNull\<lparr>streams := streams one_stream_state\<rparr>) 0"
    by (simp add: stream_open_def one_stream_state_def)
  show ?thesis using transport_error_fails [OF o] by simp
qed

text \<open>C10: A failed submission is not terminal: in a reachable
  failed state, the completion event of an earlier job's stream sets the status to
  \<open>done\<close>.\<close>

theorem failed_overridden_by_stale_completion:
  "\<exists>s. page_reachable s \<and> va_status s = Failed
       \<and> va_status (stream_event s 0 (Sse_Message completed_stage (Some JNull))) = Done"
proof -
  let ?a = "submitted filled_page 5"
  let ?s = "receive_response (send_transaction ?a) Fetch_Rejected 6"
  have ok1: "\<not> required_missing (form filled_page)"
    by (simp add: filled_page_form demo_form_ok)
  have ra: "page_reachable ?a"
    by (rule page_reachable_submitted [OF filled_page_reachable]) (simp_all add: ok1 filled_page_loading)
  have fa: "form ?a = demo_form" and la: "\<not> loading ?a"
    using submitted_fields [OF ok1, of 5] by (simp_all add: filled_page_form)
  have sa: "streams ?a = [\<lparr>es_transaction = ''local-5'', es_node = ''A1'', es_open = True\<rparr>]"
    using submitted_fields [OF ok1, of 5]
    by (simp add: filled_page_form filled_page_streams nat_to_dec.simps digit_char_def demo_form_def)
  have r1: "page_reachable (send_transaction ?a)"
    using ra la by (rule page_reachable.step [OF _ page_step.submit])
  have p1: "pending (send_transaction ?a) \<noteq> None"
    by (simp add: send_transaction_def fa demo_form_ok)
  have r: "page_reachable ?s"
    using r1 page_step.respond [OF p1] by (rule page_reachable.step)
  have st: "va_status ?s = Failed" and ss: "streams ?s = streams ?a"
    by (simp_all add: send_transaction_def fa demo_form_ok receive_response_def tx_fail_def)
  have o: "stream_open ?s 0" by (simp add: stream_open_def ss sa)
  have "va_status (stream_event ?s 0 (Sse_Message completed_stage (Some JNull))) = Done"
    using o by (simp add: stream_event_completed handle_completed_def)
  with r st show ?thesis by blast
qed

text \<open>C11: Two subscriptions can be open at once, and an event of the earlier
  job's stream is appended to the fresh log of the later job.\<close>

theorem stale_stream_cross_talk:
  "\<exists>s. page_reachable s \<and> stream_open s 0 \<and> stream_open s 1 \<and> va_events s = []
     \<and> es_transaction (streams s ! 0) \<noteq> es_transaction (streams s ! 1)
     \<and> va_events (stream_event s 0 (Sse_Message ''population_loaded'' (Some JNull))) =
         [\<lparr>stage = ''population_loaded'', data = JNull\<rparr>]"
proof -
  have o: "stream_open two_jobs 0" "stream_open two_jobs 1"
    by (simp_all add: stream_open_def two_jobs_streams)
  have e: "va_events two_jobs = []"
  proof -
    have ok1: "\<not> required_missing (form filled_page)"
      by (simp add: filled_page_form demo_form_ok)
    have f1: "form (submitted filled_page 5) = demo_form"
      using submitted_fields [OF ok1, of 5] by (simp add: filled_page_form)
    have ok2: "\<not> required_missing (form (submitted filled_page 5))"
      unfolding f1 by (rule demo_form_ok)
    show ?thesis unfolding two_jobs_def
      using ok2 by (simp add: submitted_def send_transaction_def receive_response_def
                              json_content_def tx_succeed_def)
  qed
  have "va_events (stream_event two_jobs 0 (Sse_Message ''population_loaded'' (Some JNull))) =
         [\<lparr>stage = ''population_loaded'', data = JNull\<rparr>]"
    using o e by (simp add: stream_event_def pipeline_stages_def handle_event_def)
  with two_jobs_reachable o e show ?thesis by (auto simp: two_jobs_streams)
qed

end
