(* ===== verification/StreamRefinement.thy ===== *)
theory StreamRefinement
  imports StreamAggregator
begin

text \<open>
  The aggregator as the specification describes it (spec section 4.1): one subscription,
  intermediate stages appended, the completion stage appended with status done and the
  subscription closed, a transport error setting failed unless the status is done, and a
  malformed payload dropped. \<open>abs_page s i\<close> views the page through stream \<open>i\<close>. With at
  most one stream ever opened, the page implements this specification event by event; the
  overlapping-job traces of \<open>StreamAggregator\<close> are where it does not.
\<close>

record agg_state =
  a_status :: va_status
  a_log :: "va_event list"
  a_open :: bool

definition agg_event :: "agg_state \<Rightarrow> sse_event \<Rightarrow> agg_state" where
  "agg_event a ev =
     (if \<not> a_open a then a
      else case ev of
             Sse_Message st (Some d) \<Rightarrow>
               if st \<in> set pipeline_stages then a\<lparr>a_log := a_log a @ [\<lparr>stage = st, data = d\<rparr>]\<rparr>
               else if st = completed_stage
               then a\<lparr>a_log := a_log a @ [\<lparr>stage = st, data = d\<rparr>], a_status := Done, a_open := False\<rparr>
               else a
           | Sse_Message st None \<Rightarrow> a
           | Sse_Error \<Rightarrow>
               a\<lparr>a_status := (if a_status a = Done then Done else Failed), a_open := False\<rparr>)"

definition abs_page :: "page_state \<Rightarrow> nat \<Rightarrow> agg_state" where
  "abs_page s i = \<lparr>a_status = va_status s, a_log = va_events s, a_open = stream_open s i\<rparr>"

text \<open>While a stream is open and the status is done, another stream must exist: the
  one whose completion set it.\<close>

definition done_needs_other :: "page_state \<Rightarrow> bool" where
  "done_needs_other s \<longleftrightarrow>
     (va_status s = Done \<longrightarrow> (\<forall>i. stream_open s i \<longrightarrow> 2 \<le> length (streams s)))"

lemma stream_open_length: "stream_open s i \<Longrightarrow> i < length (streams s)"
  by (simp add: stream_open_def)

lemma done_needs_other_init: "done_needs_other init_page"
  by (simp add: done_needs_other_def init_page_def)

lemma stream_open_handle_event [simp]: "stream_open (handle_event s st d) j = stream_open s j"
  by (simp add: handle_event_def stream_open_def)

lemma stream_open_close:
  "stream_open (close_stream i s) j \<longleftrightarrow> j \<noteq> i \<and> stream_open s j"
  by (cases "j = i") (simp_all add: close_stream_closes stream_open_close_other)

lemma done_needs_other_stream_event:
  "done_needs_other s \<Longrightarrow> done_needs_other (stream_event s i ev)"
proof (cases "stream_open s i")
  case True
  assume inv: "done_needs_other s"
  have two: "2 \<le> length (streams s)" if "stream_open s j" "j \<noteq> i" for j
    using stream_open_length [OF True] stream_open_length [OF that(1)] that(2) by linarith
  show ?thesis
    using True inv two
    by (auto simp: stream_event_def done_needs_other_def handle_completed_def handle_error_eq handle_event_def
                   stream_open_close split: sse_event.splits option.splits)
next
  case False
  then show "done_needs_other s \<Longrightarrow> ?thesis" by (simp add: stream_event_closed)
qed

lemma done_needs_other_step: "page_step s t \<Longrightarrow> done_needs_other s \<Longrightarrow> done_needs_other t"
proof (induction rule: page_step.induct)
  case (change s f v)
  then show ?case by (simp add: done_needs_other_def handle_change_def stream_open_def)
next
  case (submit s)
  then show ?case by (simp add: done_needs_other_def send_transaction_def stream_open_def)
next
  case (respond s r now)
  then show ?case
    by (auto simp: done_needs_other_def receive_response_def tx_fail_def tx_succeed_def stream_open_def
             split: option.splits tx_response.splits)
next
  case (sse s i ev)
  then show ?case by (rule done_needs_other_stream_event)
next
  case (tab s t)
  then show ?case by (simp add: done_needs_other_def set_tab_def stream_open_def)
qed

lemma done_needs_other_reachable: "page_reachable s \<Longrightarrow> done_needs_other s"
  by (induction rule: page_reachable.induct) (auto intro: done_needs_other_init done_needs_other_step)

lemma length_streams_stream_event: "length (streams (stream_event s i ev)) = length (streams s)"
  by (auto simp: stream_event_def handle_event_def handle_completed_def handle_error_eq
           split: sse_event.splits option.splits)

lemma abs_page_stream_event:
  assumes "stream_open s i \<longrightarrow> va_status s \<noteq> Done"
  shows "abs_page (stream_event s i ev) i = agg_event (abs_page s i) ev"
proof (cases "stream_open s i")
  case True
  with assms have nd: "va_status s \<noteq> Done" by simp
  show ?thesis
    using True nd
    by (auto simp: stream_event_def agg_event_def abs_page_def handle_event_def handle_completed_def
                   handle_error_eq stream_open_close completed_not_pipeline
             split: sse_event.splits option.splits)
next
  case False
  then show ?thesis by (simp add: stream_event_closed agg_event_def abs_page_def)
qed

text \<open>C31: In any reachable page state in which at most one stream has been opened, running
  any sequence of events on that stream changes the page's status, log and open flag exactly
  as the specified single-subscription aggregator does: the page refines the
  specification, with a transport error after completion unable to downgrade \<open>done\<close>.\<close>

theorem single_stream_refines_spec:
  "page_reachable s \<Longrightarrow> length (streams s) \<le> 1 \<Longrightarrow>
   abs_page (deliver s 0 evs) 0 = fold (\<lambda>ev a. agg_event a ev) evs (abs_page s 0)"
proof (induction evs arbitrary: s)
  case Nil
  then show ?case by simp
next
  case (Cons ev evs)
  have r: "page_reachable (stream_event s 0 ev)"
    using Cons.prems(1) by (rule page_reachable.step [OF _ page_step.sse])
  have l: "length (streams (stream_event s 0 ev)) \<le> 1"
    using Cons.prems(2) by (simp add: length_streams_stream_event)
  have "stream_open s 0 \<longrightarrow> va_status s \<noteq> Done"
    using done_needs_other_reachable [OF Cons.prems(1)] Cons.prems(2)
    by (auto simp: done_needs_other_def)
  then have "abs_page (stream_event s 0 ev) 0 = agg_event (abs_page s 0) ev"
    by (rule abs_page_stream_event)
  then show ?case using Cons.IH [OF r l] by simp
qed

theorem single_stream_refines_spec_witness:
  "abs_page (deliver (submitted filled_page 5) 0
     [Sse_Message ''population_loaded'' (Some JNull), Sse_Message completed_stage (Some JNull), Sse_Error]) 0
   = \<lparr>a_status = Done,
      a_log = [\<lparr>stage = ''population_loaded'', data = JNull\<rparr>, \<lparr>stage = completed_stage, data = JNull\<rparr>],
      a_open = False\<rparr>"
proof -
  have ok: "\<not> required_missing (form filled_page)"
    by (simp add: filled_page_form demo_form_ok)
  have r: "page_reachable (submitted filled_page 5)"
    by (rule page_reachable_submitted [OF filled_page_reachable filled_page_loading ok])
  have f: "va_status (submitted filled_page 5) = Running
           \<and> streams (submitted filled_page 5) = [\<lparr>es_transaction = ''local-5'', es_node = ''A1'', es_open = True\<rparr>]"
    using submitted_fields [OF ok, of 5]
    by (simp add: filled_page_form filled_page_streams nat_to_dec.simps digit_char_def demo_form_def)
  have e: "va_events (submitted filled_page 5) = []"
    using ok by (simp add: submitted_def send_transaction_def receive_response_def json_content_def
                           tx_succeed_def)
  have l: "length (streams (submitted filled_page 5)) \<le> 1" using f by simp
  show ?thesis
    unfolding single_stream_refines_spec [OF r l]
    using f e by (simp add: abs_page_def stream_open_def agg_event_def pipeline_stages_def completed_stage_def)
qed

end
