(* ===== verification/GraphModel.thy ===== *)
theory GraphModel
  imports JsValue
begin

text \<open>
  The graph data of the 3D fraud view (\<open>src/visualization/src/components/FraudGraph3D.jsx\<close>):
  \<open>loadGraph\<close> (the markup guard, \<open>JSON.parse\<close>, the normalisation of nodes and
  links) and the \<open>visibleGraph\<close> memo (the fraud-only filter), and the older filter of
  \<open>src/visual-analytics/visualization/src/components/FraudGraph3D.jsx\<close>.
  \<open>JSON.parse\<close> is a parameter \<open>parse\<close> of the load (\<open>None\<close> when it throws): the
  theorems hold for any parser. A TypeError thrown inside \<open>loadGraph\<close> is caught by its
  \<open>catch\<close>; one thrown inside the memo is a render error, \<open>View_Error\<close>.
\<close>

record gnode =
  node_id :: jsval
  is_anomalous :: jsval
  height :: jsval
  volume :: jsval
  color :: string

record glink =
  link_source :: jsval
  link_target :: jsval
  link_amount :: jsnum

record graph =
  nodes :: "gnode list"
  links :: "glink list"

subsection \<open>Normalisation\<close>

definition fraud_color :: string where
  "fraud_color = ''#ff4d4d''"

definition normal_color :: string where
  "normal_color = ''#22c55e''"

text \<open>The \<open>data.nodes.map\<close> callback; \<open>None\<close> is the TypeError of \<open>n.nodeId\<close> on a
  nullish element.\<close>

definition normalize_node :: "jsval \<Rightarrow> gnode option" where
  "normalize_node n =
     (if js_nullish n then None
      else Some \<lparr>node_id = js_opt_get n ''nodeId'',
                 is_anomalous = js_opt_get n ''isAnomalous'',
                 height = js_opt_get n ''anomalyScore'',
                 volume = js_coalesce (js_opt_get n ''volume'') (JNum (Some 1)),
                 color = (if js_truthy (js_opt_get n ''isAnomalous'') then fraud_color
                          else normal_color)\<rparr>)"

text \<open>The \<open>data.links.filter\<close> callback \<open>l.source && l.target\<close>.\<close>

definition link_kept :: "jsval \<Rightarrow> bool option" where
  "link_kept l =
     (if js_nullish l then None
      else Some (js_truthy (js_opt_get l ''source'') \<and> js_truthy (js_opt_get l ''target'')))"

text \<open>The \<open>.map\<close> callback on the kept links: \<open>Number(l.amount ?? 1)\<close>.\<close>

definition normalize_link :: "jsval \<Rightarrow> glink" where
  "normalize_link l =
     \<lparr>link_source = js_opt_get l ''source'', link_target = js_opt_get l ''target'',
      link_amount = js_to_number (js_coalesce (js_opt_get l ''amount'') (JNum (Some 1)))\<rparr>"

text \<open>\<open>.map\<close> and \<open>.filter\<close> exist on arrays only: on any other value the call throws.\<close>

definition js_array :: "jsval option \<Rightarrow> jsval list option" where
  "js_array v = (case v of Some (JArr xs) \<Rightarrow> Some xs | _ \<Rightarrow> None)"

definition normalize_graph :: "jsval \<Rightarrow> graph option" where
  "normalize_graph d =
     (case js_array (js_get d ''nodes'') of
        None \<Rightarrow> None
      | Some ns \<Rightarrow>
          (case map_all normalize_node ns of
             None \<Rightarrow> None
           | Some gns \<Rightarrow>
               (case js_array (js_get d ''links'') of
                  None \<Rightarrow> None
                | Some ls \<Rightarrow>
                    (case filter_opt link_kept ls of
                       None \<Rightarrow> None
                     | Some kept \<Rightarrow> Some \<lparr>nodes = gns, links = map normalize_link kept\<rparr>))))"

subsection \<open>Loading\<close>

text \<open>How the \<open>fetch\<close> of \<open>/api/graph\<close> ends: rejected, aborted by the effect's
  cleanup, or with a body read by \<open>res.text()\<close>.\<close>

datatype fetch_outcome = Fetch_Failed | Fetch_Aborted | Fetch_Body string

text \<open>\<open>loadGraph\<close>, as a function of the snapshot held in \<open>rawGraph\<close> before it.\<close>

definition load_graph ::
  "(string \<Rightarrow> jsval option) \<Rightarrow> fetch_outcome \<Rightarrow> graph option \<Rightarrow> graph option" where
  "load_graph parse r old =
     (case r of
        Fetch_Body text \<Rightarrow>
          if js_starts_with (js_trim text) ''<'' then old
          else (case parse text of
                  None \<Rightarrow> old
                | Some d \<Rightarrow> (case normalize_graph d of None \<Rightarrow> old | Some g \<Rightarrow> Some g))
      | _ \<Rightarrow> old)"

subsection \<open>The fraud-only filter\<close>

datatype graph_view = No_Graph | View graph | View_Error

text \<open>\<open>typeof l.source === "object" ? l.source.id : l.source\<close>; the force engine
  replaces the endpoints of a link by its node objects once the layout has run.\<close>

definition link_endpoint :: "jsval \<Rightarrow> jsval option" where
  "link_endpoint v = (if js_is_object v then js_get v ''id'' else Some v)"

definition fraud_ids :: "graph \<Rightarrow> jsval list" where
  "fraud_ids g = map node_id (filter (\<lambda>n. js_truthy (is_anomalous n)) (nodes g))"

definition link_in_ids :: "jsval list \<Rightarrow> glink \<Rightarrow> bool option" where
  "link_in_ids ids l =
     (case link_endpoint (link_source l) of
        None \<Rightarrow> None
      | Some src \<Rightarrow>
          (case link_endpoint (link_target l) of
             None \<Rightarrow> None
           | Some tgt \<Rightarrow> Some (src \<in> set ids \<and> tgt \<in> set ids)))"

definition visible_graph :: "graph option \<Rightarrow> bool \<Rightarrow> graph_view" where
  "visible_graph raw only_fraud =
     (case raw of
        None \<Rightarrow> No_Graph
      | Some g \<Rightarrow>
          if \<not> only_fraud then View g
          else
            let ids = fraud_ids g
            in case filter_opt (link_in_ids ids) (links g) of
                 None \<Rightarrow> View_Error
               | Some ls \<Rightarrow> View \<lparr>nodes = filter (\<lambda>n. node_id n \<in> set ids) (nodes g), links = ls\<rparr>)"

subsection \<open>Example data\<close>

definition demo_graph :: graph where
  "demo_graph =
     \<lparr>nodes = [\<lparr>node_id = JStr ''A123'', is_anomalous = JBool True, height = JNum (Some 1),
                volume = JNum (Some 1), color = fraud_color\<rparr>,
               \<lparr>node_id = JStr ''B7'', is_anomalous = JBool False, height = JNum (Some 0),
                volume = JNum (Some 1), color = normal_color\<rparr>],
      links = [\<lparr>link_source = JStr ''A123'', link_target = JStr ''B7'', link_amount = Some 5\<rparr>,
               \<lparr>link_source = JStr ''A123'', link_target = JStr ''A123'', link_amount = Some 2\<rparr>]\<rparr>"

definition demo_payload :: jsval where
  "demo_payload =
     JObj [(''nodes'', JArr [JObj [(''nodeId'', JStr ''A123''), (''isAnomalous'', JBool True),
                                   (''anomalyScore'', JNum (Some 1))]]),
           (''links'', JArr [JObj [(''source'', JStr ''A123''), (''target'', JStr ''A123''),
                                   (''amount'', JNum (Some 2))],
                             JObj [(''source'', JNull), (''target'', JStr ''A123'')]])]"

definition demo_normalized :: graph where
  "demo_normalized =
     \<lparr>nodes = [\<lparr>node_id = JStr ''A123'', is_anomalous = JBool True, height = JNum (Some 1),
                volume = JNum (Some 1), color = fraud_color\<rparr>],
      links = [\<lparr>link_source = JStr ''A123'', link_target = JStr ''A123'', link_amount = Some 2\<rparr>]\<rparr>"

declare normalize_node_def [graph_defs] link_kept_def [graph_defs]
  normalize_link_def [graph_defs] normalize_graph_def [graph_defs] load_graph_def [graph_defs]
  visible_graph_def [graph_defs] fraud_ids_def [graph_defs] link_in_ids_def [graph_defs]

subsection \<open>Lemmas on loading and filtering\<close>

lemma link_endpoint_truthy: "js_truthy v \<Longrightarrow> link_endpoint v \<noteq> None"
  by (cases v) (auto simp: link_endpoint_def)

lemma normalize_graph_Some:
  "normalize_graph d = Some g \<Longrightarrow>
   \<exists>ns ls kept. js_get d ''nodes'' = Some (JArr ns) \<and> map_all normalize_node ns = Some (nodes g)
     \<and> js_get d ''links'' = Some (JArr ls) \<and> filter_opt link_kept ls = Some kept
     \<and> links g = map normalize_link kept"
  by (auto simp: normalize_graph_def js_array_def split: option.splits jsval.splits)

lemma link_kept_truthy:
  "filter_opt link_kept ls = Some kept \<Longrightarrow> l \<in> set kept \<Longrightarrow>
   js_truthy (js_opt_get l ''source'') \<and> js_truthy (js_opt_get l ''target'')"
  by (drule filter_opt_Some_filter) (auto simp: link_kept_def split: if_splits)

text \<open>C15: No link whose source or target is missing, null or otherwise falsy
  survives the normalisation of a loaded snapshot.\<close>

theorem normalize_drops_falsy_endpoints:
  "normalize_graph d = Some g \<Longrightarrow> l \<in> set (links g) \<Longrightarrow>
   js_truthy (link_source l) \<and> js_truthy (link_target l)"

proof -
  assume n: "normalize_graph d = Some g" and l: "l \<in> set (links g)"
  obtain ls kept where f: "filter_opt link_kept ls = Some kept" and lg: "links g = map normalize_link kept"
    using normalize_graph_Some [OF n] by blast
  from l lg obtain x where x: "x \<in> set kept" and lx: "l = normalize_link x" by auto
  show ?thesis using link_kept_truthy [OF f x] lx by (simp add: normalize_link_def)

qed

text \<open>C16: The fraud filter never throws on a normalised snapshot, whichever way the
  flag is set.\<close>

theorem normalized_view_defined:
  "normalize_graph d = Some g \<Longrightarrow> visible_graph (Some g) b \<noteq> View_Error"

proof
  assume n: "normalize_graph d = Some g" and e: "visible_graph (Some g) b = View_Error"
  from e obtain l where l: "l \<in> set (links g)" and "link_in_ids (fraud_ids g) l = None"
    by (auto simp: visible_graph_def Let_def filter_opt_None_iff split: if_splits option.splits)
  then have "link_endpoint (link_source l) = None \<or> link_endpoint (link_target l) = None"
    by (auto simp: link_in_ids_def split: option.splits)
  moreover have "js_truthy (link_source l) \<and> js_truthy (link_target l)"
    using normalize_drops_falsy_endpoints [OF n l] .
  ultimately show False by (auto dest: link_endpoint_truthy)

qed

lemma fraud_filter_nodes_distinct:
  assumes "distinct (map node_id ns)"
  shows "filter (\<lambda>n. node_id n \<in> set (map node_id (filter (\<lambda>n. js_truthy (is_anomalous n)) ns))) ns
         = filter (\<lambda>n. js_truthy (is_anomalous n)) ns"

proof (rule filter_cong_set)
  fix n assume n: "n \<in> set ns"
  have inj: "inj_on node_id (set ns)" using assms by (simp add: distinct_map)
  show "(node_id n \<in> set (map node_id (filter (\<lambda>n. js_truthy (is_anomalous n)) ns)))
        = js_truthy (is_anomalous n)"
    using n inj by (auto dest: inj_onD)

qed

text \<open>C14: With fraud-only on and node identifiers distinct, the visible nodes are
  exactly the anomalous nodes of the snapshot, in order, and every visible link resolves
  both endpoints to identifiers of visible nodes.\<close>

theorem fraud_view_sound:
  assumes "visible_graph (Some g) True = View v" and "distinct (map node_id (nodes g))"
  shows "nodes v = filter (\<lambda>n. js_truthy (is_anomalous n)) (nodes g)
       \<and> (\<forall>l\<in>set (links v). \<exists>s t. link_endpoint (link_source l) = Some s
             \<and> link_endpoint (link_target l) = Some t
             \<and> s \<in> node_id ` set (nodes v) \<and> t \<in> node_id ` set (nodes v))"

proof -
  obtain ls where f: "filter_opt (link_in_ids (fraud_ids g)) (links g) = Some ls"
    and v: "v = \<lparr>nodes = filter (\<lambda>n. node_id n \<in> set (fraud_ids g)) (nodes g), links = ls\<rparr>"
    using assms(1) by (auto simp: visible_graph_def Let_def split: option.splits)
  have nv: "nodes v = filter (\<lambda>n. js_truthy (is_anomalous n)) (nodes g)"
    using v fraud_filter_nodes_distinct [OF assms(2)] by (simp add: fraud_ids_def)
  have ids: "set (fraud_ids g) = node_id ` set (nodes v)"
    by (auto simp: nv fraud_ids_def)
  have lv: "links v = ls" using v by simp
  have "\<exists>s t. link_endpoint (link_source l) = Some s \<and> link_endpoint (link_target l) = Some t
             \<and> s \<in> node_id ` set (nodes v) \<and> t \<in> node_id ` set (nodes v)"
    if l: "l \<in> set (links v)" for l
  proof -
    have "link_in_ids (fraud_ids g) l = Some True"
      using filter_opt_Some_filter [OF f] l lv by auto
    then show ?thesis
      unfolding ids [symmetric] by (auto simp: link_in_ids_def split: option.splits)
  qed
  then have "\<forall>l\<in>set (links v). \<exists>s t. link_endpoint (link_source l) = Some s
             \<and> link_endpoint (link_target l) = Some t
             \<and> s \<in> node_id ` set (nodes v) \<and> t \<in> node_id ` set (nodes v)"
    by blast
  with nv show ?thesis by blast

qed

theorem fraud_view_sound_witness:
  "nodes \<lparr>nodes = [hd (nodes demo_graph)], links = [links demo_graph ! 1]\<rparr>
     = filter (\<lambda>n. js_truthy (is_anomalous n)) (nodes demo_graph)"

proof -
  have v: "visible_graph (Some demo_graph) True = View \<lparr>nodes = [hd (nodes demo_graph)], links = [links demo_graph ! 1]\<rparr>"
    by (simp add: visible_graph_def demo_graph_def fraud_ids_def link_in_ids_def link_endpoint_def)
  have d: "distinct (map node_id (nodes demo_graph))" by (simp add: demo_graph_def)
  show ?thesis using fraud_view_sound [OF v d] by blast

qed

text \<open>The fraud filter selects nodes by identifier, so a normal node that
  shares its identifier with an anomalous node stays in the fraud-only view.\<close>

theorem duplicate_id_keeps_normal_node:
  "visible_graph (Some \<lparr>nodes = [\<lparr>node_id = JStr ''A1'', is_anomalous = JBool True, height = JNull,
                                  volume = JNum (Some 1), color = fraud_color\<rparr>,
                                 \<lparr>node_id = JStr ''A1'', is_anomalous = JBool False, height = JNull,
                                  volume = JNum (Some 1), color = normal_color\<rparr>],
                        links = []\<rparr>) True
   = View \<lparr>nodes = [\<lparr>node_id = JStr ''A1'', is_anomalous = JBool True, height = JNull,
                     volume = JNum (Some 1), color = fraud_color\<rparr>,
                    \<lparr>node_id = JStr ''A1'', is_anomalous = JBool False, height = JNull,
                     volume = JNum (Some 1), color = normal_color\<rparr>], links = []\<rparr>"
  by (simp add: visible_graph_def fraud_ids_def)

text \<open>C18: A markup body, a body \<open>JSON.parse\<close> rejects, or data that does not
  normalise leaves the previous snapshot (or its absence) unchanged.\<close>

theorem load_failure_keeps_snapshot:
  "js_starts_with (js_trim t) ''<'' \<or> parse t = None
   \<or> (\<exists>d. parse t = Some d \<and> normalize_graph d = None) \<Longrightarrow>
   load_graph parse (Fetch_Body t) old = old"
  by (auto simp: load_graph_def)

theorem load_failure_keeps_snapshot_witness:
  "load_graph (\<lambda>_. None) (Fetch_Body ''  <!DOCTYPE html>'') (Some demo_graph) = Some demo_graph"

proof -
  have "js_starts_with (js_trim ''  <!DOCTYPE html>'') ''<''"
    by (simp add: js_trim_def js_is_space_def js_starts_with_def)
  then show ?thesis using load_failure_keeps_snapshot by blast

qed

text \<open>C19: A load either keeps the previous snapshot or replaces it with the full
  normalisation of the parsed body: never a partial snapshot.\<close>

theorem load_all_or_nothing:
  "load_graph parse r old = old
   \<or> (\<exists>t d g. r = Fetch_Body t \<and> parse t = Some d \<and> normalize_graph d = Some g
              \<and> load_graph parse r old = Some g)"
  by (auto simp: load_graph_def split: fetch_outcome.splits option.splits)

lemma normalize_node_Some:
  "normalize_node n = Some m \<Longrightarrow>
   \<not> js_nullish (volume m) \<and> (color m = fraud_color \<longleftrightarrow> js_truthy (is_anomalous m))
   \<and> (color m = normal_color \<longleftrightarrow> \<not> js_truthy (is_anomalous m))"
  by (auto simp: normalize_node_def js_coalesce_def js_nullish_def fraud_color_def normal_color_def
           split: if_splits)

text \<open>C20: Normalisation keeps one node per input element, gives every node a
  non-null volume and a colour that is the fraud colour exactly for anomalous nodes.\<close>

theorem normalized_nodes_wellformed:
  assumes "normalize_graph d = Some g" and "js_get d ''nodes'' = Some (JArr ns)"
  shows "length (nodes g) = length ns
       \<and> (\<forall>m\<in>set (nodes g). \<not> js_nullish (volume m)
             \<and> (color m = fraud_color \<longleftrightarrow> js_truthy (is_anomalous m))
             \<and> (color m = normal_color \<longleftrightarrow> \<not> js_truthy (is_anomalous m)))"

proof -
  have m: "map_all normalize_node ns = Some (nodes g)"
    using normalize_graph_Some [OF assms(1)] assms(2) by auto
  from map_all_Some [OF m] have len: "length (nodes g) = length ns"
    and each: "\<forall>i < length ns. normalize_node (ns ! i) = Some (nodes g ! i)" by auto
  have "\<forall>m\<in>set (nodes g). \<not> js_nullish (volume m)
             \<and> (color m = fraud_color \<longleftrightarrow> js_truthy (is_anomalous m))
             \<and> (color m = normal_color \<longleftrightarrow> \<not> js_truthy (is_anomalous m))"
    using len each normalize_node_Some by (metis in_set_conv_nth)
  with len show ?thesis by blast

qed

text \<open>An absent amount defaults to 1, but a non-numeric amount becomes NaN
  rather than the default.\<close>

theorem link_amount_not_defaulted:
  "link_amount (normalize_link (JObj [(''source'', JStr ''a''), (''target'', JStr ''b'')])) = Some 1
   \<and> link_amount (normalize_link (JObj [(''source'', JStr ''a''), (''target'', JStr ''b''),
                                        (''amount'', JStr ''n/a'')])) = None"
  by (simp add: normalize_link_def js_opt_get_def js_coalesce_def js_nullish_def
      js_string_to_number_def js_trim_def js_is_space_def parse_numeric_literal_def
      parse_unsigned_decimal_def is_digit_def)

lemma demo_payload_normalized: "normalize_graph demo_payload = Some demo_normalized"
  by (simp add: normalize_graph_def demo_payload_def demo_normalized_def js_array_def
      normalize_node_def link_kept_def normalize_link_def js_opt_get_def js_coalesce_def
      js_nullish_def)

theorem normalize_drops_falsy_endpoints_witness:
  "js_truthy (link_source (hd (links demo_normalized))) \<and> js_truthy (link_target (hd (links demo_normalized)))"
  using normalize_drops_falsy_endpoints [OF demo_payload_normalized, of "hd (links demo_normalized)"]
  by (simp add: demo_normalized_def)

theorem normalized_view_defined_witness:
  "visible_graph (Some demo_normalized) True \<noteq> View_Error"
  using normalized_view_defined [OF demo_payload_normalized] by blast

theorem normalized_nodes_wellformed_witness:
  "length (nodes demo_normalized) = 1 \<and> color (hd (nodes demo_normalized)) = fraud_color"

proof -
  have n: "js_get demo_payload ''nodes'' = Some (JArr [JObj [(''nodeId'', JStr ''A123''),
             (''isAnomalous'', JBool True), (''anomalyScore'', JNum (Some 1))]])"
    by (simp add: demo_payload_def)
  show ?thesis
    using normalized_nodes_wellformed [OF demo_payload_normalized n]
    by (simp add: demo_normalized_def)

qed

end
