(* ===== verification/GraphView.thy ===== *)
theory GraphView
  imports GraphModel
begin

text \<open>
  The interactive side of the 3D view (\<open>src/visualization/src/components/FraudGraph3D.jsx\<close>):
  the search handler, node clicks, the two camera effects and the \<open>nodeThreeObject\<close>
  styling callback; and the styling callbacks and fraud filter of the older view
  (\<open>src/visual-analytics/visualization/src/components/FraudGraph3D.jsx\<close>).
  Calls to \<open>fgRef.current.cameraPosition(pos, lookAt, ms)\<close> are recorded, in order, in
  \<open>camera_calls\<close>; the last one is the pose the camera ends in. Calls to the parent's
  \<open>onNodeSelect\<close> are recorded in \<open>selections\<close>. The force engine writes the layout
  coordinates into the node objects; \<open>positions\<close> holds them by node identifier
  (an undefined coordinate is NaN, as \<open>undefined * 1.3\<close> is).
\<close>

record vec3 =
  vx :: jsnum
  vy :: jsnum
  vz :: jsnum

record camera_call =
  cam_pos :: vec3
  cam_look :: vec3
  cam_ms :: nat

record viz_state =
  raw_graph :: "graph option"
  show_only_fraud :: bool
  active_node_id :: jsval
  search_id :: string
  search_error :: string
  fg_ready :: bool
  positions :: "jsval \<Rightarrow> vec3"
  camera_calls :: "camera_call list"
  selections :: "gnode list"

definition undefined_pos :: vec3 where
  "undefined_pos = \<lparr>vx = None, vy = None, vz = None\<rparr>"

text \<open>The component's initial state: nothing loaded, no node active, no layout yet.\<close>

definition init_viz :: viz_state where
  "init_viz =
     \<lparr>raw_graph = None, show_only_fraud = False, active_node_id = JNull, search_id = [],
      search_error = [], fg_ready = False, positions = (\<lambda>_. undefined_pos),
      camera_calls = [], selections = []\<rparr>"

subsection \<open>Camera poses\<close>

text \<open>\<open>{x: p.x * k, y: p.y * k, z: p.z * k + d}\<close>, looking at \<open>p\<close>.\<close>

definition offset_pose :: "real \<Rightarrow> real \<Rightarrow> nat \<Rightarrow> vec3 \<Rightarrow> camera_call" where
  "offset_pose k d ms p =
     \<lparr>cam_pos = \<lparr>vx = js_mul (vx p) k, vy = js_mul (vy p) k, vz = js_add (js_mul (vz p) k) d\<rparr>,
      cam_look = p, cam_ms = ms\<rparr>"

definition default_pose :: camera_call where
  "default_pose =
     \<lparr>cam_pos = \<lparr>vx = Some 0, vy = Some 0, vz = Some 900\<rparr>,
      cam_look = \<lparr>vx = Some 0, vy = Some 0, vz = Some 0\<rparr>, cam_ms = 0\<rparr>"

definition select_pose :: "vec3 \<Rightarrow> camera_call" where
  "select_pose p = offset_pose (13 / 10) 120 1500 p"

definition search_pose :: "vec3 \<Rightarrow> camera_call" where
  "search_pose p = offset_pose (14 / 10) 150 1200 p"

definition push_camera :: "camera_call \<Rightarrow> viz_state \<Rightarrow> viz_state" where
  "push_camera c s = s\<lparr>camera_calls := camera_calls s @ [c]\<rparr>"

text \<open>The CAMERA DEFAULT effect, run after \<open>rawGraph\<close> changes.\<close>

definition camera_default_effect :: "viz_state \<Rightarrow> viz_state" where
  "camera_default_effect s =
     (if \<not> fg_ready s \<or> raw_graph s = None then s else push_camera default_pose s)"

text \<open>The CAMERA ON SELECT effect, run after the \<open>selectedNode\<close> prop changes.\<close>

definition camera_select_effect :: "gnode option \<Rightarrow> viz_state \<Rightarrow> viz_state" where
  "camera_select_effect sel s =
     (case sel of
        None \<Rightarrow> s
      | Some n \<Rightarrow> if \<not> fg_ready s then s else push_camera (select_pose (positions s (node_id n))) s)"

subsection \<open>Search and clicks\<close>

definition not_found_message :: string where
  "not_found_message = ''Account not found in current view''"

definition current_view :: "viz_state \<Rightarrow> graph_view" where
  "current_view s = visible_graph (raw_graph s) (show_only_fraud s)"

text \<open>\<open>handleSearch\<close>.\<close>

definition handle_search :: "viz_state \<Rightarrow> viz_state" where
  "handle_search s =
     (case current_view s of
        View g \<Rightarrow>
          if \<not> fg_ready s then s
          else (case find (\<lambda>n. js_to_string (node_id n) = js_trim (search_id s)) (nodes g) of
                  None \<Rightarrow> s\<lparr>search_error := not_found_message\<rparr>
                | Some n \<Rightarrow>
                    push_camera (search_pose (positions s (node_id n)))
                      (s\<lparr>search_error := [], active_node_id := node_id n,
                         selections := selections s @ [n]\<rparr>))
      | _ \<Rightarrow> s)"

text \<open>\<open>onNodeClick\<close>.\<close>

definition node_click :: "viz_state \<Rightarrow> gnode \<Rightarrow> viz_state" where
  "node_click s n = s\<lparr>selections := selections s @ [n], active_node_id := node_id n\<rparr>"

subsection \<open>Node styling\<close>

text \<open>\<open>a === b\<close>: NaN equals nothing; other values compare by value (objects, compared
  by reference in JavaScript, are not used as identifiers here).\<close>

fun js_strict_eq :: "jsval \<Rightarrow> jsval \<Rightarrow> bool" where
  "js_strict_eq (JNum None) b = False"
| "js_strict_eq a (JNum None) = False"
| "js_strict_eq a b = (a = b)"

record sphere =
  radius :: nat
  sphere_color :: string
  emissive :: string
  emissive_intensity :: real

text \<open>\<open>nodeThreeObject\<close>: \<open>selectedNode?.id\<close> is \<open>undefined\<close> when nothing is
  selected; \<open>alertedNodeId\<close> is the prop as passed.\<close>

definition node_selected :: "gnode option \<Rightarrow> jsval \<Rightarrow> gnode \<Rightarrow> bool" where
  "node_selected sel active n \<longleftrightarrow>
     js_strict_eq (case sel of None \<Rightarrow> JUndef | Some m \<Rightarrow> node_id m) (node_id n)
     \<or> js_strict_eq active (node_id n)"

definition node_sphere :: "gnode option \<Rightarrow> jsval \<Rightarrow> jsval \<Rightarrow> gnode \<Rightarrow> sphere" where
  "node_sphere sel active alerted n =
     (let is_sel = node_selected sel active n; is_alert = js_strict_eq alerted (node_id n)
      in \<lparr>radius = (if is_alert then 7 else if is_sel then 6 else 3),
          sphere_color = color n,
          emissive = (if is_sel then color n else ''#000000''),
          emissive_intensity = (if is_sel then 9 / 10 else 0)\<rparr>)"

subsection \<open>The visual-analytics view\<close>

text \<open>\<open>nodeVal={(n) => Math.max(2, n.size)}\<close>: NaN when the size is not a number.\<close>

definition va_node_val :: "jsval \<Rightarrow> jsnum" where
  "va_node_val sz = map_option (\<lambda>x. max 2 x) (js_to_number sz)"

text \<open>\<open>linkWidth={(l) => Math.min(3, Math.log(l.amount + 1))}\<close> for a numeric amount;
  the logarithm of a non-positive number (NaN or minus infinity) is NaN here.\<close>

definition va_link_width :: "real \<Rightarrow> jsnum" where
  "va_link_width a = (if a + 1 \<le> 0 then None else Some (min 3 (ln (a + 1))))"

text \<open>The fraud filter of the older view, on the parsed \<open>nodes_viz.json\<close> arrays:
  \<open>n.is_anomalous === 1\<close> and \<open>fraudIds.has(l.source) && fraudIds.has(l.target)\<close>;
  a nullish node or link makes the property read throw.\<close>

datatype va_view = VA_View "jsval list" "jsval list" | VA_Error

definition va_is_fraud :: "jsval \<Rightarrow> bool option" where
  "va_is_fraud n =
     (if js_nullish n then None else Some (js_strict_eq (js_opt_get n ''is_anomalous'') (JNum (Some 1))))"

definition va_visible_graph :: "jsval list \<Rightarrow> jsval list \<Rightarrow> bool \<Rightarrow> va_view" where
  "va_visible_graph ns ls only_fraud =
     (if \<not> only_fraud then VA_View ns ls
      else case filter_opt va_is_fraud ns of
             None \<Rightarrow> VA_Error
           | Some fraud \<Rightarrow>
               let ids = map (\<lambda>n. js_opt_get n ''id'') fraud
               in case filter_opt (\<lambda>n. if js_nullish n then None else Some (js_opt_get n ''id'' \<in> set ids)) ns of
                    None \<Rightarrow> VA_Error
                  | Some vns \<Rightarrow>
                      (case filter_opt (\<lambda>l. if js_nullish l then None
                                            else Some (js_opt_get l ''source'' \<in> set ids
                                                       \<and> js_opt_get l ''target'' \<in> set ids)) ls of
                         None \<Rightarrow> VA_Error
                       | Some vls \<Rightarrow> VA_View vns vls))"

subsection \<open>Example state\<close>

definition demo_viz :: viz_state where
  "demo_viz = init_viz\<lparr>raw_graph := Some demo_graph, fg_ready := True, search_id := '' A123 '',
                       search_error := not_found_message\<rparr>"

declare handle_search_def [graph_defs] node_click_def [graph_defs]
  camera_default_effect_def [graph_defs] camera_select_effect_def [graph_defs]
  node_sphere_def [graph_defs] push_camera_def [graph_defs]

subsection \<open>Lemmas on search, camera and styling\<close>

text \<open>C23: Searching for an identifier that the current view contains (after trimming
  the query, comparing with \<open>String(n.id)\<close>) clears the search error, makes the first
  matching node active, reports it to the parent and moves the camera towards it.\<close>

theorem search_finds_node:
  assumes "current_view s = View g" and "fg_ready s"
    and "find (\<lambda>n. js_to_string (node_id n) = js_trim (search_id s)) (nodes g) = Some n"
  shows "search_error (handle_search s) = [] \<and> active_node_id (handle_search s) = node_id n
       \<and> selections (handle_search s) = selections s @ [n]
       \<and> camera_calls (handle_search s) = camera_calls s @ [search_pose (positions s (node_id n))]
       \<and> n \<in> set (nodes g) \<and> js_to_string (node_id n) = js_trim (search_id s)"

proof -
  have h: "handle_search s = push_camera (search_pose (positions s (node_id n)))
             (s\<lparr>search_error := [], active_node_id := node_id n, selections := selections s @ [n]\<rparr>)"
    using assms by (simp add: handle_search_def)
  have "n \<in> set (nodes g) \<and> js_to_string (node_id n) = js_trim (search_id s)"
    using assms(3) by (auto simp: find_Some_iff)
  then show ?thesis by (simp add: h push_camera_def)

qed

text \<open>C24: Searching for an identifier the current view does not contain only sets
  the not-found message: the active node, the selection and the camera are unchanged.\<close>

theorem search_not_found:
  assumes "current_view s = View g" and "fg_ready s"
    and "\<forall>n\<in>set (nodes g). js_to_string (node_id n) \<noteq> js_trim (search_id s)"
  shows "handle_search s = s\<lparr>search_error := not_found_message\<rparr>"

proof -
  have "find (\<lambda>n. js_to_string (node_id n) = js_trim (search_id s)) (nodes g) = None"
    using assms(3) by (simp add: find_None_iff)
  then show ?thesis using assms(1,2) by (simp add: handle_search_def)

qed

lemma demo_viz_view: "current_view demo_viz = View demo_graph"
  by (simp add: current_view_def demo_viz_def init_viz_def visible_graph_def)

theorem search_finds_node_witness:
  "search_error (handle_search demo_viz) = [] \<and> active_node_id (handle_search demo_viz) = JStr ''A123''"

proof -
  have f: "find (\<lambda>n. js_to_string (node_id n) = js_trim (search_id demo_viz)) (nodes demo_graph)
           = Some (hd (nodes demo_graph))"
    by (simp add: demo_viz_def demo_graph_def js_trim_def js_is_space_def)
  have r: "fg_ready demo_viz" by (simp add: demo_viz_def)
  show ?thesis using search_finds_node [OF demo_viz_view r f] by (simp add: demo_graph_def)

qed

theorem search_not_found_witness:
  "handle_search (demo_viz\<lparr>search_id := ''ZZZ''\<rparr>) = demo_viz\<lparr>search_id := ''ZZZ'', search_error := not_found_message\<rparr>"

proof -
  have v: "current_view (demo_viz\<lparr>search_id := ''ZZZ''\<rparr>) = View demo_graph"
    by (simp add: current_view_def demo_viz_def init_viz_def visible_graph_def)
  have r: "fg_ready (demo_viz\<lparr>search_id := ''ZZZ''\<rparr>)" by (simp add: demo_viz_def)
  have n: "\<forall>n\<in>set (nodes demo_graph). js_to_string (node_id n) \<noteq> js_trim (search_id (demo_viz\<lparr>search_id := ''ZZZ''\<rparr>))"
    by (simp add: demo_graph_def js_trim_def js_is_space_def)
  show ?thesis using search_not_found [OF v r n] by simp

qed

text \<open>C25: When a node with a resolved position \<open>p\<close> is selected, the camera moves
  to \<open>p\<close> plus three tenths of \<open>p\<close> plus a standoff of 120 on the z axis, looking at
  \<open>p\<close>, over 1500 ms.\<close>

theorem select_camera_offset:
  assumes "positions s (node_id n) = \<lparr>vx = Some x, vy = Some y, vz = Some z\<rparr>" and "fg_ready s"
  shows "camera_calls (camera_select_effect (Some n) s) =
           camera_calls s @ [\<lparr>cam_pos = \<lparr>vx = Some (x + 3/10 * x), vy = Some (y + 3/10 * y),
                                          vz = Some (z + 3/10 * z + 120)\<rparr>,
                              cam_look = \<lparr>vx = Some x, vy = Some y, vz = Some z\<rparr>, cam_ms = 1500\<rparr>]"
  using assms
  by (simp add: camera_select_effect_def push_camera_def select_pose_def offset_pose_def
                js_mul_def js_add_def algebra_simps)

theorem select_camera_offset_witness:
  "camera_calls (camera_select_effect (Some (hd (nodes demo_graph)))
      (demo_viz\<lparr>positions := (\<lambda>_. \<lparr>vx = Some 10, vy = Some 0, vz = Some (-10)\<rparr>)\<rparr>)) =
   [\<lparr>cam_pos = \<lparr>vx = Some 13, vy = Some 0, vz = Some 107\<rparr>,
     cam_look = \<lparr>vx = Some 10, vy = Some 0, vz = Some (-10)\<rparr>, cam_ms = 1500\<rparr>]"

proof -
  have p: "positions (demo_viz\<lparr>positions := (\<lambda>_. \<lparr>vx = Some 10, vy = Some 0, vz = Some (-10)\<rparr>)\<rparr>)
             (node_id (hd (nodes demo_graph))) = \<lparr>vx = Some 10, vy = Some 0, vz = Some (-10)\<rparr>"
    by simp
  have r: "fg_ready (demo_viz\<lparr>positions := (\<lambda>_. \<lparr>vx = Some 10, vy = Some 0, vz = Some (-10)\<rparr>)\<rparr>)"
    by (simp add: demo_viz_def)
  show ?thesis using select_camera_offset [OF p r] by (simp add: demo_viz_def init_viz_def)

qed

text \<open>When the selected node has no position yet, the camera move is not
  skipped: it is issued with NaN coordinates.\<close>

theorem camera_not_deferred_without_layout:
  "fg_ready s \<Longrightarrow> positions s (node_id n) = undefined_pos \<Longrightarrow>
   camera_calls (camera_select_effect (Some n) s) =
     camera_calls s @ [\<lparr>cam_pos = undefined_pos, cam_look = undefined_pos, cam_ms = 1500\<rparr>]"
  by (simp add: camera_select_effect_def push_camera_def select_pose_def offset_pose_def
                js_mul_def js_add_def undefined_pos_def)

theorem camera_not_deferred_without_layout_witness:
  "camera_calls (camera_select_effect (Some (hd (nodes demo_graph))) demo_viz) =
     [\<lparr>cam_pos = undefined_pos, cam_look = undefined_pos, cam_ms = 1500\<rparr>]"

proof -
  have r: "fg_ready demo_viz" and p: "positions demo_viz (node_id (hd (nodes demo_graph))) = undefined_pos"
    by (simp_all add: demo_viz_def init_viz_def)
  show ?thesis using camera_not_deferred_without_layout [OF r p] by (simp add: demo_viz_def init_viz_def)

qed

text \<open>C27: A node is drawn with radius 3, 6 or 7: 7 exactly when it is the alerted
  node, 6 exactly when it is selected and not alerted; its colour is the node's own colour
  and the highlight is emitted only in that colour.\<close>

theorem node_sphere_style:
  "radius (node_sphere sel active alerted n) \<in> {3, 6, 7}
   \<and> (radius (node_sphere sel active alerted n) = 7 \<longleftrightarrow> js_strict_eq alerted (node_id n))
   \<and> (radius (node_sphere sel active alerted n) = 6 \<longleftrightarrow>
        \<not> js_strict_eq alerted (node_id n) \<and> node_selected sel active n)
   \<and> (emissive (node_sphere sel active alerted n) = color n \<or> emissive_intensity (node_sphere sel active alerted n) = 0)
   \<and> sphere_color (node_sphere sel active alerted n) = color n"
  by (simp add: node_sphere_def Let_def)

text \<open>C28: With no selection and no active node, a node is drawn as selected exactly
  when its identifier is undefined or null.\<close>

theorem idless_nodes_highlighted:
  "node_selected None JNull n \<longleftrightarrow> node_id n = JUndef \<or> node_id n = JNull"

proof (cases "node_id n")
  case (JNum x)
  then show ?thesis by (cases x) (simp_all add: node_selected_def)

qed (simp_all add: node_selected_def)

text \<open>C29: In the visual-analytics view the link width of a non-negative amount lies
  between 0 and 3, grows with the amount, and is 3 from \<open>e^3 - 1\<close> on.\<close>

theorem va_link_width_bounds:
  assumes "0 \<le> a" and "a \<le> b"
  shows "\<exists>w v. va_link_width a = Some w \<and> va_link_width b = Some v \<and> 0 \<le> w \<and> w \<le> v \<and> v \<le> 3
       \<and> (exp 3 - 1 \<le> a \<longrightarrow> w = 3)"

proof -
  have w: "va_link_width a = Some (min 3 (ln (a + 1)))" and v: "va_link_width b = Some (min 3 (ln (b + 1)))"
    using assms by (simp_all add: va_link_width_def)
  have "0 \<le> ln (a + 1)" using assms by simp
  moreover have "ln (a + 1) \<le> ln (b + 1)" using assms by simp
  moreover have "3 \<le> ln (a + 1)" if big: "exp 3 - 1 \<le> a"
  proof -
    from big have "exp 3 \<le> a + 1" by simp
    then have "ln (exp 3) \<le> ln (a + 1)"
      by (subst ln_le_cancel_iff) (use assms in auto)
    then show ?thesis by simp
  qed
  ultimately show ?thesis using w v by auto

qed

theorem va_link_width_bounds_witness:
  "\<exists>w v. va_link_width 0 = Some w \<and> va_link_width 5 = Some v \<and> 0 \<le> w \<and> w \<le> v \<and> v \<le> 3"
  using va_link_width_bounds [of 0 5] by auto

text \<open>The visual-analytics fraud filter compares the anomaly flag with the
  number 1, so a node flagged with the boolean \<open>true\<close> is left out of the fraud view.\<close>

theorem va_boolean_flag_not_fraud:
  "va_visible_graph [JObj [(''id'', JStr ''A1''), (''is_anomalous'', JBool True)]] [] True = VA_View [] []"
  by (simp add: va_visible_graph_def va_is_fraud_def js_nullish_def js_opt_get_def)

end
