(* ===== verification/VaFitTimer.thy ===== *)
theory VaFitTimer
  imports GraphView "HOL-Library.Multiset"
begin

text \<open>
  The life cycle of the older visual-analytics view
  (\<open>src/visual-analytics/visualization/src/components/FraudGraph3D.jsx\<close>, component
  \<open>FraudGraph3D\<close>): the mount effect fetches \<open>/nodes_viz.json\<close> once, the checkbox toggles
  \<open>showOnlyFraud\<close>, and the effect on \<open>visibleGraph\<close> schedules \<open>zoomToFit\<close> 700 ms later
  with \<open>setTimeout\<close>, never cancelled. Time is a clock in milliseconds advanced one tick at
  a time; pending timeouts are their due times; every \<open>zoomToFit\<close> that runs is logged
  with its time, and every uncaught error with its kind. The parsed JSON is taken as its
  two arrays \<open>nodes\<close> and \<open>links\<close>.
\<close>

datatype fetch_state = Fetch_Pending | Fetch_Settled

datatype va_error = Render_Error | Timer_Type_Error

record va_state =
  va_raw :: "(jsval list \<times> jsval list) option"
  va_only_fraud :: bool
  va_mounted :: bool
  va_fetch :: fetch_state
  va_clock :: nat
  va_timers :: "nat list"
  va_fits :: "nat list"
  va_errors :: "va_error list"

datatype va_ui_event = Va_Fetch_Ok "jsval list \<times> jsval list" | Va_Fetch_Failed | Va_Toggle
  | Va_Tick | Va_Unmount

text \<open>Mounted, with the fetch of the mount effect in flight.\<close>

definition va_init :: va_state where
  "va_init = \<lparr>va_raw = None, va_only_fraud = False, va_mounted = True, va_fetch = Fetch_Pending,
              va_clock = 0, va_timers = [], va_fits = [], va_errors = []\<rparr>"

text \<open>The \<open>visibleGraph\<close> memo: \<open>None\<close> while \<open>rawGraph\<close> is null.\<close>

definition va_visible_view :: "va_state \<Rightarrow> va_view option" where
  "va_visible_view s = map_option (\<lambda>(ns, ls). va_visible_graph ns ls (va_only_fraud s)) (va_raw s)"

text \<open>The render and commit after \<open>rawGraph\<close> or \<open>showOnlyFraud\<close> changed (each change
  gives the memo a new value): a throwing memo unmounts the tree; otherwise the graph is
  rendered, \<open>fgRef.current\<close> is set, and the fit effect schedules its timeout.\<close>

definition va_commit :: "va_state \<Rightarrow> va_state" where
  "va_commit s =
     (case va_visible_view s of
        None \<Rightarrow> s
      | Some VA_Error \<Rightarrow> s\<lparr>va_errors := va_errors s @ [Render_Error], va_mounted := False\<rparr>
      | Some (VA_View _ _) \<Rightarrow> s\<lparr>va_timers := va_timers s @ [va_clock s + 700]\<rparr>)"

text \<open>One millisecond: the timeouts now due run \<open>fgRef.current.zoomToFit(900, 80)\<close>,
  which throws a \<open>TypeError\<close> once the component is unmounted (the ref is null).\<close>

definition va_tick :: "va_state \<Rightarrow> va_state" where
  "va_tick s =
     (let c = va_clock s + 1; due = filter (\<lambda>t. t \<le> c) (va_timers s) in
      s\<lparr>va_clock := c, va_timers := filter (\<lambda>t. \<not> t \<le> c) (va_timers s),
        va_fits := va_fits s @ (if va_mounted s then map (\<lambda>_. c) due else []),
        va_errors := va_errors s @ (if va_mounted s then [] else map (\<lambda>_. Timer_Type_Error) due)\<rparr>)"

definition va_step :: "va_state \<Rightarrow> va_ui_event \<Rightarrow> va_state" where
  "va_step s ev =
     (case ev of
        Va_Fetch_Ok d \<Rightarrow>
          if va_fetch s \<noteq> Fetch_Pending then s
          else if \<not> va_mounted s then s\<lparr>va_fetch := Fetch_Settled\<rparr>
          else va_commit (s\<lparr>va_fetch := Fetch_Settled, va_raw := Some d\<rparr>)
      | Va_Fetch_Failed \<Rightarrow>
          if va_fetch s \<noteq> Fetch_Pending then s else s\<lparr>va_fetch := Fetch_Settled\<rparr>
      | Va_Toggle \<Rightarrow>
          if \<not> va_mounted s \<or> va_visible_view s = None then s
          else va_commit (s\<lparr>va_only_fraud := \<not> va_only_fraud s\<rparr>)
      | Va_Tick \<Rightarrow> va_tick s
      | Va_Unmount \<Rightarrow> s\<lparr>va_mounted := False\<rparr>)"

definition va_run :: "va_state \<Rightarrow> va_ui_event list \<Rightarrow> va_state" where
  "va_run s evs = fold (\<lambda>ev s. va_step s ev) evs s"

definition va_ticks :: "nat \<Rightarrow> va_state \<Rightarrow> va_state" where
  "va_ticks n = va_tick ^^ n"

definition va_toggles :: "nat \<Rightarrow> va_state \<Rightarrow> va_state" where
  "va_toggles k = (\<lambda>s. va_step s Va_Toggle) ^^ k"

inductive va_reachable :: "va_state \<Rightarrow> bool" where
  init: "va_reachable va_init"
| step: "va_reachable s \<Longrightarrow> va_reachable (va_step s ev)"

definition va_timers_future :: "va_state \<Rightarrow> bool" where
  "va_timers_future s \<longleftrightarrow> (\<forall>t\<in>set (va_timers s). va_clock s < t \<and> t \<le> va_clock s + 700)"

text \<open>A one-node snapshot, flagged anomalous.\<close>

definition va_demo :: "jsval list \<times> jsval list" where
  "va_demo = ([JObj [(''id'', JStr ''A1''), (''is_anomalous'', JNum (Some 1))]], [])"

subsection \<open>Lemmas\<close>

lemma va_tick_frame [simp]:
  "va_mounted (va_tick s) = va_mounted s" "va_raw (va_tick s) = va_raw s"
  "va_only_fraud (va_tick s) = va_only_fraud s" "va_fetch (va_tick s) = va_fetch s"
  "va_clock (va_tick s) = Suc (va_clock s)"
  by (simp_all add: va_tick_def Let_def)

lemma va_ticks_Suc: "va_ticks (Suc n) s = va_tick (va_ticks n s)"
  by (simp add: va_ticks_def)

lemma map_const_filter_eq:
  "map (\<lambda>_. c) (filter (\<lambda>t. t \<le> c) (filter (\<lambda>t. k < t) ts)) = filter (\<lambda>t. t \<le> c) (filter (\<lambda>t. k < t) ts)"
  if "c = Suc k"
  using that by (intro map_idI) auto

lemma va_ticks_run:
  assumes "\<forall>t\<in>set (va_timers s). va_clock s < t"
  shows "va_mounted (va_ticks n s) = va_mounted s \<and> va_clock (va_ticks n s) = va_clock s + n
    \<and> va_timers (va_ticks n s) = filter (\<lambda>t. va_clock s + n < t) (va_timers s)
    \<and> mset (va_fits (va_ticks n s)) = mset (va_fits s)
        + (if va_mounted s then mset (filter (\<lambda>t. t \<le> va_clock s + n) (va_timers s)) else {#})
    \<and> mset (va_errors (va_ticks n s)) = mset (va_errors s)
        + (if va_mounted s then {#}
           else image_mset (\<lambda>_. Timer_Type_Error) (mset (filter (\<lambda>t. t \<le> va_clock s + n) (va_timers s))))"
proof (induction n)
  case 0
  have "filter (\<lambda>t. va_clock s < t) (va_timers s) = va_timers s" using assms by simp
  moreover have "filter (\<lambda>t. t \<le> va_clock s) (va_timers s) = []" using assms by (auto simp: filter_empty_conv)
  ultimately show ?case by (simp add: va_ticks_def)
next
  case (Suc n)
  let ?k = "va_clock s + n" and ?ts = "va_timers s"
  have split: "mset (filter (\<lambda>t. t \<le> Suc ?k) ?ts) =
      mset (filter (\<lambda>t. t \<le> ?k) ?ts) + mset (filter (\<lambda>t. t \<le> Suc ?k) (filter (\<lambda>t. ?k < t) ?ts))"
    by (auto simp: multiset_eq_iff)
  have rest: "filter (\<lambda>t. \<not> t \<le> Suc ?k) (filter (\<lambda>t. ?k < t) ?ts) = filter (\<lambda>t. Suc ?k < t) ?ts"
    by (auto intro: filter_cong)
  show ?case
    using Suc.IH map_const_filter_eq [of "Suc ?k" ?k ?ts] split rest
    by (simp add: va_ticks_Suc va_tick_def Let_def image_mset_union)
qed

lemma va_commit_future: "va_timers_future s \<Longrightarrow> va_timers_future (va_commit s)"
  by (auto simp: va_commit_def va_timers_future_def split: option.splits va_view.splits)

lemma va_tick_future: "va_timers_future s \<Longrightarrow> va_timers_future (va_tick s)"
  by (auto simp: va_tick_def va_timers_future_def Let_def)

lemma va_timers_future_upd [simp]:
  "va_timers_future (s\<lparr>va_fetch := f, va_raw := r\<rparr>) = va_timers_future s"
  "va_timers_future (s\<lparr>va_fetch := f\<rparr>) = va_timers_future s"
  "va_timers_future (s\<lparr>va_only_fraud := b\<rparr>) = va_timers_future s"
  "va_timers_future (s\<lparr>va_mounted := m\<rparr>) = va_timers_future s"
  by (simp_all add: va_timers_future_def)

lemma va_step_future: "va_timers_future s \<Longrightarrow> va_timers_future (va_step s ev)"
  by (cases ev) (simp_all add: va_step_def va_commit_future va_tick_future)

lemma va_reachable_future: "va_reachable s \<Longrightarrow> va_timers_future s"
proof (induction rule: va_reachable.induct)
  case init
  then show ?case by (simp add: va_init_def va_timers_future_def)
next
  case (step s ev)
  then show ?case by (simp add: va_step_future)
qed

lemma va_toggles_run:
  assumes "va_mounted s" and "va_raw s = Some (ns, ls)" and "va_visible_graph ns ls True \<noteq> VA_Error"
  shows "va_mounted (va_toggles k s) \<and> va_clock (va_toggles k s) = va_clock s
    \<and> va_raw (va_toggles k s) = va_raw s \<and> va_fits (va_toggles k s) = va_fits s
    \<and> va_timers (va_toggles k s) = va_timers s @ replicate k (va_clock s + 700)"
proof (induction k)
  case 0
  then show ?case using assms(1) by (simp add: va_toggles_def)
next
  case (Suc k)
  let ?t = "va_toggles k s"
  have ok: "va_visible_graph ns ls b \<noteq> VA_Error" for b
    using assms(3) by (cases b) (simp_all add: va_visible_graph_def)
  then obtain vn vl where v: "va_visible_graph ns ls (\<not> va_only_fraud ?t) = VA_View vn vl"
    by (cases "va_visible_graph ns ls (\<not> va_only_fraud ?t)") auto
  have "va_toggles (Suc k) s = va_step ?t Va_Toggle" by (simp add: va_toggles_def)
  then show ?case
    using Suc.IH assms(2) v
    by (simp add: va_step_def va_commit_def va_visible_view_def replicate_append_same)
qed

lemma va_ticks_mounted [simp]: "va_mounted (va_ticks n s) = va_mounted s"
  by (induction n) (simp_all add: va_ticks_Suc, simp add: va_ticks_def)

lemma va_ticks_unmounted_fits: "\<not> va_mounted s \<Longrightarrow> va_fits (va_ticks n s) = va_fits s"
  by (induction n) (simp_all add: va_ticks_Suc va_tick_def Let_def, simp add: va_ticks_def)

lemma va_reachable_settle:
  assumes "va_reachable s"
  shows "\<forall>t\<in>set (va_timers s). va_clock s < t"
    and "filter (\<lambda>t. t \<le> va_clock s + 700) (va_timers s) = va_timers s"
    and "filter (\<lambda>t. va_clock s + 700 < t) (va_timers s) = []"
  using va_reachable_future [OF assms] by (auto simp: va_timers_future_def filter_empty_conv not_less)

lemma va_step_settled_none:
  "va_fetch s = Fetch_Settled \<Longrightarrow> va_raw s = None \<Longrightarrow>
   va_fetch (va_step s ev) = Fetch_Settled \<and> va_raw (va_step s ev) = None"
  by (cases ev) (simp_all add: va_step_def va_visible_view_def va_tick_def Let_def)

lemma va_loaded_eq:
  "va_step va_init (Va_Fetch_Ok va_demo) = va_init\<lparr>va_fetch := Fetch_Settled, va_raw := Some va_demo, va_timers := [700]\<rparr>"
  by (simp add: va_step_def va_init_def va_commit_def va_visible_view_def va_demo_def va_visible_graph_def)

lemma va_loaded_reachable: "va_reachable (va_init\<lparr>va_fetch := Fetch_Settled, va_raw := Some va_demo, va_timers := [700]\<rparr>)"
  using va_reachable.step [OF va_reachable.init, of "Va_Fetch_Ok va_demo"] by (simp add: va_loaded_eq)

text \<open>C37: Every pending fit of a mounted view runs within the settle delay: 700 ms
  later no timeout is pending and each one has called \<open>zoomToFit\<close>.\<close>

theorem va_fit_within_delay:
  assumes "va_reachable s" and "va_mounted s"
  shows "va_timers (va_ticks 700 s) = [] \<and> mset (va_fits (va_ticks 700 s)) = mset (va_fits s) + mset (va_timers s)"
  using va_ticks_run [OF va_reachable_settle(1) [OF assms(1)], of 700] va_reachable_settle(2,3) [OF assms(1)] assms(2)
  by simp

theorem va_fit_within_delay_witness:
  "mset (va_fits (va_ticks 700 (va_init\<lparr>va_fetch := Fetch_Settled, va_raw := Some va_demo, va_timers := [700]\<rparr>))) = {#700#}"
  using va_fit_within_delay [OF va_loaded_reachable] by (simp add: va_init_def)

text \<open>C38: Fits are not debounced: \<open>k\<close> toggles of the fraud filter in the same
  millisecond leave \<open>k\<close> timeouts, none cancelled, and 700 ms later \<open>zoomToFit\<close> has run
  \<open>k\<close> times, once for each view, the superseded ones included.\<close>

theorem va_stale_fits_not_cancelled:
  assumes "va_mounted s" and "va_raw s = Some (ns, ls)" and "va_visible_graph ns ls True \<noteq> VA_Error"
    and "va_timers s = []"
  shows "va_timers (va_ticks 700 (va_toggles k s)) = []
    \<and> mset (va_fits (va_ticks 700 (va_toggles k s))) = mset (va_fits s) + replicate_mset k (va_clock s + 700)"
proof -
  let ?t = "va_toggles k s"
  have t: "va_mounted ?t \<and> va_clock ?t = va_clock s \<and> va_fits ?t = va_fits s
      \<and> va_timers ?t = replicate k (va_clock s + 700)"
    using va_toggles_run [OF assms(1-3), of k] assms(4) by simp
  then have "\<forall>t\<in>set (va_timers ?t). va_clock ?t < t" by simp
  from va_ticks_run [OF this, of 700] show ?thesis using t by simp
qed

theorem va_stale_fits_not_cancelled_witness:
  "mset (va_fits (va_ticks 700 (va_toggles 2 (va_init\<lparr>va_raw := Some va_demo\<rparr>)))) = {#700, 700#}"
proof -
  have "va_visible_graph (fst va_demo) (snd va_demo) True \<noteq> VA_Error"
    by (simp add: va_demo_def va_visible_graph_def va_is_fraud_def js_nullish_def js_opt_get_def)
  then show ?thesis
    using va_stale_fits_not_cancelled [of "va_init\<lparr>va_raw := Some va_demo\<rparr>" "fst va_demo" "snd va_demo" 2]
    by (simp add: va_init_def numeral_2_eq_2)
qed

text \<open>C39: A fit still pending when the view unmounts is not cancelled: within 700 ms
  each one throws a \<open>TypeError\<close> (\<open>fgRef.current\<close> is null) and none fits.\<close>

theorem va_unmount_timer_type_error:
  assumes "va_reachable s" and "\<not> va_mounted s"
  shows "va_fits (va_ticks 700 s) = va_fits s
    \<and> mset (va_errors (va_ticks 700 s)) = mset (va_errors s) + replicate_mset (length (va_timers s)) Timer_Type_Error"
  using va_ticks_run [OF va_reachable_settle(1) [OF assms(1)], of 700] va_reachable_settle(2) [OF assms(1)]
    va_ticks_unmounted_fits [OF assms(2)] assms(2)
  by (simp add: image_mset_const_eq)

theorem va_unmount_timer_type_error_witness:
  "mset (va_errors (va_ticks 700 (va_step (va_init\<lparr>va_fetch := Fetch_Settled, va_raw := Some va_demo, va_timers := [700]\<rparr>) Va_Unmount)))
     = {#Timer_Type_Error#}"
proof -
  have r: "va_reachable (va_step (va_init\<lparr>va_fetch := Fetch_Settled, va_raw := Some va_demo, va_timers := [700]\<rparr>) Va_Unmount)"
    by (rule va_reachable.step [OF va_loaded_reachable])
  have m: "\<not> va_mounted (va_step (va_init\<lparr>va_fetch := Fetch_Settled, va_raw := Some va_demo, va_timers := [700]\<rparr>) Va_Unmount)"
    by (simp add: va_step_def)
  show ?thesis using va_unmount_timer_type_error [OF r m] by (simp add: va_step_def va_init_def)
qed

text \<open>C40: The fetch of \<open>/nodes_viz.json\<close> has no \<open>catch\<close>: once it has failed, no
  sequence of later events ever shows a graph, and the loading message stays.\<close>

theorem va_failed_load_never_renders:
  "va_fetch s = Fetch_Settled \<Longrightarrow> va_raw s = None \<Longrightarrow> va_visible_view (va_run s evs) = None"
proof (induction evs arbitrary: s)
  case Nil
  then show ?case by (simp add: va_run_def va_visible_view_def)
next
  case (Cons ev evs)
  then show ?case using va_step_settled_none [OF Cons.prems] by (simp add: va_run_def)
qed

theorem va_failed_load_never_renders_witness:
  "va_visible_view (va_run (va_step va_init Va_Fetch_Failed) [Va_Fetch_Ok va_demo, Va_Toggle, Va_Tick]) = None"
  using va_failed_load_never_renders [of "va_step va_init Va_Fetch_Failed"]
  by (simp add: va_step_def va_init_def)

end
