(* ===== verification/NumberString.thy ===== *)
theory NumberString
  imports JsValue
begin

text \<open>
  Decimal printing and parsing of integers in the runtime model of \<open>JsValue\<close>:
  \<open>nat_to_dec\<close> produces a non-empty digit string whose value is the number, digits
  are never white space; the decimal string of an integer \<open>i\<close> denotes \<open>i\<close>, and \<open>Number()\<close>
  of it is \<open>i\<close> rounded to the nearest double: \<open>i\<close> itself up to \<open>2 ^ 53\<close>, within a relative
  error of \<open>2 ^ -53\<close> beyond (\<open>2 ^ 53 + 1\<close> becomes \<open>2 ^ 53\<close>). \<open>x.toFixed(2)\<close>
  (\<open>js_to_fixed2\<close>: the nearest multiple of 1/100, the larger on a tie, with the sign of
  \<open>x\<close>; from \<open>1e21\<close> on, \<open>String(x)\<close>) is a decimal within 1/200 of \<open>x\<close>.
\<close>

definition js_to_fixed2 :: "jsnum \<Rightarrow> string" where
  "js_to_fixed2 n =
     (case n of
        None \<Rightarrow> ''NaN''
      | Some x \<Rightarrow>
          if 10 ^ 21 \<le> \<bar>x\<bar> then js_number_to_string (Some x)
          else let m = nat \<lfloor>\<bar>x\<bar> * 100 + 1 / 2\<rfloor>
               in (if x < 0 then ''-'' else []) @ nat_to_dec (m div 100) @ ''.''
                  @ [digit_char (m mod 100 div 10), digit_char (m mod 10)])"

lemma digit_val_digit_char [simp]: "d < 10 \<Longrightarrow> digit_val (digit_char d) = d"
  by (auto simp: digit_val_def digit_char_def less_Suc_eq numeral_eq_Suc)

lemma is_digit_digit_char [simp]: "d < 10 \<Longrightarrow> is_digit (digit_char d)"
  by (auto simp: is_digit_def digit_char_def less_Suc_eq numeral_eq_Suc)

lemma not_space_digit_char [simp]: "d < 10 \<Longrightarrow> \<not> js_is_space (digit_char d)"
  by (auto simp: js_is_space_def digit_char_def less_Suc_eq numeral_eq_Suc)

lemma digits_val_snoc [simp]: "digits_val (xs @ [c]) = 10 * digits_val xs + digit_val c"
  by (simp add: digits_val_def)

lemma nat_to_dec_digits: "list_all is_digit (nat_to_dec n) \<and> nat_to_dec n \<noteq> []"
proof (induction n rule: nat_to_dec.induct)
  case (1 n)
  then show ?case by (simp add: nat_to_dec.simps [of n])
qed

lemma digits_val_nat_to_dec [simp]: "digits_val (nat_to_dec n) = n"
proof (induction n rule: nat_to_dec.induct)
  case (1 n)
  then show ?case by (simp add: nat_to_dec.simps [of n] digits_val_def)
qed

lemma digits_not_space: "list_all is_digit xs \<Longrightarrow> \<forall>c\<in>set xs. \<not> js_is_space c"
  by (auto simp: list_all_iff is_digit_def js_is_space_def)

lemma js_trim_no_space: "\<forall>c\<in>set xs. \<not> js_is_space c \<Longrightarrow> js_trim xs = xs"
proof -
  assume a: "\<forall>c\<in>set xs. \<not> js_is_space c"
  then have "dropWhile js_is_space xs = xs" by (cases xs) auto
  moreover have "dropWhile js_is_space (rev xs) = rev xs" using a by (cases "rev xs") (auto dest: arg_cong [of _ _ set])
  ultimately show ?thesis by (simp add: js_trim_def)
qed

lemma js_trim_digits: "list_all is_digit xs \<Longrightarrow> js_trim xs = xs"
  by (rule js_trim_no_space [OF digits_not_space])

lemma parse_unsigned_decimal_digits:
  "list_all is_digit ds \<Longrightarrow> ds \<noteq> [] \<Longrightarrow> parse_unsigned_decimal ds = Some (real (digits_val ds))"
proof -
  assume "list_all is_digit ds" "ds \<noteq> []"
  then have t: "takeWhile is_digit ds = ds" and d: "dropWhile is_digit ds = []"
    by (simp_all add: list_all_iff)
  show ?thesis using \<open>ds \<noteq> []\<close>
    by (simp add: parse_unsigned_decimal_def parse_exponent_def scale10_def Let_def t d digits_val_def)
qed

lemma parse_numeric_literal_digits:
  assumes "list_all is_digit ds" and "ds \<noteq> []"
  shows "parse_numeric_literal ds = Some (real (digits_val ds))"
proof (cases ds rule: remdups_adj.cases)
  case (3 c0 c1 r)
  have "is_digit c0" "is_digit c1" using assms(1) by (simp_all add: 3)
  then have "c0 \<noteq> CHR ''-''" "c0 \<noteq> CHR ''+''"
    "c1 \<notin> {CHR ''x'', CHR ''X'', CHR ''o'', CHR ''O'', CHR ''b'', CHR ''B''}"
    by (auto simp: is_digit_def)
  then show ?thesis using parse_unsigned_decimal_digits [OF assms] by (simp add: 3 parse_numeric_literal_def)
qed (use assms parse_unsigned_decimal_digits [OF assms] in \<open>simp_all add: parse_numeric_literal_def\<close>)

lemma int_to_dec_value:
  "js_trim (int_to_dec i) = int_to_dec i \<and> int_to_dec i \<noteq> []
   \<and> parse_numeric_literal (int_to_dec i) = Some (of_int i)"
proof (cases "i < 0")
  case True
  let ?ds = "nat_to_dec (nat (- i))"
  have d: "list_all is_digit ?ds" "?ds \<noteq> []" using nat_to_dec_digits by blast+
  then obtain c1 r where c: "?ds = c1 # r" by (cases ?ds) auto
  have t: "js_trim (CHR ''-'' # ?ds) = CHR ''-'' # ?ds"
    using digits_not_space [OF d(1)] by (intro js_trim_no_space) (simp add: js_is_space_def)
  have v: "digits_val (c1 # r) = nat (- i)" using c digits_val_nat_to_dec by metis
  have "parse_numeric_literal (CHR ''-'' # ?ds) = Some (- real (nat (- i)))"
    using parse_unsigned_decimal_digits [OF d] by (simp add: c v parse_numeric_literal_def)
  then show ?thesis using True t by (simp add: int_to_dec_def)
next
  case False
  have d: "list_all is_digit (nat_to_dec (nat i))" "nat_to_dec (nat i) \<noteq> []" using nat_to_dec_digits by blast+
  show ?thesis using False js_trim_digits [OF d(1)] parse_numeric_literal_digits [OF d] d(2)
    by (simp add: int_to_dec_def)
qed

lemma js_string_to_number_int_to_dec:
  "js_string_to_number (int_to_dec i) = Some (round_double (of_int i))"
  using int_to_dec_value [of i] by (simp add: js_string_to_number_def)

lemma round_half_even_int [simp]: "round_half_even (of_int n) = n"
  by (simp add: round_half_even_def)

lemma round_half_even_numeral [simp]: "round_half_even (numeral n) = numeral n"
  using round_half_even_int [of "numeral n"] by simp

lemma round_half_even_bound: "\<bar>of_int (round_half_even r) - r\<bar> \<le> 1 / 2"
proof -
  define f where "f = \<lfloor>r\<rfloor>"
  have lo: "of_int f \<le> r" and hi: "r < of_int f + 1" unfolding f_def by linarith+
  consider "r - of_int f < 1 / 2" | "1 / 2 < r - of_int f" | "r - of_int f = 1 / 2" by linarith
  then show ?thesis
  proof cases
    case 1
    then have "round_half_even r = f" by (simp add: round_half_even_def Let_def f_def)
    then show ?thesis using 1 lo by (simp add: abs_le_iff)
  next
    case 2
    then have "round_half_even r = f + 1" by (simp add: round_half_even_def Let_def f_def)
    then show ?thesis using 2 hi by (simp add: abs_le_iff)
  next
    case 3
    then have "round_half_even r = f \<or> round_half_even r = f + 1"
      by (simp add: round_half_even_def Let_def f_def)
    then show ?thesis using 3 by (auto simp: abs_le_iff)
  qed
qed

lemma round_double_int:
  assumes "\<bar>i\<bar> \<le> 2 ^ 53"
  shows "round_double (of_int i) = of_int i"
proof (cases "i = 0")
  case False
  define a :: real where "a = \<bar>of_int i\<bar>"
  have a1: "1 \<le> a" using False by (simp add: a_def)
  have a53: "a \<le> 2 ^ 53" using assms by (simp add: a_def flip: of_int_abs)
  define L where "L = \<lfloor>log 2 a\<rfloor>"
  have L0: "0 \<le> L" using a1 by (simp add: L_def)
  have "(2::real) powr 53 = 2 ^ 53" by (simp add: powr_realpow)
  then have "log 2 a \<le> 53" using a1 a53 by (simp add: log_le_iff)
  then have L53: "L \<le> 53" by (simp add: L_def floor_le_iff)
  have e: "double_exponent a = L" using L0 by (simp add: double_exponent_def L_def)
  have iv: "a = of_int \<bar>i\<bar>" by (simp add: a_def)
  define q :: real where "q = 2 powr real_of_int (L - 52)"
  have key: "of_int (round_half_even (a / q)) * q = a"
  proof (cases "L \<le> 52")
    case True
    have q: "q = inverse (2 ^ nat (52 - L))"
      unfolding q_def using True by (subst powr_real_of_int) simp_all
    have aq: "a / q = of_int (\<bar>i\<bar> * 2 ^ nat (52 - L))"
      by (simp add: q iv field_simps)
    have "round_half_even (a / q) = \<bar>i\<bar> * 2 ^ nat (52 - L)"
      by (simp only: aq round_half_even_int)
    then show ?thesis by (simp add: q iv)
  next
    case False
    then have L: "L = 53" using L53 by simp
    then have "53 \<le> log 2 a" using of_int_floor_le [of "log 2 a"] unfolding L_def by simp
    then have "2 powr 53 \<le> a" using a1 by (simp add: le_log_iff)
    then have a2: "a = 2 ^ 53" using a53 by (simp add: powr_realpow)
    have "q = 2" by (simp add: q_def L)
    then show ?thesis by (simp add: a2)
  qed
  have "sgn (of_int i :: real) * a = of_int i" by (simp add: a_def sgn_mult_abs)
  then show ?thesis using False key e by (simp add: round_double_def Let_def a_def q_def)
qed (simp add: round_double_def)

lemma round_double_2_53_plus_1: "round_double (2 ^ 53 + 1) = 2 ^ 53"
proof -
  define a :: real where "a = 2 ^ 53 + 1"
  have p: "(2::real) powr 53 = 2 ^ 53" "(2::real) powr 54 = 2 ^ 54" by (simp_all add: powr_realpow)
  have "53 \<le> log 2 a" using p(1) by (simp add: a_def le_log_iff)
  moreover have "log 2 a < 54" using p(2) by (simp add: a_def log_less_iff)
  ultimately have "\<lfloor>log 2 a\<rfloor> = 53" by (simp add: floor_eq_iff)
  then have e: "double_exponent a = 53" by (simp add: double_exponent_def)
  have r: "round_half_even (a / 2) = 2 ^ 52"
    by (simp add: round_half_even_def a_def floor_eq_iff)
  have pos: "0 < a" by (simp add: a_def)
  have "round_double a = of_int (round_half_even (a / 2)) * 2"
    using pos e by (simp add: round_double_def Let_def)
  then have "round_double a = 2 ^ 53" using r by simp
  then show ?thesis unfolding a_def .
qed

lemma round_double_rel_error:
  assumes "2 powr - 1022 \<le> \<bar>x\<bar>"
  shows "\<bar>round_double x - x\<bar> \<le> \<bar>x\<bar> / 2 ^ 53"
proof -
  define a where "a = \<bar>x\<bar>"
  have p0: "(0::real) < 2 powr - 1022" by simp
  have a0: "0 < a" using assms p0 unfolding a_def by linarith
  have "- 1022 \<le> log 2 a" using assms a0 unfolding a_def by (subst le_log_iff) auto
  then have e: "double_exponent a = \<lfloor>log 2 a\<rfloor>" unfolding double_exponent_def by linarith
  define E where "E = \<lfloor>log 2 a\<rfloor>"
  have "real_of_int E \<le> log 2 a" unfolding E_def by (rule of_int_floor_le)
  then have pe: "2 powr real_of_int E \<le> a" using a0 by (subst (asm) le_log_iff) auto
  define q where "q = 2 powr real_of_int (E - 52)"
  have q0: "0 < q" unfolding q_def by simp
  define m :: real where "m = of_int (round_half_even (a / q))"
  have "\<bar>m * q - a\<bar> = q * \<bar>m - a / q\<bar>"
  proof -
    have "m * q - a = q * (m - a / q)" using q0 by (simp add: field_simps)
    then show ?thesis using q0 by (simp add: abs_mult)
  qed
  also have "\<dots> \<le> q * (1 / 2)"
    using q0 round_half_even_bound [of "a / q"] unfolding m_def by (intro mult_left_mono) auto
  also have "q * (1 / 2) = 2 powr real_of_int E / 2 ^ 53"
  proof -
    have "q = 2 powr real_of_int E / 2 powr 52" unfolding q_def by (simp add: powr_diff)
    moreover have "(2::real) powr 52 = 2 ^ 52" by (simp add: powr_realpow)
    ultimately show ?thesis by simp
  qed
  also have "\<dots> \<le> a / 2 ^ 53" using pe by (simp add: divide_right_mono)
  finally have b: "\<bar>m * q - a\<bar> \<le> a / 2 ^ 53" .
  have x0: "x \<noteq> 0" using a0 unfolding a_def by simp
  have r: "round_double x = sgn x * (m * q)"
    using x0 e unfolding round_double_def Let_def m_def q_def E_def a_def by simp
  have "round_double x - x = sgn x * (m * q - a)"
    unfolding r a_def by (simp add: right_diff_distrib sgn_mult_abs)
  then show ?thesis using b x0 unfolding a_def by (simp add: abs_mult)
qed

lemma takeWhile_digits_append:
  "list_all is_digit ds \<Longrightarrow> \<not> is_digit c \<Longrightarrow> takeWhile is_digit (ds @ c # r) = ds"
  "list_all is_digit ds \<Longrightarrow> \<not> is_digit c \<Longrightarrow> dropWhile is_digit (ds @ c # r) = c # r"
  by (induction ds) simp_all

lemma digits_val_two [simp]:
  "digits_val [digit_char a, digit_char b] = 10 * digit_val (digit_char a) + digit_val (digit_char b)"
  by (simp add: digits_val_def)

lemma parse_fixed2:
  assumes "list_all is_digit ds" "ds \<noteq> []" "a < 10" "b < 10"
  shows "parse_unsigned_decimal (ds @ ''.'' @ [digit_char a, digit_char b])
           = Some (real (digits_val ds) + real (10 * a + b) / 100)"
proof -
  have nd: "\<not> is_digit (CHR ''.'')" by (simp add: is_digit_def)
  have t: "takeWhile is_digit [digit_char a, digit_char b] = [digit_char a, digit_char b]"
          "dropWhile is_digit [digit_char a, digit_char b] = []" using assms(3,4) by simp_all
  show ?thesis using assms(2) takeWhile_digits_append [OF assms(1) nd] t assms(3,4)
    by (simp add: parse_unsigned_decimal_def parse_exponent_def scale10_def Let_def)
qed

lemma parse_numeric_literal_digits_dot:
  assumes "list_all is_digit ds" "ds \<noteq> []"
  shows "parse_numeric_literal (ds @ CHR ''.'' # r) = parse_unsigned_decimal (ds @ CHR ''.'' # r)"
proof (cases ds)
  case (Cons c cs)
  have c: "is_digit c" "list_all is_digit cs" using assms(1) Cons by simp_all
  then have "c \<noteq> CHR ''-''" "c \<noteq> CHR ''+''" "c \<noteq> CHR ''0'' \<or> (case cs of [] \<Rightarrow> CHR ''.'' | d # _ \<Rightarrow> d)
      \<notin> {CHR ''x'', CHR ''X'', CHR ''o'', CHR ''O'', CHR ''b'', CHR ''B''}"
    by (auto simp: is_digit_def split: list.splits)
  then show ?thesis using Cons by (cases cs) (auto simp: parse_numeric_literal_def)
qed (use assms in simp)

lemma fixed2_digits:
  fixes m :: nat
  shows "real (digits_val (nat_to_dec (m div 100))) + real (10 * (m mod 100 div 10) + m mod 10) / 100 = real m / 100"
proof -
  have a: "m mod 100 div 10 * 10 + m mod 100 mod 10 = m mod 100" by (rule div_mult_mod_eq)
  have b: "m mod 100 mod 10 = m mod 10" by (simp add: mod_mod_cancel)
  have "m div 100 * 100 + m mod 100 = m" by (rule div_mult_mod_eq)
  then have "m = 100 * (m div 100) + (10 * (m mod 100 div 10) + m mod 10)" using a b by linarith
  then have "real m = 100 * real (m div 100) + real (10 * (m mod 100 div 10) + m mod 10)"
    by (metis of_nat_add of_nat_mult of_nat_numeral)
  then show ?thesis by (simp add: field_simps)
qed

lemma round_half_bound:
  fixes y :: real
  assumes "0 \<le> y"
  shows "\<bar>real (nat \<lfloor>y * 100 + 1 / 2\<rfloor>) / 100 - y\<bar> \<le> 1 / 200"
proof -
  have nn: "0 \<le> \<lfloor>y * 100 + 1 / 2\<rfloor>" using assms by simp
  define k :: real where "k = of_int \<lfloor>y * 100 + 1 / 2\<rfloor>"
  have e: "real (nat \<lfloor>y * 100 + 1 / 2\<rfloor>) = k" using nn by (simp add: k_def)
  have lo: "k \<le> y * 100 + 1 / 2" unfolding k_def by (rule of_int_floor_le)
  have hi: "y * 100 + 1 / 2 < k + 1" unfolding k_def by (rule real_of_int_floor_add_one_gt)
  have "\<bar>k / 100 - y\<bar> \<le> 1 / 200" using lo hi unfolding abs_le_iff by linarith
  then show ?thesis by (simp add: e)
qed

lemma to_fixed2_value:
  assumes "\<bar>x\<bar> < 10 ^ 21"
  shows "\<exists>y. parse_numeric_literal (js_to_fixed2 (Some x)) = Some y \<and> \<bar>y - x\<bar> \<le> 1 / 200"
proof -
  define m where "m = nat \<lfloor>\<bar>x\<bar> * 100 + 1 / 2\<rfloor>"
  let ?ds = "nat_to_dec (m div 100)"
  let ?t = "?ds @ ''.'' @ [digit_char (m mod 100 div 10), digit_char (m mod 10)]"
  have d: "list_all is_digit ?ds" "?ds \<noteq> []" using nat_to_dec_digits by blast+
  have p: "parse_unsigned_decimal ?t = Some (real m / 100)"
    using parse_fixed2 [OF d, of "m mod 100 div 10" "m mod 10"] fixed2_digits [of m] by simp
  have n: "parse_numeric_literal ?t = Some (real m / 100)"
    using parse_numeric_literal_digits_dot [OF d] p by simp
  have b: "\<bar>real m / 100 - \<bar>x\<bar>\<bar> \<le> 1 / 200" unfolding m_def by (rule round_half_bound) simp
  have f: "js_to_fixed2 (Some x) = (if x < 0 then ''-'' else []) @ ?t"
    using assms by (simp add: js_to_fixed2_def m_def Let_def)
  show ?thesis
  proof (cases "x < 0")
    case True
    obtain c r where cr: "?t = c # r" by (cases ?t) auto
    have "parse_numeric_literal (js_to_fixed2 (Some x)) = Some (- (real m / 100))"
      using True f p cr by (simp add: parse_numeric_literal_def)
    moreover have "\<bar>- (real m / 100) - x\<bar> \<le> 1 / 200"
      using b True unfolding abs_le_iff abs_of_neg [OF True] by linarith
    ultimately show ?thesis by blast
  next
    case False
    have "parse_numeric_literal (js_to_fixed2 (Some x)) = Some (real m / 100)"
      using False f n by simp
    moreover have "\<bar>real m / 100 - x\<bar> \<le> 1 / 200" using b False by simp
    ultimately show ?thesis by blast
  qed
qed

end
