(* ===== verification/VaRender.thy ===== *)
theory VaRender
  imports VaFitTimer NumberString
begin

text \<open>
  What the visual-analytics view renders
  (\<open>src/visual-analytics/visualization/src/components/FraudGraph3D.jsx\<close>, the JSX returned
  by \<open>FraudGraph3D\<close>): the loading message while \<open>visibleGraph\<close> is null, otherwise the
  checkbox and the \<open>ForceGraph3D\<close> canvas with its constant props and its node and link
  callbacks. \<open>nodeLabel\<close> is the template string of a node: its \<open>n.height.toFixed(2)\<close>
  throws unless the height is a number. The ellipsis of the loading message and the
  legend markup are left out.
\<close>

definition va_status_text :: "jsval \<Rightarrow> string" where
  "va_status_text n = (if js_truthy (js_opt_get n ''is_anomalous'') then ''Fraud'' else ''Normal'')"

text \<open>\<open>nodeLabel\<close>: \<open>`Account ${n.id}\nAnomaly Score: ${n.height.toFixed(2)}\nStatus: ...`\<close>,
  evaluated left to right; \<open>None\<close> is a thrown \<open>TypeError\<close>.\<close>

definition va_node_label :: "jsval \<Rightarrow> string option" where
  "va_node_label n =
     (case js_get n ''id'' of
        None \<Rightarrow> None
      | Some i \<Rightarrow>
          (case js_get n ''height'' of
             Some (JNum h) \<Rightarrow>
               Some (''Account '' @ js_to_string i @ [CHR 0x0A] @ ''Anomaly Score: '' @ js_to_fixed2 h
                     @ [CHR 0x0A] @ ''Status: '' @ va_status_text n)
           | _ \<Rightarrow> None))"

record va_canvas =
  vc_nodes :: "jsval list"
  vc_links :: "jsval list"
  vc_node_rel_size :: nat
  vc_node_opacity :: real
  vc_link_color :: string
  vc_link_opacity :: real
  vc_particles :: nat
  vc_particle_width :: real
  vc_particle_speed :: real
  vc_node_drag :: bool
  vc_warmup_ticks :: nat
  vc_cooldown_ticks :: nat

datatype va_screen = Va_Loading string | Va_Canvas bool va_canvas | Va_Crashed

text \<open>The screen: the loading message, or the checkbox state with the canvas. A memo
  that throws has unmounted the tree.\<close>

definition va_screen :: "va_state \<Rightarrow> va_screen" where
  "va_screen s =
     (case va_visible_view s of
        None \<Rightarrow> Va_Loading ''Loading Fraud Network''
      | Some VA_Error \<Rightarrow> Va_Crashed
      | Some (VA_View ns ls) \<Rightarrow>
          Va_Canvas (va_only_fraud s)
            \<lparr>vc_nodes = ns, vc_links = ls, vc_node_rel_size = 2, vc_node_opacity = 9 / 10,
             vc_link_color = ''rgba(180,180,180,0.35)'', vc_link_opacity = 6 / 10, vc_particles = 1,
             vc_particle_width = 14 / 10, vc_particle_speed = 4 / 1000, vc_node_drag = False,
             vc_warmup_ticks = 120, vc_cooldown_ticks = 0\<rparr>)"

subsection \<open>Lemmas\<close>

text \<open>C26: The tooltip of a node with a numeric height \<open>x\<close> (below \<open>1e21\<close> in magnitude)
  shows its id, the score \<open>x.toFixed(2)\<close>, a decimal literal whose value is within 0.005
  of \<open>x\<close>, and its status; for a height that is not a number (missing, null, a string)
  building the tooltip throws.\<close>

theorem va_label_score_bounds:
  assumes "js_get n ''height'' = Some v"
  shows "(v = JNum (Some x) \<and> \<bar>x\<bar> < 10 ^ 21 \<longrightarrow>
           (\<exists>y. va_node_label n = Some (''Account '' @ js_to_string (js_opt_get n ''id'') @ [CHR 0x0A]
                   @ ''Anomaly Score: '' @ js_to_fixed2 (Some x) @ [CHR 0x0A] @ ''Status: '' @ va_status_text n)
                \<and> parse_numeric_literal (js_to_fixed2 (Some x)) = Some y \<and> \<bar>y - x\<bar> \<le> 1 / 200))
       \<and> ((\<forall>h. v \<noteq> JNum h) \<longrightarrow> va_node_label n = None)"
proof -
  have i: "js_get n ''id'' = Some (js_opt_get n ''id'')"
    using assms by (cases n) (auto simp: js_opt_get_def)
  show ?thesis
    using assms i to_fixed2_value [of x]
    by (auto simp: va_node_label_def split: jsval.splits)
qed

lemma to_fixed2_demo: "js_to_fixed2 (Some (1234 / 1000)) = ''1.23''"
proof -
  have "\<lfloor>\<bar>1234 / 1000 :: real\<bar> * 100 + 1 / 2\<rfloor> = 123" by (simp add: floor_eq_iff)
  then show ?thesis by (simp add: js_to_fixed2_def nat_to_dec.simps digit_char_def)
qed

theorem va_label_score_bounds_witness:
  "va_node_label (JObj [(''id'', JStr ''A1''), (''height'', JNum (Some (1234 / 1000))), (''is_anomalous'', JBool True)])
     = Some (''Account A1'' @ [CHR 0x0A] @ ''Anomaly Score: 1.23'' @ [CHR 0x0A] @ ''Status: Fraud'')
   \<and> va_node_label (JObj [(''id'', JStr ''A1''), (''height'', JStr ''0.9'')]) = None"
proof -
  have "js_get (JObj [(''id'', JStr ''A1''), (''height'', JNum (Some (1234 / 1000))), (''is_anomalous'', JBool True)])
          ''height'' = Some (JNum (Some (1234 / 1000)))" by simp
  note a = va_label_score_bounds [OF this, of "1234 / 1000"]
  have "js_get (JObj [(''id'', JStr ''A1''), (''height'', JStr ''0.9'')]) ''height'' = Some (JStr ''0.9'')" by simp
  note b = va_label_score_bounds [OF this]
  show ?thesis using a b to_fixed2_demo by (auto simp: va_status_text_def js_opt_get_def)
qed

lemma va_fraud_memo_error_iff:
  "va_visible_graph ns ls True = VA_Error \<longleftrightarrow> (\<exists>n\<in>set ns. js_nullish n) \<or> (\<exists>l\<in>set ls. js_nullish l)"
proof
  assume "va_visible_graph ns ls True = VA_Error"
  then show "(\<exists>n\<in>set ns. js_nullish n) \<or> (\<exists>l\<in>set ls. js_nullish l)"
    by (auto simp: va_visible_graph_def Let_def filter_opt_None_iff va_is_fraud_def split: option.splits if_splits)
next
  assume "(\<exists>n\<in>set ns. js_nullish n) \<or> (\<exists>l\<in>set ls. js_nullish l)"
  then show "va_visible_graph ns ls True = VA_Error"
    by (auto simp: va_visible_graph_def Let_def va_is_fraud_def split: option.splits
             dest: filter_opt_Some_defined)
qed

text \<open>C36: With the snapshot loaded and the filter off, ticking the fraud checkbox
  crashes the whole view exactly when the snapshot has a null or undefined node or link
  entry (its \<open>n.is_anomalous\<close> or \<open>l.source\<close> read throws in the memo): the error is
  uncaught, the tree unmounts, and no fit is scheduled.\<close>

theorem va_toggle_crash_iff:
  assumes "va_mounted s" and "va_raw s = Some (ns, ls)" and "\<not> va_only_fraud s"
  shows "(va_screen (va_step s Va_Toggle) = Va_Crashed \<longleftrightarrow>
            (\<exists>n\<in>set ns. js_nullish n) \<or> (\<exists>l\<in>set ls. js_nullish l))
       \<and> (va_screen (va_step s Va_Toggle) = Va_Crashed \<longrightarrow>
            va_errors (va_step s Va_Toggle) = va_errors s @ [Render_Error]
            \<and> \<not> va_mounted (va_step s Va_Toggle) \<and> va_timers (va_step s Va_Toggle) = va_timers s)"
proof -
  have v: "va_visible_view s = Some (VA_View ns ls)"
    using assms(2,3) by (simp add: va_visible_view_def va_visible_graph_def)
  show ?thesis
  proof (cases "va_visible_graph ns ls True")
    case VA_Error
    then show ?thesis using assms v va_fraud_memo_error_iff [of ns ls]
      by (simp add: va_step_def va_commit_def va_screen_def va_visible_view_def)
  next
    case (VA_View vn vl)
    then show ?thesis using assms v va_fraud_memo_error_iff [of ns ls]
      by (simp add: va_step_def va_commit_def va_screen_def va_visible_view_def)
  qed
qed

theorem va_toggle_crash_iff_witness:
  "va_screen (va_step (va_init\<lparr>va_raw := Some ([JObj [(''id'', JStr ''A1'')], JNull], [])\<rparr>) Va_Toggle) = Va_Crashed
   \<and> va_screen (va_step (va_init\<lparr>va_raw := Some ([JObj [(''id'', JStr ''A1'')]], [])\<rparr>) Va_Toggle) \<noteq> Va_Crashed"
proof -
  have m: "va_mounted (va_init\<lparr>va_raw := r\<rparr>)" "\<not> va_only_fraud (va_init\<lparr>va_raw := r\<rparr>)" for r
    by (simp_all add: va_init_def)
  show ?thesis
    using va_toggle_crash_iff [OF m(1) _ m(2), of "Some ([JObj [(''id'', JStr ''A1'')], JNull], [])"]
          va_toggle_crash_iff [OF m(1) _ m(2), of "Some ([JObj [(''id'', JStr ''A1'')]], [])"]
    by (simp add: js_nullish_def)
qed

end
