(* ===== verification/VizLifecycle.thy ===== *)
theory VizLifecycle
  imports GraphView
begin

text \<open>
  The life cycle of the graph component \<open>FraudGraph3D\<close>
  (\<open>src/visualization/src/components/FraudGraph3D.jsx\<close>): the MOUNT GUARD effect, the
  RESIZE HANDLER effect with its cleanup, the LOAD GRAPH DATA effect with its
  \<open>AbortController\<close>, the HARD GUARD of the render, and the controls the rendered
  \<open>ForceGraph3D\<close> offers (a node click; the \<open>selectedNode\<close> prop set by the parent). The
  first commit runs the mount effect (the other two effects return at once while
  \<open>mounted\<close> is false); the commit of the render it causes registers the resize listener
  and starts the fetch. A window resize may arrive between the two. Teardown runs the
  cleanups: the listener is removed and the fetch aborted.
\<close>

datatype load_state = Load_Idle | Load_In_Flight | Load_Aborted | Load_Done

record viz_life =
  vl_alive :: bool
  vl_mounted :: bool
  vl_window :: "nat \<times> nat"
  vl_dims :: "nat \<times> nat"
  vl_listener :: bool
  vl_fetch :: load_state
  vl_viz :: viz_state

datatype viz_event = Viz_Mount_Effect | Viz_Mounted_Commit | Viz_Resize "nat \<times> nat"
  | Viz_Load_Settles fetch_outcome | Viz_Node_Click gnode | Viz_Select "gnode option" | Viz_Unmount

text \<open>The first render: \<open>mounted\<close> false, dimensions \<open>0 \<times> 0\<close>, the window as it is.\<close>

definition viz_init :: "nat \<times> nat \<Rightarrow> viz_life" where
  "viz_init w = \<lparr>vl_alive = True, vl_mounted = False, vl_window = w, vl_dims = (0, 0),
                 vl_listener = False, vl_fetch = Load_Idle, vl_viz = init_viz\<rparr>"

text \<open>The HARD GUARD: the graph is drawn once \<open>mounted\<close> holds and \<open>visibleGraph\<close> is
  non-null; then \<open>fgRef.current\<close> is set.\<close>

definition viz_drawn :: "viz_life \<Rightarrow> bool" where
  "viz_drawn s \<longleftrightarrow> vl_alive s \<and> vl_mounted s \<and> current_view (vl_viz s) \<noteq> No_Graph"

definition viz_commit :: "viz_life \<Rightarrow> viz_life" where
  "viz_commit s = s\<lparr>vl_viz := (vl_viz s)\<lparr>fg_ready := viz_drawn s\<rparr>\<rparr>"

definition viz_step :: "(string \<Rightarrow> jsval option) \<Rightarrow> viz_life \<Rightarrow> viz_event \<Rightarrow> viz_life" where
  "viz_step parse s ev =
     (if \<not> vl_alive s then (case ev of Viz_Resize w \<Rightarrow> s\<lparr>vl_window := w\<rparr> | _ \<Rightarrow> s)
      else case ev of
        Viz_Mount_Effect \<Rightarrow>
          if vl_mounted s then s else s\<lparr>vl_mounted := True, vl_dims := vl_window s\<rparr>
      | Viz_Mounted_Commit \<Rightarrow>
          if \<not> vl_mounted s \<or> vl_fetch s \<noteq> Load_Idle then s
          else viz_commit (s\<lparr>vl_listener := True, vl_fetch := Load_In_Flight\<rparr>)
      | Viz_Resize w \<Rightarrow>
          if vl_listener s then s\<lparr>vl_window := w, vl_dims := w\<rparr> else s\<lparr>vl_window := w\<rparr>
      | Viz_Load_Settles r \<Rightarrow>
          if vl_fetch s \<noteq> Load_In_Flight then s
          else
            let g = load_graph parse r (raw_graph (vl_viz s))
            in if g = raw_graph (vl_viz s) then s\<lparr>vl_fetch := Load_Done\<rparr>
               else let s' = viz_commit (s\<lparr>vl_fetch := Load_Done, vl_viz := (vl_viz s)\<lparr>raw_graph := g\<rparr>\<rparr>)
                    in s'\<lparr>vl_viz := camera_default_effect (vl_viz s')\<rparr>
      | Viz_Node_Click n \<Rightarrow> if viz_drawn s then s\<lparr>vl_viz := node_click (vl_viz s) n\<rparr> else s
      | Viz_Select sel \<Rightarrow> s\<lparr>vl_viz := camera_select_effect sel (vl_viz s)\<rparr>
      | Viz_Unmount \<Rightarrow>
          s\<lparr>vl_alive := False, vl_listener := False,
            vl_fetch := (if vl_fetch s = Load_In_Flight then Load_Aborted else vl_fetch s)\<rparr>)"

definition viz_run :: "(string \<Rightarrow> jsval option) \<Rightarrow> viz_life \<Rightarrow> viz_event list \<Rightarrow> viz_life" where
  "viz_run parse s evs = fold (\<lambda>ev s. viz_step parse s ev) evs s"

inductive viz_reachable :: "(string \<Rightarrow> jsval option) \<Rightarrow> viz_life \<Rightarrow> bool" where
  init: "viz_reachable parse (viz_init w)"
| step: "viz_reachable parse s \<Longrightarrow> viz_reachable parse (viz_step parse s ev)"

definition viz_inv :: "viz_life \<Rightarrow> bool" where
  "viz_inv s \<longleftrightarrow> (vl_listener s \<longleftrightarrow> vl_alive s \<and> vl_fetch s \<noteq> Load_Idle)
     \<and> (vl_fetch s \<noteq> Load_Idle \<longrightarrow> vl_mounted s)
     \<and> (vl_fetch s = Load_In_Flight \<longrightarrow> vl_alive s)
     \<and> \<not> show_only_fraud (vl_viz s) \<and> search_id (vl_viz s) = [] \<and> search_error (vl_viz s) = []"

subsection \<open>Lemmas\<close>

lemma viz_commit_fields [simp]:
  "vl_alive (viz_commit s) = vl_alive s" "vl_mounted (viz_commit s) = vl_mounted s"
  "vl_listener (viz_commit s) = vl_listener s" "vl_fetch (viz_commit s) = vl_fetch s"
  "vl_window (viz_commit s) = vl_window s" "vl_dims (viz_commit s) = vl_dims s"
  "show_only_fraud (vl_viz (viz_commit s)) = show_only_fraud (vl_viz s)"
  "search_id (vl_viz (viz_commit s)) = search_id (vl_viz s)"
  "search_error (vl_viz (viz_commit s)) = search_error (vl_viz s)"
  by (simp_all add: viz_commit_def)

lemma viz_effects_keep_search [simp]:
  "show_only_fraud (camera_default_effect v) = show_only_fraud v"
  "search_id (camera_default_effect v) = search_id v"
  "search_error (camera_default_effect v) = search_error v"
  "show_only_fraud (camera_select_effect sel v) = show_only_fraud v"
  "search_id (camera_select_effect sel v) = search_id v"
  "search_error (camera_select_effect sel v) = search_error v"
  "show_only_fraud (node_click v n) = show_only_fraud v"
  "search_id (node_click v n) = search_id v"
  "search_error (node_click v n) = search_error v"
  by (simp_all add: camera_default_effect_def camera_select_effect_def push_camera_def node_click_def
               split: option.splits)

lemma viz_step_inv: "viz_inv s \<Longrightarrow> viz_inv (viz_step parse s ev)"
  by (cases ev) (auto simp: viz_step_def viz_inv_def Let_def)

lemma viz_reachable_inv: "viz_reachable parse s \<Longrightarrow> viz_inv s"
proof (induction rule: viz_reachable.induct)
  case (init w)
  then show ?case by (simp add: viz_inv_def viz_init_def init_viz_def)
next
  case (step s ev)
  then show ?case by (simp add: viz_step_inv)
qed

lemma viz_step_dead: "\<not> vl_alive s \<Longrightarrow> viz_step parse s ev = (case ev of Viz_Resize w \<Rightarrow> s\<lparr>vl_window := w\<rparr> | _ \<Rightarrow> s)"
  by (simp add: viz_step_def)

text \<open>C34: After teardown nothing the browser still delivers (the settled or aborted
  fetch, resizes, clicks) changes the component: the resize listener is removed, the fetch
  is not in flight, and no stale snapshot or size is written.\<close>

theorem viz_teardown_final:
  assumes "viz_reachable parse s" and "\<not> vl_alive s"
  shows "vl_viz (viz_run parse s evs) = vl_viz s \<and> \<not> vl_listener (viz_run parse s evs)
         \<and> vl_fetch (viz_run parse s evs) \<noteq> Load_In_Flight \<and> vl_dims (viz_run parse s evs) = vl_dims s"
proof -
  have i: "\<not> vl_listener s" "vl_fetch s \<noteq> Load_In_Flight"
    using viz_reachable_inv [OF assms(1)] assms(2) by (auto simp: viz_inv_def)
  have "\<not> vl_alive (viz_run parse s evs) \<and> vl_viz (viz_run parse s evs) = vl_viz s
        \<and> vl_listener (viz_run parse s evs) = vl_listener s \<and> vl_fetch (viz_run parse s evs) = vl_fetch s
        \<and> vl_dims (viz_run parse s evs) = vl_dims s"
    using assms(2)
  proof (induction evs arbitrary: s)
    case Nil
    then show ?case by (simp add: viz_run_def)
  next
    case (Cons ev evs)
    then show ?case by (cases ev) (simp_all add: viz_run_def viz_step_dead)
  qed
  then show ?thesis using i by simp
qed

text \<open>C30: No rendered control sets the fraud-only flag or the search query: in every
  reachable state the filter is off, the query and its error are empty, and the view is
  the loaded snapshot itself, so \<open>handleSearch\<close> and the fraud filter never act.\<close>

theorem viz_search_and_filter_unreachable:
  "viz_reachable parse s \<Longrightarrow>
   \<not> show_only_fraud (vl_viz s) \<and> search_id (vl_viz s) = [] \<and> search_error (vl_viz s) = []
   \<and> current_view (vl_viz s) = (case raw_graph (vl_viz s) of None \<Rightarrow> No_Graph | Some g \<Rightarrow> View g)"
  by (drule viz_reachable_inv)
     (auto simp: viz_inv_def current_view_def visible_graph_def split: option.splits)

lemma viz_started_reachable:
  "viz_reachable parse (viz_step parse (viz_step parse (viz_init w) Viz_Mount_Effect) Viz_Mounted_Commit)"
  by (intro viz_reachable.step viz_reachable.init)

theorem viz_teardown_final_witness:
  "vl_fetch (viz_run (\<lambda>_. None)
      (viz_step (\<lambda>_. None) (viz_step (\<lambda>_. None) (viz_step (\<lambda>_. None) (viz_init (800, 600)) Viz_Mount_Effect)
                           Viz_Mounted_Commit) Viz_Unmount)
      [Viz_Load_Settles (Fetch_Body ''{}''), Viz_Resize (1024, 768)]) = Load_Aborted
   \<and> vl_dims (viz_run (\<lambda>_. None)
      (viz_step (\<lambda>_. None) (viz_step (\<lambda>_. None) (viz_step (\<lambda>_. None) (viz_init (800, 600)) Viz_Mount_Effect)
                           Viz_Mounted_Commit) Viz_Unmount)
      [Viz_Load_Settles (Fetch_Body ''{}''), Viz_Resize (1024, 768)]) = (800, 600)"
proof -
  let ?s = "viz_step (\<lambda>_. None) (viz_step (\<lambda>_. None) (viz_step (\<lambda>_. None) (viz_init (800, 600)) Viz_Mount_Effect)
                           Viz_Mounted_Commit) Viz_Unmount"
  have r: "viz_reachable (\<lambda>_. None) ?s" by (intro viz_reachable.step viz_started_reachable)
  have d: "\<not> vl_alive ?s" "vl_fetch ?s = Load_Aborted" "vl_dims ?s = (800, 600)"
    by (simp_all add: viz_step_def viz_init_def viz_commit_def)
  have "vl_fetch (viz_run (\<lambda>_. None) ?s [Viz_Load_Settles (Fetch_Body ''{}''), Viz_Resize (1024, 768)]) = vl_fetch ?s"
    using d(1) by (simp add: viz_run_def viz_step_dead)
  then show ?thesis using viz_teardown_final [OF r d(1)] d(2,3) by simp
qed

theorem viz_search_and_filter_unreachable_witness:
  "current_view (vl_viz (viz_step (\<lambda>_. None) (viz_step (\<lambda>_. None) (viz_init (800, 600)) Viz_Mount_Effect)
                            Viz_Mounted_Commit)) = No_Graph"
  using viz_search_and_filter_unreachable [OF viz_started_reachable]
  by (simp add: viz_step_def viz_init_def viz_commit_def init_viz_def)

lemma viz_resize_race:
  "let s = viz_run parse (viz_init (800, 600)) [Viz_Mount_Effect, Viz_Resize (1024, 768), Viz_Mounted_Commit]
   in vl_alive s \<and> vl_listener s \<and> vl_window s = (1024, 768) \<and> vl_dims s = (800, 600)"
  by (simp add: viz_run_def viz_step_def viz_init_def viz_commit_def)

lemma viz_step_no_reload:
  assumes "vl_fetch s = Load_Done \<or> vl_fetch s = Load_Aborted"
  shows "raw_graph (vl_viz (viz_step parse s ev)) = raw_graph (vl_viz s)
         \<and> (vl_fetch (viz_step parse s ev) = Load_Done \<or> vl_fetch (viz_step parse s ev) = Load_Aborted)"
  using assms
  by (cases ev) (auto simp: viz_step_def node_click_def camera_select_effect_def push_camera_def
                      split: option.splits)

lemma viz_run_no_reload:
  "vl_fetch s = Load_Done \<or> vl_fetch s = Load_Aborted \<Longrightarrow>
   raw_graph (vl_viz (viz_run parse s evs)) = raw_graph (vl_viz s)"
proof (induction evs arbitrary: s)
  case Nil
  then show ?case by (simp add: viz_run_def)
next
  case (Cons ev evs)
  then show ?case using viz_step_no_reload [OF Cons.prems, of parse ev] by (simp add: viz_run_def)
qed

lemma current_view_loaded: "raw_graph v = Some g \<Longrightarrow> current_view v \<noteq> No_Graph"
  by (auto simp: current_view_def visible_graph_def Let_def split: option.splits)

text \<open>C17: On the mounted component, a load whose body \<open>loadGraph\<close> accepts stores the
  normalised snapshot, draws the graph and moves the camera once, to the default pose; a
  load it rejects (markup, unparsable or malformed data, a failed fetch) leaves the
  component undrawn for ever: the load effect never runs again, so "Initializing 3D
  Engine" stays whatever happens next.\<close>

theorem viz_load_draws_or_stays_initializing:
  assumes "vl_alive s" and "vl_mounted s" and "vl_fetch s = Load_In_Flight" and "raw_graph (vl_viz s) = None"
  shows "(load_graph parse r None = Some g \<longrightarrow>
            raw_graph (vl_viz (viz_step parse s (Viz_Load_Settles r))) = Some g
          \<and> viz_drawn (viz_step parse s (Viz_Load_Settles r))
          \<and> camera_calls (vl_viz (viz_step parse s (Viz_Load_Settles r))) = camera_calls (vl_viz s) @ [default_pose])
       \<and> (load_graph parse r None = None \<longrightarrow>
            (\<forall>evs. \<not> viz_drawn (viz_run parse (viz_step parse s (Viz_Load_Settles r)) evs)))"
proof (intro conjI impI allI)
  assume ok: "load_graph parse r None = Some g"
  let ?s' = "viz_step parse s (Viz_Load_Settles r)"
  show "raw_graph (vl_viz ?s') = Some g" "viz_drawn ?s'"
       "camera_calls (vl_viz ?s') = camera_calls (vl_viz s) @ [default_pose]"
    using assms ok
    by (simp_all add: viz_step_def Let_def viz_commit_def camera_default_effect_def push_camera_def
                      viz_drawn_def current_view_loaded)
next
  fix evs
  assume bad: "load_graph parse r None = None"
  let ?s' = "viz_step parse s (Viz_Load_Settles r)"
  have f: "vl_fetch ?s' = Load_Done" and n: "raw_graph (vl_viz ?s') = None"
    using assms bad by (simp_all add: viz_step_def Let_def)
  have "raw_graph (vl_viz (viz_run parse ?s' evs)) = None"
    using viz_run_no_reload [of ?s' parse evs] f n by simp
  then show "\<not> viz_drawn (viz_run parse ?s' evs)"
    by (simp add: viz_drawn_def current_view_def visible_graph_def)
qed

theorem viz_load_draws_or_stays_initializing_witness:
  "camera_calls (vl_viz (viz_step (\<lambda>_. Some demo_payload)
      (viz_step (\<lambda>_. Some demo_payload) (viz_step (\<lambda>_. Some demo_payload) (viz_init (800, 600)) Viz_Mount_Effect)
        Viz_Mounted_Commit) (Viz_Load_Settles (Fetch_Body ''{}'')))) = [default_pose]
   \<and> \<not> viz_drawn (viz_run (\<lambda>_. Some demo_payload)
      (viz_step (\<lambda>_. Some demo_payload)
        (viz_step (\<lambda>_. Some demo_payload) (viz_step (\<lambda>_. Some demo_payload) (viz_init (800, 600)) Viz_Mount_Effect)
          Viz_Mounted_Commit) (Viz_Load_Settles (Fetch_Body ''<html>'')))
      [Viz_Mounted_Commit, Viz_Resize (1024, 768)])"
proof -
  let ?p = "\<lambda>_ :: string. Some demo_payload"
  let ?s = "viz_step ?p (viz_step ?p (viz_init (800, 600)) Viz_Mount_Effect) Viz_Mounted_Commit"
  have s: "vl_alive ?s" "vl_mounted ?s" "vl_fetch ?s = Load_In_Flight" "raw_graph (vl_viz ?s) = None"
          "camera_calls (vl_viz ?s) = []"
    by (simp_all add: viz_step_def viz_init_def viz_commit_def init_viz_def)
  have ok: "load_graph ?p (Fetch_Body ''{}'') None = Some demo_normalized"
    by (simp add: load_graph_def demo_payload_normalized js_starts_with_def js_trim_def js_is_space_def)
  have bad: "load_graph ?p (Fetch_Body ''<html>'') None = None"
    by (simp add: load_graph_def js_starts_with_def js_trim_def js_is_space_def)
  show ?thesis
    using viz_load_draws_or_stays_initializing [OF s(1-4), of ?p "Fetch_Body ''{}''" demo_normalized] ok s(5)
          viz_load_draws_or_stays_initializing [OF s(1-4), of ?p "Fetch_Body ''<html>''"] bad
    by simp
qed

end
