(* ===== verification/PageView.thy ===== *)
theory PageView
  imports StreamAggregator NumberString
begin

text \<open>
  The rendered investigation page (\<open>src/control-tower/app/transaction/page.tsx\<close>, the JSX
  returned by \<open>FakeTransactionPage\<close>) and the navigation bar it shows
  (\<open>src/control-tower/app/components/Navbar.tsx\<close>). \<open>render_page\<close> is the view as a function
  of the page state: the form inputs with the names \<open>handleChange\<close> reads, the send
  button with its \<open>disabled\<close> flag and label, the three tab buttons with their classes,
  and the content panel. \<open>dispatch\<close> is what a DOM event on a rendered control calls.
  Class strings keep the parts that depend on the state; emoji in tab labels are left out.
  \<open>Footer\<close> and \<open>VisualAnalyticsCard\<close> are not in the repository: the card is the pair of
  props it receives.
\<close>

subsection \<open>The navigation bar\<close>

datatype nav_control = Nav_Link string string | Nav_Button string

record nav_view =
  nav_logo :: string
  nav_controls :: "nav_control list"

text \<open>Four links to \<open>#\<close> and two buttons without handlers.\<close>

definition navbar :: nav_view where
  "navbar = \<lparr>nav_logo = ''/logo.png'',
             nav_controls = [Nav_Link ''Home'' ''#'', Nav_Link ''Network'' ''#'', Nav_Link ''Alerts'' ''#'',
                             Nav_Link ''Stats'' ''#'', Nav_Button ''Sign Up'', Nav_Button ''Login'']\<rparr>"

subsection \<open>The page\<close>

record form_input =
  input_name :: string
  input_field :: form_field
  input_type :: string

definition page_inputs :: "form_input list" where
  "page_inputs =
     [\<lparr>input_name = ''source'', input_field = Field_Source, input_type = ''text''\<rparr>,
      \<lparr>input_name = ''target'', input_field = Field_Target, input_type = ''text''\<rparr>,
      \<lparr>input_name = ''amount'', input_field = Field_Amount, input_type = ''number''\<rparr>]"

definition tab_specs :: "(active_tab \<times> string \<times> string) list" where
  "tab_specs =
     [(Unsupervised, ''Unsupervised'', ''bg-orange-500''), (Ja3, ''JA3 Fingerprinting'', ''bg-red-500''),
      (Supervised, ''Supervised'', ''bg-blue-500'')]"

definition inactive_tab_class :: string where
  "inactive_tab_class = ''bg-gray-800 text-gray-400 hover:text-white''"

record tab_button =
  tab_key :: active_tab
  tab_label :: string
  tab_class :: string

definition tab_button :: "active_tab \<Rightarrow> active_tab \<times> string \<times> string \<Rightarrow> tab_button" where
  "tab_button act spec =
     (case spec of (k, l, c) \<Rightarrow>
        \<lparr>tab_key = k, tab_label = l,
         tab_class = (if act = k then c @ '' text-black'' else inactive_tab_class)\<rparr>)"

datatype tab_content = VA_Card va_status "va_event list" | Disabled_Note string

definition tab_content :: "page_state \<Rightarrow> tab_content" where
  "tab_content s =
     (case active_tab s of
        Unsupervised \<Rightarrow> VA_Card (va_status s) (va_events s)
      | Ja3 \<Rightarrow> Disabled_Note ''JA3 analysis not enabled in demo''
      | Supervised \<Rightarrow> Disabled_Note ''Supervised model not enabled in demo'')"

record page_view =
  pv_nav :: nav_view
  pv_inputs :: "form_input list"
  pv_send_label :: string
  pv_send_disabled :: bool
  pv_tabs :: "tab_button list"
  pv_content :: tab_content

definition render_page :: "page_state \<Rightarrow> page_view" where
  "render_page s =
     \<lparr>pv_nav = navbar, pv_inputs = page_inputs,
      pv_send_label = (if loading s then ''Analyzing...'' else ''Send Transaction''),
      pv_send_disabled = loading s,
      pv_tabs = map (tab_button (active_tab s)) tab_specs,
      pv_content = tab_content s\<rparr>"

text \<open>DOM events on the rendered controls: \<open>onChange\<close> of the input with a given name,
  a click on the send button (ignored by the browser while it is disabled), a click on a
  tab button.\<close>

datatype ui_event = Ui_Input string string | Ui_Send | Ui_Tab active_tab

definition dispatch :: "page_state \<Rightarrow> ui_event \<Rightarrow> page_state" where
  "dispatch s e =
     (case e of
        Ui_Input nm v \<Rightarrow>
          (case find (\<lambda>i. input_name i = nm) (pv_inputs (render_page s)) of
             None \<Rightarrow> s
           | Some i \<Rightarrow> handle_change s (input_field i) v)
      | Ui_Send \<Rightarrow> if pv_send_disabled (render_page s) then s else send_transaction s
      | Ui_Tab k \<Rightarrow> if k \<in> set (map tab_key (pv_tabs (render_page s))) then set_tab s k else s)"

definition dispatch_all :: "page_state \<Rightarrow> ui_event list \<Rightarrow> page_state" where
  "dispatch_all s es = fold (\<lambda>e s. dispatch s e) es s"

subsection \<open>Lemmas\<close>



lemma dispatch_reachable_step:
  "dispatch s e = s \<or> page_step s (dispatch s e)"
  by (cases e) (auto simp: dispatch_def render_page_def split: option.splits intro: page_step.intros)

lemma render_ignores_result: "render_page (s\<lparr>result := r\<rparr>) = render_page s"
  by (cases "active_tab s") (simp_all add: render_page_def tab_content_def)

text \<open>C21: Every sequence of DOM events on the rendered page moves a reachable state to a
  reachable state: the controls call exactly the handlers of \<open>page_step\<close>, and the send
  button's \<open>disabled={loading}\<close> is the guard of its submit rule.\<close>

theorem ui_events_are_page_steps:
  "page_reachable s \<Longrightarrow> page_reachable (dispatch_all s es)"
proof (induction es arbitrary: s)
  case Nil
  then show ?case by (simp add: dispatch_all_def)
next
  case (Cons e es)
  have "page_reachable (dispatch s e)"
    using dispatch_reachable_step [of s e] Cons.prems page_reachable.step by metis
  then show ?case using Cons.IH by (simp add: dispatch_all_def)
qed

text \<open>C22: Every render shows the three tab buttons in order with exactly one of them
  highlighted, the active one; the content panel is the analytics card exactly on the
  unsupervised tab; the inputs carry the names \<open>handleChange\<close> stores under.\<close>

theorem render_page_wellformed:
  "map tab_key (pv_tabs (render_page s)) = [Unsupervised, Ja3, Supervised]
   \<and> [tab_key b. b \<leftarrow> pv_tabs (render_page s), tab_class b \<noteq> inactive_tab_class] = [active_tab s]
   \<and> (pv_content (render_page s) = VA_Card (va_status s) (va_events s) \<longleftrightarrow> active_tab s = Unsupervised)
   \<and> map input_name (pv_inputs (render_page s)) = [''source'', ''target'', ''amount'']"
  by (cases "active_tab s")
     (simp_all add: render_page_def tab_specs_def tab_button_def inactive_tab_class_def tab_content_def
                    page_inputs_def)




theorem ui_events_are_page_steps_witness:
  "page_reachable (dispatch_all init_page [Ui_Send, Ui_Tab Ja3])"
  by (rule ui_events_are_page_steps [OF page_reachable.init])

end
