(* ===== verification/ControlTower.thy ===== *)
theory ControlTower
  imports JsValue
begin

text \<open>
  The server routes and small client state of the control tower outside the investigation
  page: the role-token route (\<open>src/control-tower/app/api/user/role/route.ts\<close>), the
  database connection helper (\<open>src/control-tower/lib/mongodb.ts\<close>) with the test route
  that uses it (\<open>src/control-tower/app/api/test-db/route.ts\<close>), and the role selector of
  \<open>src/control-tower/app/components/LoginForm.tsx\<close>. \<open>auth()\<close>, \<open>jwt.sign\<close>,
  \<open>mongoose.connect\<close> and \<open>User.find\<close> are library calls: their results are inputs, and a
  signed token is the record of what was signed.
\<close>

subsection \<open>The role-token route\<close>

record role_token =
  tok_sub :: jsval
  tok_role :: jsval
  tok_purpose :: string
  tok_secret :: string
  tok_expires_in :: string
  tok_issuer :: string

datatype route_body = Error_Body string | Token_Body role_token

record route_response =
  http_status :: nat
  body :: route_body

text \<open>\<open>GET\<close>: \<open>session\<close> is what \<open>auth()\<close> resolved to, \<open>secret\<close> the value of
  \<open>process.env.JWT_SECRET\<close> (\<open>None\<close> when unset).\<close>

definition role_route :: "jsval \<Rightarrow> string option \<Rightarrow> route_response" where
  "role_route session secret =
     (if \<not> js_truthy session \<or> \<not> js_truthy (js_opt_get session ''user'')
      then \<lparr>http_status = 401, body = Error_Body ''Unauthorized''\<rparr>
      else
        let user = js_opt_get session ''user'';
            role = (if js_truthy (js_opt_get user ''role'') then js_opt_get user ''role'' else JStr ''user'')
        in case secret of
             None \<Rightarrow> \<lparr>http_status = 500, body = Error_Body ''Internal Server Error''\<rparr>
           | Some sec \<Rightarrow>
               if sec = [] then \<lparr>http_status = 500, body = Error_Body ''Internal Server Error''\<rparr>
               else \<lparr>http_status = 200,
                     body = Token_Body \<lparr>tok_sub = js_opt_get user ''id'', tok_role = role,
                                        tok_purpose = ''viz-access'', tok_secret = sec,
                                        tok_expires_in = ''10m'', tok_issuer = ''mulehunter-frontend''\<rparr>\<rparr>)"

subsection \<open>The database connection\<close>

text \<open>Loading the module throws when \<open>MONGODB_URI\<close> is unset or empty.\<close>

definition module_loads :: "string option \<Rightarrow> bool" where
  "module_loads uri \<longleftrightarrow> (case uri of None \<Rightarrow> False | Some u \<Rightarrow> u \<noteq> [])"

datatype db_result = Db_Skipped | Db_Connected | Db_Error string

text \<open>\<open>dbConnect\<close>: \<open>ready\<close> is \<open>mongoose.connection.readyState\<close> (0 disconnected,
  1 connected, 2 connecting, 3 disconnecting); \<open>outcome\<close> is how \<open>mongoose.connect\<close>
  settles, \<open>Inl\<close> of the error message when it rejects.\<close>

definition db_connect :: "nat \<Rightarrow> string + unit \<Rightarrow> db_result" where
  "db_connect ready outcome =
     (if 1 \<le> ready then Db_Skipped
      else case outcome of Inl e \<Rightarrow> Db_Error e | Inr _ \<Rightarrow> Db_Connected)"

datatype test_db_body = Db_Ok nat "jsval list" | Db_Failed string

text \<open>The test route: \<open>users\<close> is how \<open>User.find({})\<close> settles.\<close>

definition test_db_route :: "nat \<Rightarrow> string + unit \<Rightarrow> string + jsval list \<Rightarrow> nat \<times> test_db_body" where
  "test_db_route ready outcome users =
     (case db_connect ready outcome of
        Db_Error e \<Rightarrow> (500, Db_Failed e)
      | _ \<Rightarrow> (case users of
               Inl e \<Rightarrow> (500, Db_Failed e)
             | Inr us \<Rightarrow> (200, Db_Ok (length us) us)))"

subsection \<open>The login role selector\<close>

definition login_roles :: "string list" where
  "login_roles = [''Admin'', ''Investigator'', ''Viewer'']"

text \<open>The role buttons: each calls \<open>setRole\<close> with its own role.\<close>

inductive login_role_reachable :: "string \<Rightarrow> bool" where
  init: "login_role_reachable ''Admin''"
| click: "login_role_reachable r \<Longrightarrow> r' \<in> set login_roles \<Longrightarrow> login_role_reachable r'"

definition login_label :: "string \<Rightarrow> string" where
  "login_label role = ''Login as '' @ role"

subsection \<open>Lemmas\<close>

text \<open>C32: The route issues a token exactly when \<open>auth()\<close> gave a session with a user
  and the secret is set and non-empty.\<close>

theorem role_token_issued_iff:
  "(\<exists>tok. body (role_route session secret) = Token_Body tok) \<longleftrightarrow>
     js_truthy session \<and> js_truthy (js_opt_get session ''user'') \<and> secret \<noteq> None \<and> secret \<noteq> Some []"
  by (auto simp: role_route_def Let_def split: option.splits)

text \<open>C33: A token always carries a truthy role (the user's, or \<open>user\<close> when the user's
  role is missing or empty), the purpose \<open>viz-access\<close>, a ten-minute expiry and a
  non-empty secret, and comes with status 200.\<close>

theorem role_token_wellformed:
  "body (role_route session secret) = Token_Body tok \<Longrightarrow>
   js_truthy (tok_role tok) \<and> tok_purpose tok = ''viz-access'' \<and> tok_expires_in tok = ''10m''
   \<and> tok_secret tok \<noteq> [] \<and> http_status (role_route session secret) = 200"
  by (auto simp: role_route_def Let_def split: option.splits if_splits)

theorem role_token_wellformed_witness:
  "tok_role (\<lparr>tok_sub = JStr ''u1'', tok_role = JStr ''user'', tok_purpose = ''viz-access'',
              tok_secret = ''k'', tok_expires_in = ''10m'', tok_issuer = ''mulehunter-frontend''\<rparr>) = JStr ''user''
   \<and> http_status (role_route (JObj [(''user'', JObj [(''id'', JStr ''u1''), (''role'', JStr [])])]) (Some ''k'')) = 200"
proof -
  have b: "body (role_route (JObj [(''user'', JObj [(''id'', JStr ''u1''), (''role'', JStr [])])]) (Some ''k''))
           = Token_Body \<lparr>tok_sub = JStr ''u1'', tok_role = JStr ''user'', tok_purpose = ''viz-access'',
              tok_secret = ''k'', tok_expires_in = ''10m'', tok_issuer = ''mulehunter-frontend''\<rparr>"
    by (simp add: role_route_def js_opt_get_def)
  show ?thesis using role_token_wellformed [OF b] by simp
qed

text \<open>\<open>dbConnect\<close> does not connect while the connection is disconnecting
  (\<open>readyState\<close> 3), as \<open>readyState >= 1\<close> also holds there; it connects only from the
  disconnected state.\<close>

theorem db_connect_skips_disconnecting:
  "db_connect 3 outcome = Db_Skipped \<and> (db_connect ready outcome \<noteq> Db_Skipped \<longleftrightarrow> ready = 0)"
  by (simp add: db_connect_def split: sum.splits)

text \<open>The role shown by the login form is always one of its three roles.\<close>

theorem login_role_valid: "login_role_reachable r \<Longrightarrow> r \<in> set login_roles"
  by (induction rule: login_role_reachable.induct) (simp_all add: login_roles_def)

theorem login_role_valid_witness: "''Viewer'' \<in> set login_roles"
proof -
  have "login_role_reachable ''Viewer''"
    by (rule login_role_reachable.click [OF login_role_reachable.init]) (simp add: login_roles_def)
  then show ?thesis by (rule login_role_valid)
qed

end
