(* ===== verification/LoginPage.thy ===== *)
theory LoginPage
  imports PageView ControlTower
begin

text \<open>
  The login page (\<open>src/control-tower/app/login/page.tsx\<close>): the navigation bar, the
  \<open>LoginForm\<close> (\<open>src/control-tower/app/components/LoginForm.tsx\<close>) and a footer; the page
  imports \<open>Testimonials\<close> (\<open>src/control-tower/app/components/Testimonial.tsx\<close>) but does
  not render it. The copyright sign of the footer is left out of its text. \<open>LoginForm\<close> keeps the role in React state; its two inputs are
  uncontrolled, so their values live in the DOM. Its Login button has no \<open>type\<close>, so it
  submits the form: the browser checks the \<open>required\<close> and \<open>type="email"\<close> constraints
  (\<open>valid_email\<close>, the HTML living standard's valid e-mail address) and, when they hold,
  navigates to the form's default action, the page itself, which reloads it. The other
  buttons are \<open>type="button"\<close> or outside any form, and every link goes to \<open>#\<close>.
\<close>

subsection \<open>Browser form validation\<close>

definition is_alnum :: "char \<Rightarrow> bool" where
  "is_alnum c \<longleftrightarrow> is_digit c \<or> ((97::nat) \<le> of_char c \<and> of_char c \<le> (122::nat))
     \<or> ((65::nat) \<le> of_char c \<and> of_char c \<le> (90::nat))"

definition email_atext :: "char \<Rightarrow> bool" where
  "email_atext c \<longleftrightarrow> is_alnum c \<or> c \<in> set ''.!#$%&'*+/=?^_`{|}~-''"

definition email_label :: "string \<Rightarrow> bool" where
  "email_label l \<longleftrightarrow> l \<noteq> [] \<and> length l \<le> 63 \<and> list_all (\<lambda>c. is_alnum c \<or> c = CHR ''-'') l
     \<and> is_alnum (hd l) \<and> is_alnum (last l)"

text \<open>The dot-separated labels of a domain.\<close>

function split_dots :: "string \<Rightarrow> string list" where
  "split_dots s =
     (if CHR ''.'' \<in> set s then takeWhile (\<lambda>c. c \<noteq> CHR ''.'') s # split_dots (tl (dropWhile (\<lambda>c. c \<noteq> CHR ''.'') s))
      else [s])"
  by pat_completeness auto

termination
proof (relation "measure length")
  fix s :: string
  assume "CHR ''.'' \<in> set s"
  then have "dropWhile (\<lambda>c. c \<noteq> CHR ''.'') s \<noteq> []" by (simp add: dropWhile_eq_Nil_conv)
  then show "(tl (dropWhile (\<lambda>c. c \<noteq> CHR ''.'') s), s) \<in> measure length"
    using length_dropWhile_le [of "\<lambda>c. c \<noteq> CHR ''.''" s] by (cases "dropWhile (\<lambda>c. c \<noteq> CHR ''.'') s") auto
qed simp

declare split_dots.simps [simp del]

definition valid_email :: "string \<Rightarrow> bool" where
  "valid_email s \<longleftrightarrow>
     (let l = takeWhile (\<lambda>c. c \<noteq> CHR ''@'') s; r = dropWhile (\<lambda>c. c \<noteq> CHR ''@'') s
      in l \<noteq> [] \<and> list_all email_atext l \<and> r \<noteq> [] \<and> list_all email_label (split_dots (tl r)))"

subsection \<open>The form\<close>

record login_state =
  lf_role :: string
  lf_email :: string
  lf_password :: string
  lf_loads :: nat

definition login_init :: "nat \<Rightarrow> login_state" where
  "login_init n = \<lparr>lf_role = ''Admin'', lf_email = [], lf_password = [], lf_loads = n\<rparr>"

text \<open>The form can be submitted when both required inputs are filled and the e-mail is
  valid.\<close>

definition login_submittable :: "login_state \<Rightarrow> bool" where
  "login_submittable s \<longleftrightarrow> lf_email s \<noteq> [] \<and> valid_email (lf_email s) \<and> lf_password s \<noteq> []"

datatype login_control =
  Role_Button string | Email_Input | Password_Input | Forgot_Link | Login_Submit | Request_Access
  | Navbar_Control nav_control

datatype login_event = Lf_Click login_control | Lf_Type login_control string

definition login_step :: "login_state \<Rightarrow> login_event \<Rightarrow> login_state" where
  "login_step s ev =
     (case ev of
        Lf_Click (Role_Button r) \<Rightarrow> if r \<in> set login_roles then s\<lparr>lf_role := r\<rparr> else s
      | Lf_Click Login_Submit \<Rightarrow> if login_submittable s then login_init (Suc (lf_loads s)) else s
      | Lf_Type Email_Input v \<Rightarrow> s\<lparr>lf_email := v\<rparr>
      | Lf_Type Password_Input v \<Rightarrow> s\<lparr>lf_password := v\<rparr>
      | _ \<Rightarrow> s)"

definition login_run :: "login_state \<Rightarrow> login_event list \<Rightarrow> login_state" where
  "login_run s evs = fold (\<lambda>ev s. login_step s ev) evs s"

record login_form_view =
  lv_mode :: string
  lv_role_buttons :: "(string \<times> bool) list"
  lv_submit :: string

definition render_login_form :: "login_state \<Rightarrow> login_form_view" where
  "render_login_form s =
     \<lparr>lv_mode = lf_role s @ '' Mode'', lv_role_buttons = map (\<lambda>r. (r, lf_role s = r)) login_roles,
      lv_submit = login_label (lf_role s)\<rparr>"

subsection \<open>The testimonials and the page\<close>

definition testimonial_reviews :: "(string \<times> string) list" where
  "testimonial_reviews =
     [(''Sara T'', ''YourBank has been my trusted financial partner for years. Their personalized service and innovative digital banking solutions have made managing my finances a breeze.''),
      (''John D'', ''I recently started my own business, and YourBank has been instrumental in helping me set up my business accounts and secure the financing I needed.''),
      (''Emily G'', ''I love the convenience of YourBank's mobile banking app. It allows me to stay on top of my finances and make transactions on the go with ease.'')]"

definition testimonial_buttons :: "string list" where
  "testimonial_buttons = [''For Individuals'', ''For Businesses'']"

datatype login_section = Sec_Navbar nav_view | Sec_Login_Form login_form_view | Sec_Footer string

definition login_page :: "login_state \<Rightarrow> login_section list" where
  "login_page s =
     [Sec_Navbar navbar, Sec_Login_Form (render_login_form s),
      Sec_Footer ''2025 MULE HUNTER. All Rights Reserved.'']"

text \<open>The controls a user can operate on the login page.\<close>

definition login_page_controls :: "login_control list" where
  "login_page_controls =
     map Navbar_Control (nav_controls navbar) @ map Role_Button login_roles
     @ [Email_Input, Password_Input, Forgot_Link, Login_Submit, Request_Access]"

subsection \<open>Lemmas\<close>

lemma split_dots_no_dot [simp]: "CHR ''.'' \<notin> set s \<Longrightarrow> split_dots s = [s]"
  by (simp add: split_dots.simps)

lemma split_dots_dot [simp]:
  "CHR ''.'' \<in> set s \<Longrightarrow>
   split_dots s = takeWhile (\<lambda>c. c \<noteq> CHR ''.'') s # split_dots (tl (dropWhile (\<lambda>c. c \<noteq> CHR ''.'') s))"
  by (simp add: split_dots.simps)

lemma split_dots_Nil: "split_dots s \<noteq> []"
  by (cases "CHR ''.'' \<in> set s") simp_all

lemma dropWhile_dot: "CHR ''.'' \<in> set s \<Longrightarrow> dropWhile (\<lambda>c. c \<noteq> CHR ''.'') s = CHR ''.'' # tl (dropWhile (\<lambda>c. c \<noteq> CHR ''.'') s)"
proof (induction s)
  case (Cons c cs)
  then show ?case by (cases "c = CHR ''.''") auto
qed simp

lemma js_join_Cons: "ys \<noteq> [] \<Longrightarrow> js_join sep (x # ys) = x @ sep @ js_join sep ys"
  by (cases ys) simp_all

lemma split_dots_join: "js_join ''.'' (split_dots s) = s"
proof (induction s rule: split_dots.induct)
  case (1 s)
  show ?case
  proof (cases "CHR ''.'' \<in> set s")
    case True
    let ?r = "tl (dropWhile (\<lambda>c. c \<noteq> CHR ''.'') s)"
    have "js_join ''.'' (split_dots s) = takeWhile (\<lambda>c. c \<noteq> CHR ''.'') s @ ''.'' @ ?r"
      using 1 True split_dots_Nil [of ?r] by (simp add: js_join_Cons)
    also have "\<dots> = s"
      using dropWhile_dot [OF True] takeWhile_dropWhile_id [of "\<lambda>c. c \<noteq> CHR ''.''" s] by simp
    finally show ?thesis .
  next
    case False
    then show ?thesis by simp
  qed
qed

lemma demo_email_valid: "valid_email ''ops@mule.io''"
  by (simp add: valid_email_def email_label_def email_atext_def is_alnum_def is_digit_def)

lemma not_email: "\<not> valid_email ''ops@''"
  by (simp add: valid_email_def email_label_def email_atext_def is_alnum_def is_digit_def)

lemma login_step_role: "lf_role s \<in> set login_roles \<Longrightarrow> lf_role (login_step s ev) \<in> set login_roles"
  by (auto simp: login_step_def login_init_def login_roles_def split: login_event.splits login_control.splits)

lemma render_login_one_highlight:
  "lf_role s \<in> set login_roles \<Longrightarrow> filter snd (lv_role_buttons (render_login_form s)) = [(lf_role s, True)]"
  by (auto simp: render_login_form_def login_roles_def)

text \<open>C35: On the login page only the role buttons and the Login button change anything;
  a Login click with valid inputs submits the form natively, reloading the page with the
  role back at Admin (the selected role is never sent); with invalid inputs the browser
  blocks it.\<close>

theorem login_submit_discards_role:
  "(\<forall>c\<in>set login_page_controls. (\<forall>r. c \<noteq> Role_Button r) \<and> c \<noteq> Login_Submit \<longrightarrow> login_step s (Lf_Click c) = s)
   \<and> (login_submittable s \<longrightarrow> login_step s (Lf_Click Login_Submit) = login_init (Suc (lf_loads s))
        \<and> lf_role (login_step s (Lf_Click Login_Submit)) = ''Admin'')
   \<and> (\<not> login_submittable s \<longrightarrow> login_step s (Lf_Click Login_Submit) = s)"
  by (auto simp: login_page_controls_def login_step_def navbar_def login_init_def)

theorem login_submit_discards_role_witness:
  "lf_role (login_step \<lparr>lf_role = ''Viewer'', lf_email = ''ops@mule.io'', lf_password = ''pw'', lf_loads = 0\<rparr>
                       (Lf_Click Login_Submit)) = ''Admin''"
proof -
  have "login_submittable \<lparr>lf_role = ''Viewer'', lf_email = ''ops@mule.io'', lf_password = ''pw'', lf_loads = 0\<rparr>"
    using demo_email_valid by (simp add: login_submittable_def)
  then show ?thesis using login_submit_discards_role [of "\<lparr>lf_role = ''Viewer'', lf_email = ''ops@mule.io'', lf_password = ''pw'', lf_loads = 0\<rparr>"]
    by blast
qed

end
