(* ===== verification/Spec2Isabelle.thy ===== *)
theory Spec2Isabelle
  imports StreamRefinement VaRender VizLifecycle LoginPage
begin

text \<open>
  \<^bold>\<open>Mule-Hunter investigation console: a verification library.\<close>

  \<^medskip>
  \<^bold>\<open>The program.\<close> Two front ends of the fraud-detection pipeline are modelled.
  \<^item> The control tower's investigation page
    (\<open>src/control-tower/app/transaction/page.tsx\<close>, component \<open>FakeTransactionPage\<close>):
    an operator fills a form, \<open>sendTransaction\<close> posts it to the transaction service,
    takes a job identifier from the answer (or \<open>local-<Date.now()>\<close>), and opens an
    \<open>EventSource\<close> on the visual-analytics stream of that job; the listeners append
    pipeline stage events to a log, the completion listener sets the status to done and
    closes the stream, and \<open>es.onerror\<close> reports failures.
  \<^item> The 3D account graph (\<open>src/visualization/src/components/FraudGraph3D.jsx\<close>):
    \<open>loadGraph\<close> fetches \<open>/api/graph\<close>, rejects markup bodies, parses and normalises
    nodes and links; the \<open>visibleGraph\<close> memo filters to the anomalous subgraph;
    \<open>handleSearch\<close>, node clicks and two effects drive the camera; \<open>nodeThreeObject\<close>
    styles the nodes. An older copy (\<open>src/visual-analytics/.../FraudGraph3D.jsx\<close>)
    has its own filter and link and node size callbacks.
  The two parts do not call each other: they share only the pipeline they display.

  \<^medskip>
  \<^bold>\<open>Theories.\<close>
  \<^item> \<open>Prelude\<close>: named collections (\<open>handler_defs\<close>, \<open>graph_defs\<close>), list lemmas,
    and \<open>map_all\<close> / \<open>filter_opt\<close>, the \<open>.map\<close> and \<open>.filter\<close> of callbacks that
    may throw (the first throw aborts the call, \<open>None\<close>).
  \<^item> \<open>JsValue\<close>: the JavaScript runtime the handlers rely on, written from the
    language's semantics, not from the repository: the value type \<open>jsval\<close> (numbers are
    \<open>real option\<close>, \<open>None\<close> being NaN), truthiness, \<open>??\<close>, \<open>?.\<close>, property reads that
    throw on \<open>null\<close>/\<open>undefined\<close>, \<open>Number()\<close> on strings (decimal, exponent, hex, octal,
    binary: the exact value of the literal, \<open>parse_numeric_literal\<close>, then rounded to the
    nearest double by \<open>round_double\<close>, ties to even, 53-bit significand, subnormal
    exponents clamped at -1022), \<open>String()\<close>, \<open>trim\<close>, \<open>startsWith\<close>, \<open>includes\<close>,
    \<open>join\<close>.
  \<^item> \<open>StreamAggregator\<close>: the page. Its React state is the record \<open>page_state\<close>
    (one field per \<open>useState\<close>, plus \<open>streams\<close>: every \<open>EventSource\<close> ever opened with
    its open flag, \<open>pending\<close>: the form captured by a \<open>sendTransaction\<close> suspended at
    its \<open>await\<close>, \<open>requests\<close> and \<open>alerts\<close>: the outputs). \<open>send_transaction\<close> is the
    part of \<open>sendTransaction\<close> before \<open>await fetch\<close>, \<open>receive_response\<close> the
    continuation with its \<open>catch\<close>/\<open>finally\<close> (\<open>tx_fail\<close>, \<open>tx_succeed\<close>);
    \<open>stream_event\<close> delivers one event to stream \<open>i\<close> through the listeners
    (\<open>handle_event\<close>, \<open>handle_completed\<close>, \<open>handle_error\<close>); \<open>es_onerror\<close> is the
    handler left by the two \<open>es.onerror\<close> assignments. \<open>page_step\<close> interleaves all of
    them (the button's \<open>disabled={loading}\<close> guards a submit) and \<open>page_reachable\<close>
    is its closure from \<open>init_page\<close>.
  \<^item> \<open>StreamRefinement\<close>: the aggregator as the specification states it
    (\<open>agg_state\<close>, \<open>agg_event\<close>: one subscription, \<open>done\<close> never downgraded), the
    view \<open>abs_page\<close> of the page through one stream, and the invariant
    \<open>done_needs_other\<close> (while a stream is open, \<open>done\<close> can only come from another
    stream) that makes the page refine the specification when one stream was opened.
  \<^item> \<open>GraphModel\<close>: \<open>normalize_node\<close>, \<open>link_kept\<close>, \<open>normalize_link\<close>,
    \<open>normalize_graph\<close>, \<open>load_graph\<close> (with \<open>JSON.parse\<close> a parameter) and the filter
    \<open>visible_graph\<close>, whose three outcomes are no graph, a view, or a render error.
  \<^item> \<open>GraphView\<close>: the component state \<open>viz_state\<close>, \<open>handle_search\<close>,
    \<open>node_click\<close>, \<open>camera_default_effect\<close>, \<open>camera_select_effect\<close> (camera calls are
    logged in order), \<open>node_sphere\<close>, and the visual-analytics \<open>va_visible_graph\<close>,
    \<open>va_node_val\<close>, \<open>va_link_width\<close>.
  \<^item> \<open>VaFitTimer\<close>: the life cycle of the visual-analytics view as a state
    \<open>va_state\<close> with a millisecond clock: the single fetch of \<open>nodes_viz.json\<close>, the
    fraud checkbox, the render and effect (\<open>va_commit\<close>) that schedules
    \<open>zoomToFit\<close> 700 ms later, the ticks that run due timeouts (\<open>va_tick\<close>), unmounting;
    \<open>va_step\<close> is the step function and \<open>va_reachable\<close> its closure from \<open>va_init\<close>.
  \<^item> \<open>VaRender\<close>: the visual-analytics render \<open>va_screen\<close> (loading message or
    canvas with its props, or the crash of an uncaught render error) and the tooltip
    \<open>va_node_label\<close> with \<open>toFixed(2)\<close> (\<open>js_to_fixed2\<close>).
  \<^item> \<open>ControlTower\<close>: the role-token route \<open>role_route\<close> (the session from
    \<open>auth()\<close> and \<open>JWT_SECRET\<close> as inputs, the signed token as the record of its
    claims), \<open>db_connect\<close> and \<open>test_db_route\<close> (the settled library promises as
    inputs), and the login form's role selector \<open>login_role_reachable\<close>.
  \<^item> \<open>NumberString\<close>: decimal printing and parsing in the runtime model: \<open>Number\<close> of
    the decimal string of an integer \<open>i\<close> is \<open>i\<close> rounded to the nearest double, \<open>i\<close>
    itself when \<open>|i| \<le> 2 ^ 53\<close>, with relative error at most \<open>2 ^ -53\<close> for normal
    doubles (\<open>round_double_rel_error\<close>); \<open>toFixed(2)\<close> prints a decimal literal whose
    exact value is within \<open>1/200\<close> of the number (\<open>to_fixed2_value\<close>).
  \<^item> \<open>PageView\<close>: the rendered investigation page, \<open>render_page\<close> (the navigation
    bar \<open>navbar\<close> of \<open>Navbar.tsx\<close>, the named inputs, the send button, the tab buttons, the
    content panel) and \<open>dispatch\<close>, the handler each rendered control calls.
  \<^item> \<open>VizLifecycle\<close>: the graph component's life cycle \<open>viz_step\<close> over
    \<open>viz_life\<close>: the MOUNT GUARD, RESIZE HANDLER and LOAD GRAPH DATA effects with their
    cleanups, the HARD GUARD (\<open>viz_drawn\<close>), clicks and the \<open>selectedNode\<close> prop, teardown.
  \<^item> \<open>LoginPage\<close>: the login page (\<open>login_page\<close>), the \<open>LoginForm\<close> with its
    uncontrolled inputs and native submission (\<open>login_step\<close>, with the browser's
    \<open>valid_email\<close> check, whose \<open>split_dots\<close> is a \<open>function\<close> with a length measure), and
    the testimonials, imported but never rendered.

  \<^medskip>
  \<^bold>\<open>What is proved\<close> (claims C1 to C40, each next to its theorem).
  \<^item> Stream aggregation (C1, C5, C6, C12): an ordered run of stage events and the
    completion event fixes the log and status whatever follows on that stream; a
    transport error fails and closes an open stream; malformed payloads are dropped;
    only listened stage names reach the log.
  \<^item> The page as a state machine (C3, C4): invariants of every reachable state, by rule
    induction over \<open>page_reachable\<close> with one preservation lemma per handler
    (\<open>page_inv\<close>).
  \<^item> Submission (C7, C8, C9): the degraded-mode identifier, the failure branch and
    validation.
  \<^item> The rendered page (C13, C21, C22): an amount typed as an integer is posted as
    that integer rounded to a double: exactly for safe integers, so 9007199254740993 is
    posted as 9007199254740992; every sequence of DOM events is a run of
    \<open>page_step\<close> (the disabled send button is the submit guard); every render is
    well-formed (one highlighted tab, the active one; the card on its tab).
  \<^item> Refinement (C31): with one subscription, every run of events on it moves the
    page exactly as \<open>agg_event\<close> moves the specified aggregator.
  \<^item> Overlapping jobs (C2, C10, C11): concrete reachable traces in which the stream of
    an earlier job, never closed, downgrades \<open>done\<close> to \<open>failed\<close>, upgrades
    \<open>failed\<close> to \<open>done\<close>, and writes into the new job's log: there the refinement
    of C31 fails, as the specification's "close the previous subscription" is not done.
  \<^item> Graph data (C14 to C16, C18 to C20): soundness of the fraud filter, the
    dropped-endpoint invariant, totality of the filter on loaded data, all-or-nothing
    loading and the failure cases, node well-formedness.
  \<^item> Loading in the component (C17): an accepted load draws the graph and moves the
    camera once to the default pose; a rejected one leaves "Initializing 3D Engine" for
    ever, since the load effect never runs again.
  \<^item> Interaction and styling (C23 to C29): search found / not found, the camera
    offset on selection, the visual-analytics tooltip (the printed score is a decimal
    within 0.005 of the height; a non-numeric height throws), the node radius rules, the highlight of
    id-less nodes, the bounds of the link width.
  \<^item> The graph component's life cycle (C30, C34): no rendered control reaches the
    search or the fraud filter; after teardown the listener is gone, the fetch aborted and
    no stale write lands.
  \<^item> Control tower (C32, C33, C35): when a role token is issued and what it carries; on
    the login page only the role buttons and Login act, and a valid Login reloads the page
    with the role back at Admin.
  \<^item> The visual-analytics render (C36): ticking the fraud checkbox crashes the whole
    view exactly when the snapshot has a null or undefined node or link entry.
  \<^item> The visual-analytics timers (C37 to C40): every pending fit runs within 700 ms while
    mounted (by the invariant \<open>va_timers_future\<close> of reachable states); fits of replaced
    views are not cancelled; a fit pending at unmount throws; a failed fetch leaves the
    loading message forever.

  \<^medskip>
  \<^bold>\<open>Bounds and termination.\<close> No loop of the code is unbounded: every recursion of the
  model is structural (lists, the digits of a number), so no fuel is needed. The only
  delay of the code is the 700 ms \<open>setTimeout\<close> of the visual-analytics view; the timer
  claims run the clock for 700 ticks because every pending timeout is due within 700 ms of
  the current time in every reachable state. The stream has
  no timeout in the code; a stalled pipeline is a state with an open stream and status
  \<open>running\<close>, in which no step is forced.

  \<^medskip>
  \<^bold>\<open>Not modelled.\<close> Styling classes (kept only where they depend on the state) and
  emoji; the force layout itself (its output is the \<open>positions\<close> field); the window
  size (an input of the resize events); \<open>JSON.parse\<close>, \<open>res.json()\<close>, \<open>auth()\<close>,
  \<open>jwt.sign\<close>, \<open>mongoose.connect\<close> and \<open>User.find\<close> (their results are inputs);
  \<open>Footer\<close> and \<open>VisualAnalyticsCard\<close>, which are not in the repository; the
  visual-analytics \<open>App.jsx\<close>, which only renders its component; the legend markup of
  the visual-analytics view. The zoom constants of \<open>FraudGraph3D\<close>
  are never used by the code, so there is no zoom operation to model. \<open>handleSearch\<close>
  is modelled (C23, C24) but no rendered control calls it (C30), so its interplay with
  a parent that feeds the found node back as \<open>selectedNode\<close> is not claimed.
  \<open>Number()\<close> of a literal beyond the largest double (\<open>Infinity\<close> in JavaScript)
  stays finite in the model; no claim depends on such values. \<open>jwt.sign\<close> throwing is
  not modelled, and the force engine's in-place replacement of link endpoints is only
  modelled in the filter that reads them (\<open>link_endpoint\<close>).

  \<^medskip>
  \<^bold>\<open>Further work.\<close> The page's submission flow against an abstract
  investigation controller (submit, reset, start stream); the page composed with the
  stream log as one view (\<open>render_page\<close> over \<open>page_reachable\<close>); a termination or
  fuel claim if a later version of the code adds a retry or polling loop.
\<close>

end
